theory Spec2Isabelle
  imports Main "HOL-Library.Word" "HOL-Library.AList"
begin

unbundle bit_operations_syntax

section \<open>Byte order of 128-bit UUID values\<close>

text \<open>
  Modelled from the spec: the declaration of \<open>quint128\<close> (\<open>qbluetoothuuid.h\<close>) is
  missing from the sources. The spec does not describe it; \<open>qbswap\<close> reads and writes
  the members \<open>data[0]\<close> to \<open>data[15]\<close> of its argument and its result, so the type is
  the struct of one array of 16 bytes: the byte lists of length exactly 16, read with
  \<open>data\<close> and written with \<open>data_upd\<close>.
\<close>

type_synonym quint8 = "8 word"

typedef quint128 = "{xs :: quint8 list. length xs = 16}"
  by (rule exI [of _ "replicate 16 0"]) simp

definition data :: "quint128 \<Rightarrow> nat \<Rightarrow> quint8" where
  "data q i = Rep_quint128 q ! i"

definition data_upd :: "quint128 \<Rightarrow> nat \<Rightarrow> quint8 \<Rightarrow> quint128" where
  "data_upd q i v = Abs_quint128 ((Rep_quint128 q)[i := v])"

definition quint128_of :: "quint8 list \<Rightarrow> quint128" where
  "quint128_of xs = Abs_quint128 (take 16 xs @ replicate (16 - length xs) 0)"

text \<open>
  \<^verbatim>\<open>for (int i = 0; i < 16; i++) dst.data[i] = src.data[15 - i];\<close>
  The loop counter runs upwards, so the recursion is on \<open>16 - i\<close>.
\<close>

function qbswap_loop :: "nat \<Rightarrow> quint128 \<Rightarrow> quint128 \<Rightarrow> quint128" where
  "qbswap_loop i src dst =
     (if i < 16 then qbswap_loop (i + 1) src (data_upd dst i (data src (15 - i))) else dst)"
  by pat_completeness auto
termination
  by (relation "measure (\<lambda>(i, src, dst). 16 - i)") auto

declare qbswap_loop.simps [simp del]

text \<open>
  \<open>quint128 dst;\<close> is declared without an initialiser: its starting contents are
  whatever the stack holds, passed here as the first argument.
\<close>

definition qbswap :: "quint128 \<Rightarrow> quint128 \<Rightarrow> quint128" where
  "qbswap uninitialised src = qbswap_loop 0 src uninitialised"


section \<open>Android: registering the native methods\<close>

text \<open>
  \<open>jni_android.cpp\<close>. A \<open>jint\<close> is a signed 32-bit integer; \<open>JNI_OK\<close>,
  \<open>JNI_FALSE\<close> and \<open>JNI_VERSION_1_6\<close> come from \<open>jni.h\<close>, which is not part of the
  sources, and carry the values that header gives them. A native method table entry is
  its Java name, its signature and the name of the C++ function it is bound to.
\<close>

type_synonym jint = "32 word"
type_synonym jclass = nat
type_synonym JNINativeMethod = "string \<times> string \<times> string"

definition JNI_OK :: jint where
  "JNI_OK = 0"

definition JNI_VERSION_1_6 :: jint where
  "JNI_VERSION_1_6 = 0x00010006"

definition methods :: "JNINativeMethod list" where
  "methods =
    [(''jniOnReceive'', ''(JLandroid/content/Context;Landroid/content/Intent;)V'',
        ''QtBroadcastReceiver_jniOnReceive'')]"

definition methods_le :: "JNINativeMethod list" where
  "methods_le =
    [(''leScanResult'', ''(JLandroid/bluetooth/BluetoothDevice;I[B)V'',
        ''QtBluetoothLE_leScanResult''),
     (''leConnectionStateChange'', ''(JII)V'',
        ''LowEnergyNotificationHub::lowEnergy_connectionChange''),
     (''leMtuChanged'', ''(JI)V'',
        ''LowEnergyNotificationHub::lowEnergy_mtuChanged''),
     (''leServicesDiscovered'', ''(JILjava/lang/String;)V'',
        ''LowEnergyNotificationHub::lowEnergy_servicesDiscovered''),
     (''leServiceDetailDiscoveryFinished'', ''(JLjava/lang/String;II)V'',
        ''LowEnergyNotificationHub::lowEnergy_serviceDetailsDiscovered''),
     (''leCharacteristicRead'', ''(JLjava/lang/String;ILjava/lang/String;I[B)V'',
        ''LowEnergyNotificationHub::lowEnergy_characteristicRead''),
     (''leDescriptorRead'', ''(JLjava/lang/String;Ljava/lang/String;ILjava/lang/String;[B)V'',
        ''LowEnergyNotificationHub::lowEnergy_descriptorRead''),
     (''leCharacteristicWritten'', ''(JI[BI)V'',
        ''LowEnergyNotificationHub::lowEnergy_characteristicWritten''),
     (''leDescriptorWritten'', ''(JI[BI)V'',
        ''LowEnergyNotificationHub::lowEnergy_descriptorWritten''),
     (''leCharacteristicChanged'', ''(JI[B)V'',
        ''LowEnergyNotificationHub::lowEnergy_characteristicChanged''),
     (''leServiceError'', ''(JII)V'',
        ''LowEnergyNotificationHub::lowEnergy_serviceError'')]"

definition methods_leServer :: "JNINativeMethod list" where
  "methods_leServer =
    [(''leServerConnectionStateChange'', ''(JII)V'',
        ''LowEnergyNotificationHub::lowEnergy_connectionChange''),
     (''leMtuChanged'', ''(JI)V'',
        ''LowEnergyNotificationHub::lowEnergy_mtuChanged''),
     (''leServerAdvertisementError'', ''(JI)V'',
        ''LowEnergyNotificationHub::lowEnergy_advertisementError''),
     (''leServerCharacteristicChanged'', ''(JLandroid/bluetooth/BluetoothGattCharacteristic;[B)V'',
        ''LowEnergyNotificationHub::lowEnergy_serverCharacteristicChanged''),
     (''leServerDescriptorWritten'', ''(JLandroid/bluetooth/BluetoothGattDescriptor;[B)V'',
        ''LowEnergyNotificationHub::lowEnergy_serverDescriptorWritten'')]"

definition methods_server :: "JNINativeMethod list" where
  "methods_server =
    [(''errorOccurred'', ''(JI)V'', ''QtBluetoothSocketServer_errorOccurred''),
     (''newSocket'', ''(JLandroid/bluetooth/BluetoothSocket;)V'',
        ''QtBluetoothSocketServer_newSocket'')]"

definition methods_inputStream :: "JNINativeMethod list" where
  "methods_inputStream =
    [(''errorOccurred'', ''(JI)V'', ''QtBluetoothInputStreamThread_errorOccurred''),
     (''readyData'', ''(J[BI)V'', ''QtBluetoothInputStreamThread_readyData'')]"

text \<open>
  The Java environment answers two calls: \<open>FindClass\<close> (\<open>None\<close> is the null
  \<open>jclass\<close>) and \<open>RegisterNatives\<close>, given the class, the table and the number of its
  entries. What the calls answer is the environment's business, so both are fields
  of the record.
\<close>

record JNIEnv =
  FindClass :: "string \<Rightarrow> jclass option"
  RegisterNatives :: "jclass \<Rightarrow> JNINativeMethod list \<Rightarrow> jint \<Rightarrow> jint"

text \<open>
  \<open>registerNatives\<close> returns its \<open>bool\<close> together with the names of the classes
  whose \<open>RegisterNatives\<close> call was made, in order. \<open>FIND_AND_CHECK_CLASS\<close> expands to
  the lookup and \<open>return JNI_FALSE\<close> (that is, \<open>false\<close>) on a null class; the five
  blocks are written out as the source has them. \<open>sizeof(t) / sizeof(t[0])\<close> is the
  number of entries of the table.
\<close>

definition registerNatives :: "JNIEnv \<Rightarrow> bool \<times> string list" where
  "registerNatives env =
    (case FindClass env ''org/qtproject/qt/android/bluetooth/QtBluetoothBroadcastReceiver'' of
       None \<Rightarrow> (False, [])
     | Some clazz \<Rightarrow>
    if RegisterNatives env clazz methods (of_nat (length methods)) <s 0
    then (False, [''org/qtproject/qt/android/bluetooth/QtBluetoothBroadcastReceiver''])
    else
    (case FindClass env ''org/qtproject/qt/android/bluetooth/QtBluetoothLE'' of
       None \<Rightarrow> (False, [''org/qtproject/qt/android/bluetooth/QtBluetoothBroadcastReceiver''])
     | Some clazz \<Rightarrow>
    if RegisterNatives env clazz methods_le (of_nat (length methods_le)) <s 0
    then (False, [''org/qtproject/qt/android/bluetooth/QtBluetoothBroadcastReceiver'',
                  ''org/qtproject/qt/android/bluetooth/QtBluetoothLE''])
    else
    (case FindClass env ''org/qtproject/qt/android/bluetooth/QtBluetoothLEServer'' of
       None \<Rightarrow> (False, [''org/qtproject/qt/android/bluetooth/QtBluetoothBroadcastReceiver'',
                        ''org/qtproject/qt/android/bluetooth/QtBluetoothLE''])
     | Some clazz \<Rightarrow>
    if RegisterNatives env clazz methods_leServer (of_nat (length methods_leServer)) <s 0
    then (False, [''org/qtproject/qt/android/bluetooth/QtBluetoothBroadcastReceiver'',
                  ''org/qtproject/qt/android/bluetooth/QtBluetoothLE'',
                  ''org/qtproject/qt/android/bluetooth/QtBluetoothLEServer''])
    else
    (case FindClass env ''org/qtproject/qt/android/bluetooth/QtBluetoothSocketServer'' of
       None \<Rightarrow> (False, [''org/qtproject/qt/android/bluetooth/QtBluetoothBroadcastReceiver'',
                        ''org/qtproject/qt/android/bluetooth/QtBluetoothLE'',
                        ''org/qtproject/qt/android/bluetooth/QtBluetoothLEServer''])
     | Some clazz \<Rightarrow>
    if RegisterNatives env clazz methods_server (of_nat (length methods_server)) <s 0
    then (False, [''org/qtproject/qt/android/bluetooth/QtBluetoothBroadcastReceiver'',
                  ''org/qtproject/qt/android/bluetooth/QtBluetoothLE'',
                  ''org/qtproject/qt/android/bluetooth/QtBluetoothLEServer'',
                  ''org/qtproject/qt/android/bluetooth/QtBluetoothSocketServer''])
    else
    (case FindClass env ''org/qtproject/qt/android/bluetooth/QtBluetoothInputStreamThread'' of
       None \<Rightarrow> (False, [''org/qtproject/qt/android/bluetooth/QtBluetoothBroadcastReceiver'',
                        ''org/qtproject/qt/android/bluetooth/QtBluetoothLE'',
                        ''org/qtproject/qt/android/bluetooth/QtBluetoothLEServer'',
                        ''org/qtproject/qt/android/bluetooth/QtBluetoothSocketServer''])
     | Some clazz \<Rightarrow>
    if RegisterNatives env clazz methods_inputStream (of_nat (length methods_inputStream)) <s 0
    then (False, [''org/qtproject/qt/android/bluetooth/QtBluetoothBroadcastReceiver'',
                  ''org/qtproject/qt/android/bluetooth/QtBluetoothLE'',
                  ''org/qtproject/qt/android/bluetooth/QtBluetoothLEServer'',
                  ''org/qtproject/qt/android/bluetooth/QtBluetoothSocketServer'',
                  ''org/qtproject/qt/android/bluetooth/QtBluetoothInputStreamThread''])
    else
      (True, [''org/qtproject/qt/android/bluetooth/QtBluetoothBroadcastReceiver'',
              ''org/qtproject/qt/android/bluetooth/QtBluetoothLE'',
              ''org/qtproject/qt/android/bluetooth/QtBluetoothLEServer'',
              ''org/qtproject/qt/android/bluetooth/QtBluetoothSocketServer'',
              ''org/qtproject/qt/android/bluetooth/QtBluetoothInputStreamThread'']))))))"

text \<open>
  \<open>JNI_OnLoad\<close> keeps the function-local \<open>static bool initialized\<close>: the model takes
  its value and returns the new one, between the returned \<open>jint\<close> and the classes
  registered by this call. \<open>GetEnv\<close> answers a status and the environment.
\<close>

record JavaVM =
  GetEnv :: "jint \<Rightarrow> jint \<times> JNIEnv"

definition JNI_OnLoad :: "JavaVM \<Rightarrow> bool \<Rightarrow> jint \<times> bool \<times> string list" where
  "JNI_OnLoad vm initialized =
    (if initialized then (JNI_VERSION_1_6, initialized, [])
     else
       (case GetEnv vm JNI_VERSION_1_6 of (rc, env) \<Rightarrow>
          if rc \<noteq> JNI_OK then (- 1, True, [])
          else
            (case registerNatives env of (ok, registered) \<Rightarrow>
               if \<not> ok then (- 1, True, registered)
               else (JNI_VERSION_1_6, True, registered))))"

text \<open>
  The five bridge classes with their tables, in the order of the source, and the
  reading of ``registration stops at the first failing class'' that the code is
  compared with: a class fails when it is not found or when \<open>RegisterNatives\<close>
  answers a negative value.
\<close>

definition bridge_classes :: "(string \<times> JNINativeMethod list) list" where
  "bridge_classes =
    [(''org/qtproject/qt/android/bluetooth/QtBluetoothBroadcastReceiver'', methods),
     (''org/qtproject/qt/android/bluetooth/QtBluetoothLE'', methods_le),
     (''org/qtproject/qt/android/bluetooth/QtBluetoothLEServer'', methods_leServer),
     (''org/qtproject/qt/android/bluetooth/QtBluetoothSocketServer'', methods_server),
     (''org/qtproject/qt/android/bluetooth/QtBluetoothInputStreamThread'', methods_inputStream)]"

definition class_registers :: "JNIEnv \<Rightarrow> string \<times> JNINativeMethod list \<Rightarrow> bool" where
  "class_registers env c =
    (case FindClass env (fst c) of
       None \<Rightarrow> False
     | Some clazz \<Rightarrow> \<not> RegisterNatives env clazz (snd c) (of_nat (length (snd c))) <s 0)"

fun registered_until_failure :: "JNIEnv \<Rightarrow> (string \<times> JNINativeMethod list) list \<Rightarrow> string list" where
  "registered_until_failure env [] = []"
| "registered_until_failure env (c # cs) =
    (case FindClass env (fst c) of
       None \<Rightarrow> []
     | Some clazz \<Rightarrow>
         if class_registers env c then fst c # registered_until_failure env cs else [fst c])"

section \<open>Generating the D-Bus proxy stubs\<close>

text \<open>
  The shell script that runs \<open>qdbusxml2cpp\<close> over the interface descriptions. The
  shell's state is the file system (file name to contents) and the list of external
  commands run so far, each with its argument words. What \<open>qdbusxml2cpp\<close> writes is
  not the script's business: the tool is a parameter that maps its argument words and
  the file system to the new file system.
\<close>

type_synonym filesystem = "string \<rightharpoonup> string"

record shell =
  files :: filesystem
  commands :: "string list list"

definition QGLOBAL_P_H :: string where
  "QGLOBAL_P_H = ''QtCore/private/qglobal_p.h''"

text \<open>
  An expansion outside double quotes is split into fields at the characters of the
  default \<open>IFS\<close> (space, tab, newline); empty fields are dropped. Each field then
  undergoes pathname expansion: a field that holds \<open>*\<close>, \<open>?\<close> or \<open>[\<close> is a pattern and
  is replaced by the names of the files that match it, and is left as it stands when
  there are none. Which names match a pattern in a file system is the parameter
  \<open>matches\<close>.
\<close>

definition IFS :: "char set" where
  "IFS = {CHR 0x20, CHR 0x09, CHR 0x0A}"

fun split_fields :: "string \<Rightarrow> string \<Rightarrow> string list" where
  "split_fields cur [] = (if cur = [] then [] else [cur])"
| "split_fields cur (c # cs) =
    (if c \<in> IFS then (if cur = [] then split_fields [] cs else cur # split_fields [] cs)
     else split_fields (cur @ [c]) cs)"

definition pattern_characters :: "char set" where
  "pattern_characters = {CHR 0x2A, CHR 0x3F, CHR 0x5B}"

definition pathname_expansion ::
  "(filesystem \<Rightarrow> string \<Rightarrow> string list) \<Rightarrow> filesystem \<Rightarrow> string \<Rightarrow> string list" where
  "pathname_expansion matches fs field =
     (if set field \<inter> pattern_characters = {} then [field]
      else (case matches fs field of [] \<Rightarrow> [field] | n # names \<Rightarrow> n # names))"

definition unquoted ::
  "(filesystem \<Rightarrow> string \<Rightarrow> string list) \<Rightarrow> filesystem \<Rightarrow> string \<Rightarrow> string list" where
  "unquoted matches fs w = concat (map (pathname_expansion matches fs) (split_fields [] w))"

text \<open>
  \<open>echo\<close> writes its operand and a newline. For an operand that holds a backslash the
  output depends on which shell \<open>/bin/sh\<close> is (some replace escape sequences): it is
  the parameter \<open>escapes\<close>. \<open>>> file\<close> appends, creating the file.
\<close>

definition echo :: "(string \<Rightarrow> string) \<Rightarrow> string \<Rightarrow> string" where
  "echo escapes operand =
     (if CHR 0x5C \<in> set operand then escapes operand else operand @ [CHR 0x0A])"

definition append_to :: "string \<Rightarrow> string \<Rightarrow> filesystem \<Rightarrow> filesystem" where
  "append_to file out fs = fs(file \<mapsto> (case fs file of None \<Rightarrow> out | Some old \<Rightarrow> old @ out))"

text \<open>
  What the script takes from its surroundings: the tool, the names a pattern matches,
  and \<open>echo\<close>'s treatment of backslashes.
\<close>

record environment =
  qdbusxml2cpp :: "string list \<Rightarrow> filesystem \<Rightarrow> filesystem"
  matches :: "filesystem \<Rightarrow> string \<Rightarrow> string list"
  escapes :: "string \<Rightarrow> string"

text \<open>
  \<open>process\<close>: \<open>$1\<close> is the base name, \<open>$2\<close> the XML file, and \<open>"$@"\<close> after the two
  \<open>shift\<close>s the remaining words, each kept whole. \<open>$HEADER_FILE:$CPP_FILE\<close> stands
  outside quotes, the other expansions inside.
\<close>

definition process :: "environment \<Rightarrow> string \<Rightarrow> string \<Rightarrow> string list \<Rightarrow> shell \<Rightarrow> shell" where
  "process env CPP_BASENAME XML_FILE rest sh =
    (let HEADER_FILE = CPP_BASENAME @ ''_p.h'';
         CPP_FILE = CPP_BASENAME @ ''.cpp'';
         argv = rest @ [''-i'', QGLOBAL_P_H, ''-p'']
                  @ unquoted (matches env) (files sh) (HEADER_FILE @ '':'' @ CPP_FILE)
                  @ [XML_FILE];
         sh1 = sh\<lparr>files := qdbusxml2cpp env argv (files sh),
                  commands := commands sh @ [''qdbusxml2cpp'' # argv]\<rparr>;
         MOC_FILE = ''moc_'' @ CPP_BASENAME @ ''_p.cpp'';
         sh2 = sh1\<lparr>files := append_to CPP_FILE (echo (escapes env) []) (files sh1)\<rparr>
     in sh2\<lparr>files := append_to CPP_FILE
                  (echo (escapes env) (''#include '' @ [CHR 0x22] @ MOC_FILE @ [CHR 0x22]))
                  (files sh2)\<rparr>)"

definition script :: "environment \<Rightarrow> shell \<Rightarrow> shell" where
  "script env sh =
    (let sh = process env ''adapter1_bluez5'' ''org.bluez.Adapter1.xml'' [] sh;
         sh = process env ''device1_bluez5'' ''org.bluez.Device1.xml''
                [''-i'', ''bluez5_helper_p.h''] sh;
         sh = process env ''profilemanager1'' ''org.bluez.ProfileManager1.xml'' [] sh;
         sh = process env ''profile1'' ''org.bluez.Profile1.xml'' [] sh;
         sh = process env ''objectmanager'' ''org.freedesktop.dbus.objectmanager.xml''
                [''-i'', ''bluez5_helper_p.h''] sh;
         sh = process env ''properties'' ''org.freedesktop.dbus.properties.xml'' [] sh;
         sh = process env ''gattchar1'' ''org.bluez.GattCharacteristic1.xml'' [] sh;
         sh = process env ''gattdesc1'' ''org.bluez.GattDescriptor1.xml'' [] sh;
         sh = process env ''gattservice1'' ''org.bluez.GattService1.xml'' [] sh
     in process env ''battery1'' ''org.bluez.Battery1.xml'' [] sh)"

text \<open>
  What one call of \<open>process\<close> is expected to do, for the comparison with the code: the
  command line it runs, and the text it appends to the \<open>.cpp\<close> file. The ten calls
  of the script are listed with their base name, XML file and further words.
\<close>

definition process_command :: "string \<Rightarrow> string \<Rightarrow> string list \<Rightarrow> string list" where
  "process_command B X rest =
    ''qdbusxml2cpp'' # rest @ [''-i'', ''QtCore/private/qglobal_p.h'', ''-p'',
       B @ ''_p.h:'' @ B @ ''.cpp'', X]"

definition moc_include :: "string \<Rightarrow> string" where
  "moc_include B = [CHR 0x0A] @ ''#include '' @ [CHR 0x22] @ ''moc_'' @ B @ ''_p.cpp'' @ [CHR 0x22, CHR 0x0A]"

definition invocations :: "(string \<times> string \<times> string list) list" where
  "invocations =
    [(''adapter1_bluez5'', ''org.bluez.Adapter1.xml'', []),
     (''device1_bluez5'', ''org.bluez.Device1.xml'', [''-i'', ''bluez5_helper_p.h'']),
     (''profilemanager1'', ''org.bluez.ProfileManager1.xml'', []),
     (''profile1'', ''org.bluez.Profile1.xml'', []),
     (''objectmanager'', ''org.freedesktop.dbus.objectmanager.xml'', [''-i'', ''bluez5_helper_p.h'']),
     (''properties'', ''org.freedesktop.dbus.properties.xml'', []),
     (''gattchar1'', ''org.bluez.GattCharacteristic1.xml'', []),
     (''gattdesc1'', ''org.bluez.GattDescriptor1.xml'', []),
     (''gattservice1'', ''org.bluez.GattService1.xml'', []),
     (''battery1'', ''org.bluez.Battery1.xml'', [])]"

section \<open>The framework's value types\<close>

type_synonym quint16 = "16 word"
type_synonym qint16 = "16 word"
type_synonym quint32 = "32 word"
type_synonym quint64 = "64 word"
type_synonym QByteArray = "quint8 list"

subsection \<open>Flags\<close>

text \<open>
  \<open>QFlags<Enum>\<close> of the core library stores an \<open>int\<close>. \<open>testFlag\<close> asks whether
  all bits of the flag are set and, for the flag with no bits, whether the value
  itself is zero; \<open>setFlag\<close> sets the bits of the flag.
\<close>

type_synonym QFlags = "32 word"

definition testFlag :: "QFlags \<Rightarrow> 32 word \<Rightarrow> bool" where
  "testFlag i flag \<longleftrightarrow> (i AND flag) = flag \<and> (flag \<noteq> 0 \<or> i = flag)"

definition setFlag :: "QFlags \<Rightarrow> 32 word \<Rightarrow> QFlags" where
  "setFlag i flag = i OR flag"

text \<open>
  Modelled from the spec: the enumerations \<open>QBluetoothDeviceDiscoveryAgent::DiscoveryMethod\<close>
  and \<open>QBluetoothDeviceDiscoveryAgent::Error\<close> (header
  \<open>qbluetoothdevicediscoveryagent.h\<close>) are missing from the sources. The spec speaks of
  one discovery API over classic and low-energy Bluetooth; the two methods are the
  single bits 1 and 2 of the flags value, and the agent's errors are the enumerators that
  the code under study names, among the others of the header.
\<close>

definition NoMethod :: "32 word" where
  "NoMethod = 0"

definition ClassicMethod :: "32 word" where
  "ClassicMethod = 1"

definition LowEnergyMethod :: "32 word" where
  "LowEnergyMethod = 2"

datatype Error =
    NoError
  | InputOutputError
  | PoweredOffError
  | InvalidBluetoothAdapterError
  | UnsupportedPlatformError
  | UnsupportedDiscoveryMethod
  | LocationServiceTurnedOffError
  | MissingPermissionsError
  | UnknownError

text \<open>
  Modelled from the spec: the enumerations \<open>QBluetoothDeviceInfo::Field\<close> and
  \<open>QBluetoothDeviceInfo::CoreConfiguration\<close> (header \<open>qbluetoothdeviceinfo.h\<close>) are
  missing from the sources. \<open>Field::None\<close> is the value without bits; \<open>RSSI\<close>,
  \<open>ManufacturerData\<close> and \<open>ServiceData\<close> are the bits 1, 2 and 4. The core
  configurations are low energy (1), base rate (2) and both (3).
\<close>

definition Field_None :: "32 word" where
  "Field_None = 0"

definition Field_RSSI :: "32 word" where
  "Field_RSSI = 1"

definition Field_ManufacturerData :: "32 word" where
  "Field_ManufacturerData = 2"

definition Field_ServiceData :: "32 word" where
  "Field_ServiceData = 4"

definition UnknownCoreConfiguration :: "32 word" where
  "UnknownCoreConfiguration = 0"

definition LowEnergyCoreConfiguration :: "32 word" where
  "LowEnergyCoreConfiguration = 1"

definition BaseRateCoreConfiguration :: "32 word" where
  "BaseRateCoreConfiguration = 2"

definition BaseRateAndLowEnergyCoreConfiguration :: "32 word" where
  "BaseRateAndLowEnergyCoreConfiguration = 3"

subsection \<open>UUIDs\<close>

text \<open>
  Modelled from the spec: the class \<open>QBluetoothUuid\<close> (\<open>qbluetoothuuid.h\<close>) is missing
  from the sources. A UUID is its 128-bit value; two UUIDs are equal when the values
  are. A 16-bit or 32-bit short form stands for the Bluetooth base UUID
  \<open>00000000-0000-1000-8000-00805F9B34FB\<close> with the short value in its first 32 bits;
  a \<open>quint128\<close> gives the 16 bytes of the value, first byte first; a platform \<open>GUID\<close>
  carries the value as it is.
\<close>

type_synonym QBluetoothUuid = "128 word"
type_synonym GUID = "128 word"

definition baseUuid :: "128 word" where
  "baseUuid = 0x0000000000001000800000805F9B34FB"

definition QBluetoothUuid_quint16 :: "quint16 \<Rightarrow> QBluetoothUuid" where
  "QBluetoothUuid_quint16 uuid = baseUuid OR push_bit 96 (ucast uuid)"

definition QBluetoothUuid_quint32 :: "quint32 \<Rightarrow> QBluetoothUuid" where
  "QBluetoothUuid_quint32 uuid = baseUuid OR push_bit 96 (ucast uuid)"

definition QBluetoothUuid_quint128 :: "quint128 \<Rightarrow> QBluetoothUuid" where
  "QBluetoothUuid_quint128 uuid =
     foldl (\<lambda>acc b. push_bit 8 acc OR ucast b) 0 (Rep_quint128 uuid)"

definition QBluetoothUuid_GUID :: "GUID \<Rightarrow> QBluetoothUuid" where
  "QBluetoothUuid_GUID uuid = uuid"

subsection \<open>Hashes\<close>

text \<open>
  Modelled from the spec: the aliases \<open>ManufacturerData\<close> and \<open>ServiceData\<close>
  (\<open>qbluetoothdevicediscoveryagent_p.h\<close>) are missing from the sources. They are the
  hashes from a company id, or a service UUID, to the bytes advertised for it.

  \<open>QHash<Key, T>\<close> of the core library, as an association list: \<open>insert\<close> replaces
  the value of a key that is present, \<open>value\<close> gives the default-constructed value for
  a key that is absent, inserting a whole hash inserts each of its items, and two
  hashes are equal when they map the same keys to the same values. The order of
  \<open>keys\<close> is the order of the list, which stands for the hash's own.
\<close>

type_synonym ManufacturerData = "(quint16 \<times> QByteArray) list"
type_synonym ServiceData = "(QBluetoothUuid \<times> QByteArray) list"

definition QHash_insert :: "'k \<Rightarrow> 'v \<Rightarrow> ('k \<times> 'v) list \<Rightarrow> ('k \<times> 'v) list" where
  "QHash_insert k v h = AList.update k v h"

definition QHash_insert_hash :: "('k \<times> 'v) list \<Rightarrow> ('k \<times> 'v) list \<Rightarrow> ('k \<times> 'v) list" where
  "QHash_insert_hash other h = fold (\<lambda>(k, v). QHash_insert k v) other h"

definition QHash_keys :: "('k \<times> 'v) list \<Rightarrow> 'k list" where
  "QHash_keys h = map fst h"

definition QHash_value :: "('k \<times> QByteArray) list \<Rightarrow> 'k \<Rightarrow> QByteArray" where
  "QHash_value h k = (case map_of h k of None \<Rightarrow> [] | Some v \<Rightarrow> v)"

definition QHash_eq :: "('k \<times> 'v) list \<Rightarrow> ('k \<times> 'v) list \<Rightarrow> bool" where
  "QHash_eq a b \<longleftrightarrow> map_of a = map_of b"

subsection \<open>Advertising data kept by the discovery worker\<close>

text \<open>
  The worker's private struct \<open>LEAdvertisingInfo\<close>; \<open>rssi\<close> starts at 0 and the
  containers start empty.
\<close>

record LEAdvertisingInfo =
  services :: "QBluetoothUuid list"
  manufacturerData :: ManufacturerData
  serviceData :: ServiceData
  rssi :: qint16

definition LEAdvertisingInfo_default :: LEAdvertisingInfo where
  "LEAdvertisingInfo_default =
     \<lparr>services = [], manufacturerData = [], serviceData = [], rssi = 0\<rparr>"

subsection \<open>Device descriptions\<close>

text \<open>
  Modelled from the spec: the class \<open>QBluetoothDeviceInfo\<close> (\<open>qbluetoothdeviceinfo.cpp\<close>)
  is missing from the sources. The spec names it only as part of the ``unified
  Bluetooth device-discovery'' API, so the record holds the attributes that the code
  under study reads and writes, the constructor takes address, name and class of
  device and leaves the rest empty, and each setter writes its own attribute and
  nothing else. Manufacturer and service data are multi-hashes: setting a pair that is
  present changes nothing, any other pair is added.
\<close>

record QBluetoothDeviceInfo =
  address :: quint64
  name :: string
  classOfDevice :: quint32
  rssi :: qint16
  serviceUuids :: "QBluetoothUuid list"
  manufacturerData :: "(quint16 \<times> QByteArray) list"
  serviceData :: "(QBluetoothUuid \<times> QByteArray) list"
  coreConfigurations :: QFlags
  cached :: bool

definition QBluetoothDeviceInfo_new :: "quint64 \<Rightarrow> string \<Rightarrow> quint32 \<Rightarrow> QBluetoothDeviceInfo" where
  "QBluetoothDeviceInfo_new a n c =
     \<lparr>address = a, name = n, classOfDevice = c, rssi = 0, serviceUuids = [],
      manufacturerData = [], serviceData = [],
      coreConfigurations = UnknownCoreConfiguration, cached = False\<rparr>"

definition setRssi :: "qint16 \<Rightarrow> QBluetoothDeviceInfo \<Rightarrow> QBluetoothDeviceInfo" where
  "setRssi signal d = d\<lparr>rssi := signal\<rparr>"

definition setServiceUuids :: "QBluetoothUuid list \<Rightarrow> QBluetoothDeviceInfo \<Rightarrow> QBluetoothDeviceInfo" where
  "setServiceUuids uuids d = d\<lparr>serviceUuids := uuids\<rparr>"

definition setCoreConfigurations :: "QFlags \<Rightarrow> QBluetoothDeviceInfo \<Rightarrow> QBluetoothDeviceInfo" where
  "setCoreConfigurations coreConfigs d = d\<lparr>coreConfigurations := coreConfigs\<rparr>"

definition setCached :: "bool \<Rightarrow> QBluetoothDeviceInfo \<Rightarrow> QBluetoothDeviceInfo" where
  "setCached c d = d\<lparr>cached := c\<rparr>"

definition setManufacturerData ::
  "quint16 \<Rightarrow> QByteArray \<Rightarrow> QBluetoothDeviceInfo \<Rightarrow> QBluetoothDeviceInfo" where
  "setManufacturerData manufacturerId bytes d =
     (if (manufacturerId, bytes) \<in> set (manufacturerData d) then d
      else d\<lparr>manufacturerData := (manufacturerId, bytes) # manufacturerData d\<rparr>)"

definition setServiceData ::
  "QBluetoothUuid \<Rightarrow> QByteArray \<Rightarrow> QBluetoothDeviceInfo \<Rightarrow> QBluetoothDeviceInfo" where
  "setServiceData serviceId bytes d =
     (if (serviceId, bytes) \<in> set (serviceData d) then d
      else d\<lparr>serviceData := (serviceId, bytes) # serviceData d\<rparr>)"

section \<open>The platform interfaces\<close>

text \<open>
  An \<open>HRESULT\<close> is a signed 32-bit value and \<open>FAILED(hr)\<close> is \<open>hr < 0\<close>. A method
  of a platform interface answers its \<open>HRESULT\<close> and the value it writes through its
  out-parameter; what it answers is the platform's business, so an interface is the
  record of the answers of its methods. A method with an argument is a function of it.
  An interface pointer that the source tests against null, or that may never have been
  set, is a \<open>ComPtr\<close>; the others are valid whenever the call that gave them succeeded.
\<close>

type_synonym HRESULT = "32 word"
type_synonym HSTRING = string
type_synonym IBuffer = QByteArray
type_synonym EventRegistrationToken = "64 word"

definition S_OK :: HRESULT where
  "S_OK = 0"

definition FAILED :: "HRESULT \<Rightarrow> bool" where
  "FAILED hr \<longleftrightarrow> hr <s 0"

datatype 'a ComPtr = Null | Ptr 'a

datatype AsyncStatus = Started | Completed | Canceled | AsyncStatus_Error

definition BluetoothError_Success :: "32 word" where
  "BluetoothError_Success = 0"

definition GattCommunicationStatus_Success :: "32 word" where
  "GattCommunicationStatus_Success = 0"

record 'a IVector =
  get_Size :: "HRESULT \<times> quint32"
  GetAt :: "quint32 \<Rightarrow> HRESULT \<times> 'a"

record 'r IAsyncOperation =
  put_Completed :: HRESULT
  GetResults :: "HRESULT \<times> 'r"

record IBluetoothLEManufacturerData =
  get_CompanyId :: "HRESULT \<times> quint16"
  get_Data :: "HRESULT \<times> IBuffer"

record IBluetoothLEAdvertisementDataSection =
  get_DataType :: "HRESULT \<times> quint8"
  get_Data :: "HRESULT \<times> IBuffer"

record IBluetoothLEAdvertisement =
  get_ManufacturerData :: "HRESULT \<times> IBluetoothLEManufacturerData IVector"
  GetSectionsByType :: "quint8 \<Rightarrow> HRESULT \<times> IBluetoothLEAdvertisementDataSection IVector"
  get_ServiceUuids :: "HRESULT \<times> GUID IVector"

record IBluetoothLEAdvertisementReceivedEventArgs =
  get_BluetoothAddress :: "HRESULT \<times> quint64"
  get_RawSignalStrengthInDBm :: "HRESULT \<times> qint16"
  get_Advertisement :: "HRESULT \<times> IBluetoothLEAdvertisement"

record IDeviceInformationPairing =
  get_IsPaired :: "HRESULT \<times> bool"

record IDeviceInformation2 =
  get_Pairing :: "HRESULT \<times> IDeviceInformationPairing"

record IDeviceInformation =
  get_Id :: "HRESULT \<times> HSTRING"
  As_IDeviceInformation2 :: "HRESULT \<times> IDeviceInformation2"

record IRfcommServiceId =
  get_Uuid :: "HRESULT \<times> GUID"

record IRfcommDeviceService =
  get_ServiceId :: "HRESULT \<times> IRfcommServiceId"

record IRfcommDeviceServicesResult =
  get_Error :: "HRESULT \<times> 32 word"
  get_Services :: "HRESULT \<times> IRfcommDeviceService IVector"

record IBluetoothDevice3 =
  GetRfcommServicesAsync :: "HRESULT \<times> IRfcommDeviceServicesResult IAsyncOperation"

record IBluetoothClassOfDevice =
  get_RawValue :: "HRESULT \<times> quint32"

record IBluetoothDevice =
  get_BluetoothAddress :: "HRESULT \<times> quint64"
  get_Name :: "HRESULT \<times> HSTRING"
  get_ClassOfDevice :: "HRESULT \<times> IBluetoothClassOfDevice"
  As_IBluetoothDevice3 :: "HRESULT \<times> IBluetoothDevice3"

record IGattDeviceService =
  get_Uuid :: "HRESULT \<times> GUID"

record IGattDeviceServicesResult =
  get_Status :: "HRESULT \<times> 32 word"
  get_Services :: "HRESULT \<times> IGattDeviceService IVector"

record IBluetoothLEDevice3 =
  GetGattServicesAsync :: "HRESULT \<times> IGattDeviceServicesResult IAsyncOperation"

record IBluetoothLEDevice2 =
  get_DeviceInformation :: "HRESULT \<times> IDeviceInformation ComPtr"

record IBluetoothLEDevice =
  get_BluetoothAddress :: "HRESULT \<times> quint64"
  get_Name :: "HRESULT \<times> HSTRING"
  As_IBluetoothLEDevice2 :: "HRESULT \<times> IBluetoothLEDevice2"
  As_IBluetoothLEDevice3 :: "HRESULT \<times> IBluetoothLEDevice3"

record IBluetoothDeviceStatics =
  GetDeviceSelector :: "HRESULT \<times> HSTRING"
  FromIdAsync :: "HSTRING \<Rightarrow> HRESULT \<times> IBluetoothDevice ComPtr IAsyncOperation"

record IBluetoothLEDeviceStatics =
  GetDeviceSelector :: "HRESULT \<times> HSTRING"
  FromIdAsync :: "HSTRING \<Rightarrow> HRESULT \<times> IBluetoothLEDevice ComPtr IAsyncOperation"
  FromBluetoothAddressAsync :: "quint64 \<Rightarrow> HRESULT \<times> IBluetoothLEDevice ComPtr IAsyncOperation"

record IDeviceInformationStatics =
  FindAllAsyncAqsFilter :: "HSTRING \<Rightarrow> HRESULT \<times> IDeviceInformation IVector IAsyncOperation"

text \<open>
  \<open>add_Received\<close> writes the registration token through its out-parameter: it is given
  the token's old value and answers the value the token has after the call.
\<close>

record IBluetoothLEAdvertisementWatcher =
  put_ScanningMode :: HRESULT
  add_Received :: "EventRegistrationToken \<Rightarrow> HRESULT \<times> EventRegistrationToken"
  Start :: HRESULT
  Stop :: HRESULT
  remove_Received :: "EventRegistrationToken \<Rightarrow> HRESULT"

text \<open>
  Modelled from the spec: \<open>byteArrayFromBuffer\<close> (\<open>qbluetoothutils_winrt_p.h\<close>) is
  missing from the sources. A platform buffer is modelled by the bytes it holds, and
  the helper gives these bytes as a byte array.
\<close>

definition byteArrayFromBuffer :: "IBuffer \<Rightarrow> QByteArray" where
  "byteArrayFromBuffer buffer = buffer"

section \<open>The discovery worker on WinRT\<close>

text \<open>
  The worker's members, and \<open>effects\<close>: what the worker has done to the outside so
  far, in order. A signal is emitted directly (\<open>emit\<close>) or through
  \<open>QMetaObject::invokeMethod\<close>; a callback handed to the platform is recorded with the
  values its lambda captured besides the guarded pointer to the worker. The mutex and
  the log output are left out.
\<close>

datatype worker_signal =
    deviceFound QBluetoothDeviceInfo
  | deviceDataChanged quint64 QFlags qint16 ManufacturerData ServiceData
  | errorOccured Error
  | scanFinished

datatype callback =
    DeviceDiscoveryCompleted "32 word"
  | AdvertisementReceived
  | ClassicDeviceFromIdCompleted
  | LEDeviceFromIdCompleted
  | LEDeviceFromAddressCompleted
  | RfcommServicesCompleted quint64 string quint32
  | LeServicesCompleted QBluetoothDeviceInfo

datatype worker_effect =
    Emit worker_signal
  | InvokeMethod worker_signal
  | Registered callback
  | DeleteLater

record worker =
  requestedModes :: quint8
  m_leWatcher :: "IBluetoothLEAdvertisementWatcher ComPtr"
  m_leDeviceAddedToken :: EventRegistrationToken
  m_foundLEDevicesMap :: "quint64 \<rightharpoonup> LEAdvertisingInfo"
  m_pendingPairedDevices :: "32 word"
  m_deviceStatics :: "IBluetoothDeviceStatics ComPtr"
  m_leDeviceStatics :: "IBluetoothLEDeviceStatics ComPtr"
  effects :: "worker_effect list"

definition emit :: "worker_signal \<Rightarrow> worker \<Rightarrow> worker" where
  "emit s w = w\<lparr>effects := effects w @ [Emit s]\<rparr>"

definition invokeMethod :: "worker_signal \<Rightarrow> worker \<Rightarrow> worker" where
  "invokeMethod s w = w\<lparr>effects := effects w @ [InvokeMethod s]\<rparr>"

definition registerCallback :: "callback \<Rightarrow> worker \<Rightarrow> worker" where
  "registerCallback cb w = w\<lparr>effects := effects w @ [Registered cb]\<rparr>"

subsection \<open>The checking macros\<close>

text \<open>
  Each macro tests the \<open>hr\<close> in scope. The model passes it that \<open>hr\<close>, what the
  \<open>ret\<close> statement of the call makes of the worker (the function's result on this
  path), and \<open>rest\<close>, the statements that follow the macro.
  \<^verbatim>\<open>if (FAILED(hr)) { emit errorOccured(error); qCWarning(...) << msg; ret; }\<close>
\<close>

definition EMIT_WORKER_ERROR_AND_RETURN_IF_FAILED ::
  "HRESULT \<Rightarrow> Error \<Rightarrow> (worker \<Rightarrow> 'r) \<Rightarrow> worker \<Rightarrow> 'r \<Rightarrow> 'r" where
  "EMIT_WORKER_ERROR_AND_RETURN_IF_FAILED hr error ret w rest =
     (if FAILED hr then ret (emit (errorOccured error) w) else rest)"

definition WARN_AND_RETURN_IF_FAILED :: "HRESULT \<Rightarrow> 'r \<Rightarrow> 'r \<Rightarrow> 'r" where
  "WARN_AND_RETURN_IF_FAILED hr ret rest = (if FAILED hr then ret else rest)"

definition WARN_AND_CONTINUE_IF_FAILED :: "HRESULT \<Rightarrow> 'r \<Rightarrow> 'r \<Rightarrow> 'r" where
  "WARN_AND_CONTINUE_IF_FAILED hr continue rest = (if FAILED hr then continue else rest)"

lemma EMIT_WORKER_ERROR_AND_RETURN_IF_FAILED_cong [fundef_cong]:
  "hr = hr' \<Longrightarrow> error = error' \<Longrightarrow> ret = ret' \<Longrightarrow> w = w' \<Longrightarrow> (\<not> FAILED hr' \<Longrightarrow> rest = rest') \<Longrightarrow>
   EMIT_WORKER_ERROR_AND_RETURN_IF_FAILED hr error ret w rest =
   EMIT_WORKER_ERROR_AND_RETURN_IF_FAILED hr' error' ret' w' rest'"
  by (simp add: EMIT_WORKER_ERROR_AND_RETURN_IF_FAILED_def)

lemma WARN_AND_RETURN_IF_FAILED_cong [fundef_cong]:
  "hr = hr' \<Longrightarrow> ret = ret' \<Longrightarrow> (\<not> FAILED hr' \<Longrightarrow> rest = rest') \<Longrightarrow>
   WARN_AND_RETURN_IF_FAILED hr ret rest = WARN_AND_RETURN_IF_FAILED hr' ret' rest'"
  by (simp add: WARN_AND_RETURN_IF_FAILED_def)

lemma WARN_AND_CONTINUE_IF_FAILED_cong [fundef_cong]:
  "hr = hr' \<Longrightarrow> (FAILED hr' \<Longrightarrow> continue = continue') \<Longrightarrow> (\<not> FAILED hr' \<Longrightarrow> rest = rest') \<Longrightarrow>
   WARN_AND_CONTINUE_IF_FAILED hr continue rest = WARN_AND_CONTINUE_IF_FAILED hr' continue' rest'"
  by (simp add: WARN_AND_CONTINUE_IF_FAILED_def)

subsection \<open>Reading an advertisement\<close>

text \<open>
  \<open>extractManufacturerData\<close>: the loop over the platform's list, the counter \<open>i\<close>
  running up to the size the list reported. The warning on a company id that is already
  present is log output only.
\<close>

function extractManufacturerData_loop ::
  "nat \<Rightarrow> nat \<Rightarrow> IBluetoothLEManufacturerData IVector \<Rightarrow> ManufacturerData \<Rightarrow> ManufacturerData" where
  "extractManufacturerData_loop i size' data' ret =
     (if i < size' then
        (case GetAt data' (of_nat i) of (hr, d) \<Rightarrow>
         WARN_AND_CONTINUE_IF_FAILED hr (extractManufacturerData_loop (i + 1) size' data' ret)
        (case get_CompanyId d of (hr, id') \<Rightarrow>
         WARN_AND_CONTINUE_IF_FAILED hr (extractManufacturerData_loop (i + 1) size' data' ret)
        (case IBluetoothLEManufacturerData.get_Data d of (hr, buffer) \<Rightarrow>
         WARN_AND_CONTINUE_IF_FAILED hr (extractManufacturerData_loop (i + 1) size' data' ret)
        (let bufferData = byteArrayFromBuffer buffer
         in extractManufacturerData_loop (i + 1) size' data' (QHash_insert id' bufferData ret)))))
      else ret)"
  by pat_completeness auto
termination
  by (relation "measure (\<lambda>(i, size', data', ret). size' - i)") auto

declare extractManufacturerData_loop.simps [simp del]

definition extractManufacturerData :: "IBluetoothLEAdvertisement \<Rightarrow> ManufacturerData" where
  "extractManufacturerData ad =
     (let ret = [] in
      case get_ManufacturerData ad of (hr, data') \<Rightarrow>
      WARN_AND_RETURN_IF_FAILED hr ret
      (case get_Size data' of (hr, size') \<Rightarrow>
       WARN_AND_RETURN_IF_FAILED hr ret
       (extractManufacturerData_loop 0 (unat size') data' ret)))"

text \<open>
  A byte array keeps its bytes followed by a terminating NUL, and \<open>constData()\<close>
  points at the first of them. What lies in memory after the NUL is not the array's: it
  is the parameter \<open>beyond\<close>. A \<open>const char *\<close> is modelled by the byte found at each
  offset from it.
\<close>

definition constData :: "(nat \<Rightarrow> quint8) \<Rightarrow> QByteArray \<Rightarrow> nat \<Rightarrow> quint8" where
  "constData beyond a offset =
     (if offset < length a then a ! offset
      else if offset = length a then 0
      else beyond (offset - length a - 1))"

text \<open>
  The readers of \<open>qendian.h\<close> on the little-endian hosts this file is built for:
  \<open>qFromLittleEndian<T>(ptr)\<close> copies \<open>sizeof(T)\<close> bytes from \<open>ptr\<close>, so for the
  integers the first byte is the lowest, and \<open>qToBigEndian\<close> swaps the bytes with the
  \<open>qbswap\<close> above. The source passes \<open>bufferData.constData()\<close> without looking at the
  array's size, so a short array is read through its NUL and into what follows it.
\<close>

definition qFromLittleEndian_quint16 :: "(nat \<Rightarrow> quint8) \<Rightarrow> quint16" where
  "qFromLittleEndian_quint16 src = ucast (src 0) OR push_bit 8 (ucast (src 1))"

definition qFromLittleEndian_quint32 :: "(nat \<Rightarrow> quint8) \<Rightarrow> quint32" where
  "qFromLittleEndian_quint32 src =
     ucast (src 0) OR push_bit 8 (ucast (src 1)) OR push_bit 16 (ucast (src 2))
       OR push_bit 24 (ucast (src 3))"

definition qFromLittleEndian_quint128 :: "(nat \<Rightarrow> quint8) \<Rightarrow> quint128" where
  "qFromLittleEndian_quint128 src = Abs_quint128 (map src [0..<16])"

definition qToBigEndian_quint128 :: "quint128 \<Rightarrow> quint128 \<Rightarrow> quint128" where
  "qToBigEndian_quint128 uninitialised source = qbswap uninitialised source"

text \<open>
  \<open>extractServiceData\<close>. \<open>bufferData + n\<close> adds an \<open>int\<close> to a \<open>const QByteArray\<close>;
  which \<open>operator+\<close> that is depends on the declarations of the core library's
  \<open>qbytearray.h\<close> and on how the library is configured, so the operator is the
  parameter \<open>byteArrayPlus\<close>. The destination of the byte swap is passed as for \<open>qbswap\<close>,
  and \<open>beyond\<close> gives the memory after the array that is made for the section with
  index \<open>i\<close> in the list asked for with \<open>serviceDataType\<close>. The inner loop is the
  function \<open>extractServiceData_sections\<close>, the outer one over the three section types
  \<open>extractServiceData_types\<close>; a failing call in the outer loop returns from the whole
  function.
\<close>

function extractServiceData_sections ::
  "(QByteArray \<Rightarrow> int \<Rightarrow> QByteArray) \<Rightarrow> quint128 \<Rightarrow> (nat \<Rightarrow> nat \<Rightarrow> quint8) \<Rightarrow> nat \<Rightarrow> nat \<Rightarrow>
   IBluetoothLEAdvertisementDataSection IVector \<Rightarrow> ServiceData \<Rightarrow> ServiceData" where
  "extractServiceData_sections byteArrayPlus u beyond i size' data_sections ret =
     (if i < size' then
        (case GetAt data_sections (of_nat i) of (hr, d) \<Rightarrow>
         WARN_AND_CONTINUE_IF_FAILED hr
           (extractServiceData_sections byteArrayPlus u beyond (i + 1) size' data_sections ret)
        (case get_DataType d of (hr, datatype) \<Rightarrow>
         WARN_AND_CONTINUE_IF_FAILED hr
           (extractServiceData_sections byteArrayPlus u beyond (i + 1) size' data_sections ret)
        (case IBluetoothLEAdvertisementDataSection.get_Data d of (hr, buffer) \<Rightarrow>
         WARN_AND_CONTINUE_IF_FAILED hr
           (extractServiceData_sections byteArrayPlus u beyond (i + 1) size' data_sections ret)
        (let bufferData = byteArrayFromBuffer buffer in
         if datatype = 0x16 then
           extractServiceData_sections byteArrayPlus u beyond (i + 1) size' data_sections
             (QHash_insert
                (QBluetoothUuid_quint16 (qFromLittleEndian_quint16 (constData (beyond i) bufferData)))
                (byteArrayPlus bufferData 2) ret)
         else if datatype = 0x20 then
           extractServiceData_sections byteArrayPlus u beyond (i + 1) size' data_sections
             (QHash_insert
                (QBluetoothUuid_quint32 (qFromLittleEndian_quint32 (constData (beyond i) bufferData)))
                (byteArrayPlus bufferData 4) ret)
         else if datatype = 0x21 then
           extractServiceData_sections byteArrayPlus u beyond (i + 1) size' data_sections
             (QHash_insert
                (QBluetoothUuid_quint128
                   (qToBigEndian_quint128 u
                      (qFromLittleEndian_quint128 (constData (beyond i) bufferData))))
                (byteArrayPlus bufferData 16) ret)
         else extractServiceData_sections byteArrayPlus u beyond (i + 1) size' data_sections ret))))
      else ret)"
  by pat_completeness auto
termination
  by (relation "measure (\<lambda>(byteArrayPlus, u, beyond, i, size', data_sections, ret). size' - i)") auto

declare extractServiceData_sections.simps [simp del]

fun extractServiceData_types ::
  "(QByteArray \<Rightarrow> int \<Rightarrow> QByteArray) \<Rightarrow> quint128 \<Rightarrow> (quint8 \<Rightarrow> nat \<Rightarrow> nat \<Rightarrow> quint8) \<Rightarrow> quint8 list \<Rightarrow>
   IBluetoothLEAdvertisement \<Rightarrow> ServiceData \<Rightarrow> ServiceData" where
  "extractServiceData_types byteArrayPlus u beyond [] ad ret = ret"
| "extractServiceData_types byteArrayPlus u beyond (serviceDataType # types) ad ret =
     (case GetSectionsByType ad serviceDataType of (hr, data_sections) \<Rightarrow>
      WARN_AND_RETURN_IF_FAILED hr ret
      (case get_Size data_sections of (hr, size') \<Rightarrow>
       WARN_AND_RETURN_IF_FAILED hr ret
       (let ret = extractServiceData_sections byteArrayPlus u (beyond serviceDataType) 0
                    (unat size') data_sections ret
        in extractServiceData_types byteArrayPlus u beyond types ad ret)))"

definition extractServiceData ::
  "(QByteArray \<Rightarrow> int \<Rightarrow> QByteArray) \<Rightarrow> quint128 \<Rightarrow> (quint8 \<Rightarrow> nat \<Rightarrow> nat \<Rightarrow> quint8) \<Rightarrow>
   IBluetoothLEAdvertisement \<Rightarrow> ServiceData" where
  "extractServiceData byteArrayPlus u beyond ad =
     (let ret = [];
          serviceDataTypes = [0x16, 0x20, 0x21]
      in extractServiceData_types byteArrayPlus u beyond serviceDataTypes ad ret)"

subsection \<open>Stopping and finishing\<close>

definition stopLEWatcher :: "worker \<Rightarrow> worker" where
  "stopLEWatcher w =
     (case m_leWatcher w of
        Null \<Rightarrow> w
      | Ptr watcher \<Rightarrow>
          EMIT_WORKER_ERROR_AND_RETURN_IF_FAILED (Stop watcher) UnknownError (\<lambda>w. w) w
          (if m_leDeviceAddedToken w \<noteq> 0 then
             EMIT_WORKER_ERROR_AND_RETURN_IF_FAILED
               (remove_Received watcher (m_leDeviceAddedToken w)) UnknownError (\<lambda>w. w) w
             w
           else w))"

definition finishDiscovery :: "worker \<Rightarrow> worker" where
  "finishDiscovery w =
     (let w = emit scanFinished w;
          w = stopLEWatcher w
      in w\<lparr>effects := effects w @ [DeleteLater]\<rparr>)"

text \<open>\<open>requestedModes\<close> is a \<open>quint8\<close>, widened to \<open>int\<close> where it meets an enumerator.\<close>

definition decrementPairedDevicesAndCheckFinished :: "worker \<Rightarrow> worker" where
  "decrementPairedDevicesAndCheckFinished w =
     (let w = w\<lparr>m_pendingPairedDevices := m_pendingPairedDevices w - 1\<rparr>
      in if m_pendingPairedDevices w = 0
            \<and> \<not> (ucast (requestedModes w) AND LowEnergyMethod \<noteq> 0)
         then finishDiscovery w else w)"

definition invokeDeviceFoundWithDebug :: "QBluetoothDeviceInfo \<Rightarrow> worker \<Rightarrow> worker" where
  "invokeDeviceFoundWithDebug info w = invokeMethod (deviceFound info) w"

subsection \<open>Low-energy devices\<close>

text \<open>
  \<open>onLeServicesReceived\<close>: the loop over the services carries the statements that
  follow it (storing the UUIDs in \<open>info\<close>, announcing the device, \<open>return S_OK\<close>), since
  a failing call inside the loop returns from the whole function.
\<close>

function onLeServicesReceived_loop ::
  "nat \<Rightarrow> nat \<Rightarrow> IGattDeviceService IVector \<Rightarrow> QBluetoothUuid list \<Rightarrow> QBluetoothDeviceInfo \<Rightarrow>
   worker \<Rightarrow> HRESULT \<times> worker" where
  "onLeServicesReceived_loop i serviceCount deviceServices uuids info w =
     (if i < serviceCount then
        (case GetAt deviceServices (of_nat i) of (hr, service) \<Rightarrow>
         EMIT_WORKER_ERROR_AND_RETURN_IF_FAILED hr UnknownError (\<lambda>w. (S_OK, w)) w
        (case IGattDeviceService.get_Uuid service of (hr, uuid) \<Rightarrow>
         EMIT_WORKER_ERROR_AND_RETURN_IF_FAILED hr UnknownError (\<lambda>w. (S_OK, w)) w
        (onLeServicesReceived_loop (i + 1) serviceCount deviceServices
           (uuids @ [QBluetoothUuid_GUID uuid]) info w)))
      else
        (let info = setServiceUuids uuids info
         in (S_OK, invokeDeviceFoundWithDebug info w)))"
  by pat_completeness auto
termination
  by (relation "measure (\<lambda>(i, serviceCount, deviceServices, uuids, info, w). serviceCount - i)") auto

declare onLeServicesReceived_loop.simps [simp del]

definition onLeServicesReceived ::
  "IGattDeviceServicesResult IAsyncOperation \<Rightarrow> AsyncStatus \<Rightarrow> QBluetoothDeviceInfo \<Rightarrow>
   worker \<Rightarrow> HRESULT \<times> worker" where
  "onLeServicesReceived op status info w =
     (if status \<noteq> Completed then (S_OK, w)
      else
        (case GetResults op of (hr, servicesResult) \<Rightarrow>
         EMIT_WORKER_ERROR_AND_RETURN_IF_FAILED hr UnknownError (\<lambda>w. (S_OK, w)) w
        (case get_Status servicesResult of (hr, commStatus) \<Rightarrow>
         EMIT_WORKER_ERROR_AND_RETURN_IF_FAILED hr UnknownError (\<lambda>w. (S_OK, w)) w
        (if commStatus = GattCommunicationStatus_Success then
           (case IGattDeviceServicesResult.get_Services servicesResult of (hr, deviceServices) \<Rightarrow>
            EMIT_WORKER_ERROR_AND_RETURN_IF_FAILED hr UnknownError (\<lambda>w. (S_OK, w)) w
           (case get_Size deviceServices of (hr, serviceCount) \<Rightarrow>
            EMIT_WORKER_ERROR_AND_RETURN_IF_FAILED hr UnknownError (\<lambda>w. (S_OK, w)) w
           (onLeServicesReceived_loop 0 (unat serviceCount) deviceServices [] info w)))
         else (S_OK, invokeDeviceFoundWithDebug info w)))))"

text \<open>
  The lambda handed to \<open>put_Completed\<close> in \<open>onBluetoothLEDeviceFound\<close>. Its guarded
  pointer \<open>thisPtr\<close> is \<open>None\<close> once the worker is destroyed; the lambda answers its
  \<open>HRESULT\<close> and the worker as it leaves it.
\<close>

definition LeServicesCompleted_lambda ::
  "worker option \<Rightarrow> QBluetoothDeviceInfo \<Rightarrow> IGattDeviceServicesResult IAsyncOperation \<Rightarrow>
   AsyncStatus \<Rightarrow> HRESULT \<times> worker option" where
  "LeServicesCompleted_lambda thisPtr info op status =
     (case thisPtr of
        Some w \<Rightarrow> (S_OK, Some (snd (onLeServicesReceived op status info w)))
      | None \<Rightarrow> (S_OK, None))"

definition QMap_value :: "(quint64 \<rightharpoonup> LEAdvertisingInfo) \<Rightarrow> quint64 \<Rightarrow> LEAdvertisingInfo" where
  "QMap_value m k = (case m k of None \<Rightarrow> LEAdvertisingInfo_default | Some v \<Rightarrow> v)"

definition onBluetoothLEDeviceFound :: "IBluetoothLEDevice ComPtr \<Rightarrow> worker \<Rightarrow> HRESULT \<times> worker" where
  "onBluetoothLEDeviceFound device w =
     (case device of
        Null \<Rightarrow> (S_OK, w)
      | Ptr dev \<Rightarrow>
        (case IBluetoothLEDevice.get_BluetoothAddress dev of (hr, address') \<Rightarrow>
         EMIT_WORKER_ERROR_AND_RETURN_IF_FAILED hr UnknownError (\<lambda>w. (S_OK, w)) w
        (case IBluetoothLEDevice.get_Name dev of (hr, name') \<Rightarrow>
         EMIT_WORKER_ERROR_AND_RETURN_IF_FAILED hr UnknownError (\<lambda>w. (S_OK, w)) w
        (let btName = name' in
         case As_IBluetoothLEDevice2 dev of (hr, device2) \<Rightarrow>
         EMIT_WORKER_ERROR_AND_RETURN_IF_FAILED hr UnknownError (\<lambda>w. (S_OK, w)) w
        (case get_DeviceInformation device2 of (hr, deviceInfo) \<Rightarrow>
         EMIT_WORKER_ERROR_AND_RETURN_IF_FAILED hr UnknownError (\<lambda>w. (S_OK, w)) w
        (case deviceInfo of
           Null \<Rightarrow> (S_OK, w)
         | Ptr deviceInfo \<Rightarrow>
        (case As_IDeviceInformation2 deviceInfo of (hr, deviceInfo2) \<Rightarrow>
         EMIT_WORKER_ERROR_AND_RETURN_IF_FAILED hr UnknownError (\<lambda>w. (S_OK, w)) w
        (case get_Pairing deviceInfo2 of (hr, pairing) \<Rightarrow>
         EMIT_WORKER_ERROR_AND_RETURN_IF_FAILED hr UnknownError (\<lambda>w. (S_OK, w)) w
        (case get_IsPaired pairing of (hr, isPaired) \<Rightarrow>
         EMIT_WORKER_ERROR_AND_RETURN_IF_FAILED hr UnknownError (\<lambda>w. (S_OK, w)) w
        (let adInfo = QMap_value (m_foundLEDevicesMap w) address';
             manufacturerData' = LEAdvertisingInfo.manufacturerData adInfo;
             serviceData' = LEAdvertisingInfo.serviceData adInfo;
             rssi' = LEAdvertisingInfo.rssi adInfo;
             info = QBluetoothDeviceInfo_new address' btName 0;
             info = setCoreConfigurations LowEnergyCoreConfiguration info;
             info = setRssi rssi' info;
             info = fold (\<lambda>key. setManufacturerData key (QHash_value manufacturerData' key))
                      (QHash_keys manufacturerData') info;
             info = fold (\<lambda>key. setServiceData key (QHash_value serviceData' key))
                      (QHash_keys serviceData') info;
             info = setCached True info
         in if \<not> isPaired then
              (let info = setServiceUuids (services adInfo) info
               in (S_OK, invokeDeviceFoundWithDebug info w))
            else
              (case As_IBluetoothLEDevice3 dev of (hr, device3) \<Rightarrow>
               EMIT_WORKER_ERROR_AND_RETURN_IF_FAILED hr UnknownError (\<lambda>w. (S_OK, w)) w
              (case GetGattServicesAsync device3 of (hr, servicesOp) \<Rightarrow>
               EMIT_WORKER_ERROR_AND_RETURN_IF_FAILED hr UnknownError (\<lambda>w. (S_OK, w)) w
              (let hr = put_Completed servicesOp in
               EMIT_WORKER_ERROR_AND_RETURN_IF_FAILED hr UnknownError (\<lambda>w. (S_OK, w)) w
               (S_OK, registerCallback (LeServicesCompleted info) w))))))))))))))"

definition onPairedBluetoothLEDeviceFoundAsync ::
  "IBluetoothLEDevice ComPtr IAsyncOperation \<Rightarrow> AsyncStatus \<Rightarrow> worker \<Rightarrow> HRESULT \<times> worker" where
  "onPairedBluetoothLEDeviceFoundAsync op status w =
     (let w = w\<lparr>m_pendingPairedDevices := m_pendingPairedDevices w - 1\<rparr>
      in if status \<noteq> Completed then (S_OK, w)
         else
           (case GetResults op of (hr, device) \<Rightarrow>
            EMIT_WORKER_ERROR_AND_RETURN_IF_FAILED hr UnknownError (\<lambda>w. (S_OK, w)) w
            (onBluetoothLEDeviceFound device w)))"

definition onBluetoothLEDeviceFoundAsync ::
  "IBluetoothLEDevice ComPtr IAsyncOperation \<Rightarrow> AsyncStatus \<Rightarrow> worker \<Rightarrow> HRESULT \<times> worker" where
  "onBluetoothLEDeviceFoundAsync op status w =
     (if status \<noteq> Completed then (S_OK, w)
      else
        (case GetResults op of (hr, device) \<Rightarrow>
         EMIT_WORKER_ERROR_AND_RETURN_IF_FAILED hr UnknownError (\<lambda>w. (S_OK, w)) w
         (onBluetoothLEDeviceFound device w)))"

text \<open>
  The lambdas handed to \<open>put_Completed\<close> for the two low-energy look-ups, by device
  id and by address.
\<close>

definition LEDeviceFromIdCompleted_lambda ::
  "worker option \<Rightarrow> IBluetoothLEDevice ComPtr IAsyncOperation \<Rightarrow> AsyncStatus \<Rightarrow>
   HRESULT \<times> worker option" where
  "LEDeviceFromIdCompleted_lambda thisPointer op status =
     (case thisPointer of
        Some w \<Rightarrow>
          if status = Completed
          then (S_OK, Some (snd (onPairedBluetoothLEDeviceFoundAsync op status w)))
          else (S_OK, Some (w\<lparr>m_pendingPairedDevices := m_pendingPairedDevices w - 1\<rparr>))
      | None \<Rightarrow> (S_OK, None))"

definition LEDeviceFromAddressCompleted_lambda ::
  "worker option \<Rightarrow> IBluetoothLEDevice ComPtr IAsyncOperation \<Rightarrow> AsyncStatus \<Rightarrow>
   HRESULT \<times> worker option" where
  "LEDeviceFromAddressCompleted_lambda thisPointer op status =
     (if status = Completed \<and> thisPointer \<noteq> None
      then (case thisPointer of
              Some w \<Rightarrow> (S_OK, Some (snd (onBluetoothLEDeviceFoundAsync op status w)))
            | None \<Rightarrow> (S_OK, None))
      else (S_OK, thisPointer))"

text \<open>
  The two look-ups call a method of \<open>m_leDeviceStatics\<close> without testing the pointer,
  which the constructor leaves null when it could not obtain the factory: the result
  \<open>None\<close> is the call through the null pointer.
\<close>

definition leBluetoothInfoFromDeviceIdAsync :: "HSTRING \<Rightarrow> worker \<Rightarrow> worker option" where
  "leBluetoothInfoFromDeviceIdAsync deviceId w =
     (case m_leDeviceStatics w of
        Null \<Rightarrow> None
      | Ptr statics \<Rightarrow>
        (case IBluetoothLEDeviceStatics.FromIdAsync statics deviceId of (hr, deviceFromIdOperation) \<Rightarrow>
         if FAILED hr then
           (let w = emit (errorOccured UnknownError) w
            in Some (w\<lparr>m_pendingPairedDevices := m_pendingPairedDevices w - 1\<rparr>))
         else
           (let hr = put_Completed deviceFromIdOperation in
            if FAILED hr then
              (let w = emit (errorOccured UnknownError) w
               in Some (w\<lparr>m_pendingPairedDevices := m_pendingPairedDevices w - 1\<rparr>))
            else Some (registerCallback LEDeviceFromIdCompleted w))))"

definition leBluetoothInfoFromAddressAsync :: "quint64 \<Rightarrow> worker \<Rightarrow> worker option" where
  "leBluetoothInfoFromAddressAsync address' w =
     (case m_leDeviceStatics w of
        Null \<Rightarrow> None
      | Ptr statics \<Rightarrow>
        (case FromBluetoothAddressAsync statics address' of (hr, deviceFromAddressOperation) \<Rightarrow>
         if FAILED hr then Some (emit (errorOccured UnknownError) w)
         else
           (let hr = put_Completed deviceFromAddressOperation in
            if FAILED hr then Some (emit (errorOccured UnknownError) w)
            else Some (registerCallback LEDeviceFromAddressCompleted w))))"

subsection \<open>Classic devices\<close>

text \<open>
  \<open>onRfcommServicesReceived\<close>: the scope guard runs
  \<open>decrementPairedDevicesAndCheckFinished\<close> on every way out, so the body is a function
  of its own and the guard is applied to what it leaves.
\<close>

function onRfcommServicesReceived_loop ::
  "nat \<Rightarrow> nat \<Rightarrow> IRfcommDeviceService IVector \<Rightarrow> QBluetoothUuid list \<Rightarrow> quint64 \<Rightarrow> quint32 \<Rightarrow>
   string \<Rightarrow> worker \<Rightarrow> HRESULT \<times> worker" where
  "onRfcommServicesReceived_loop i serviceCount deviceServices uuids address' classOfDeviceInt btName w =
     (if i < serviceCount then
        (case GetAt deviceServices (of_nat i) of (hr, service) \<Rightarrow>
         EMIT_WORKER_ERROR_AND_RETURN_IF_FAILED hr UnknownError (\<lambda>w. (S_OK, w)) w
        (case get_ServiceId service of (hr, id') \<Rightarrow>
         EMIT_WORKER_ERROR_AND_RETURN_IF_FAILED hr UnknownError (\<lambda>w. (S_OK, w)) w
        (case IRfcommServiceId.get_Uuid id' of (hr, uuid) \<Rightarrow>
         EMIT_WORKER_ERROR_AND_RETURN_IF_FAILED hr UnknownError (\<lambda>w. (S_OK, w)) w
        (onRfcommServicesReceived_loop (i + 1) serviceCount deviceServices
           (uuids @ [QBluetoothUuid_GUID uuid]) address' classOfDeviceInt btName w))))
      else
        (let info = QBluetoothDeviceInfo_new address' btName classOfDeviceInt;
             info = setCoreConfigurations BaseRateCoreConfiguration info;
             info = setServiceUuids uuids info;
             info = setCached True info
         in (S_OK, invokeMethod (deviceFound info) w)))"
  by pat_completeness auto
termination
  by (relation "measure (\<lambda>(i, serviceCount, deviceServices, uuids, address', classOfDeviceInt, btName, w).
        serviceCount - i)") auto

declare onRfcommServicesReceived_loop.simps [simp del]

definition onRfcommServicesReceived_body ::
  "IRfcommDeviceServicesResult IAsyncOperation \<Rightarrow> AsyncStatus \<Rightarrow> quint64 \<Rightarrow> quint32 \<Rightarrow> string \<Rightarrow>
   worker \<Rightarrow> HRESULT \<times> worker" where
  "onRfcommServicesReceived_body op status address' classOfDeviceInt btName w =
     (if status \<noteq> Completed then (S_OK, w)
      else
        (case GetResults op of (hr, servicesResult) \<Rightarrow>
         EMIT_WORKER_ERROR_AND_RETURN_IF_FAILED hr UnknownError (\<lambda>w. (S_OK, w)) w
        (case get_Error servicesResult of (hr, error) \<Rightarrow>
         EMIT_WORKER_ERROR_AND_RETURN_IF_FAILED hr UnknownError (\<lambda>w. (S_OK, w)) w
        (if error \<noteq> BluetoothError_Success then (S_OK, w)
         else
           (case IRfcommDeviceServicesResult.get_Services servicesResult of (hr, deviceServices) \<Rightarrow>
            EMIT_WORKER_ERROR_AND_RETURN_IF_FAILED hr UnknownError (\<lambda>w. (S_OK, w)) w
           (case get_Size deviceServices of (hr, serviceCount) \<Rightarrow>
            EMIT_WORKER_ERROR_AND_RETURN_IF_FAILED hr UnknownError (\<lambda>w. (S_OK, w)) w
           (onRfcommServicesReceived_loop 0 (unat serviceCount) deviceServices []
              address' classOfDeviceInt btName w)))))))"

definition onRfcommServicesReceived ::
  "IRfcommDeviceServicesResult IAsyncOperation \<Rightarrow> AsyncStatus \<Rightarrow> quint64 \<Rightarrow> quint32 \<Rightarrow> string \<Rightarrow>
   worker \<Rightarrow> HRESULT \<times> worker" where
  "onRfcommServicesReceived op status address' classOfDeviceInt btName w =
     (case onRfcommServicesReceived_body op status address' classOfDeviceInt btName w of
        (result, w) \<Rightarrow> (result, decrementPairedDevicesAndCheckFinished w))"

definition RfcommServicesCompleted_lambda ::
  "worker option \<Rightarrow> quint64 \<Rightarrow> string \<Rightarrow> quint32 \<Rightarrow> IRfcommDeviceServicesResult IAsyncOperation \<Rightarrow>
   AsyncStatus \<Rightarrow> HRESULT \<times> worker option" where
  "RfcommServicesCompleted_lambda thisPointer address' btName classOfDeviceInt op status =
     (case thisPointer of
        Some w \<Rightarrow>
          (S_OK, Some (snd (onRfcommServicesReceived op status address' classOfDeviceInt btName w)))
      | None \<Rightarrow> (S_OK, None))"

text \<open>
  \<open>onPairedClassicBluetoothDeviceFoundAsync\<close>: the scope guard looks at the local \<open>hr\<close>
  as it is on the way out, so the body answers that \<open>hr\<close> between the result and the
  worker. \<open>hr\<close> is declared without an initialiser; its starting value is an argument.
\<close>

definition onPairedClassicBluetoothDeviceFoundAsync_body ::
  "IBluetoothDevice ComPtr IAsyncOperation \<Rightarrow> AsyncStatus \<Rightarrow> HRESULT \<Rightarrow> worker \<Rightarrow>
   HRESULT \<times> HRESULT \<times> worker" where
  "onPairedClassicBluetoothDeviceFoundAsync_body op status hr w =
     (if status \<noteq> Completed then (S_OK, hr, w)
      else
        (case GetResults op of (hr, device) \<Rightarrow>
         EMIT_WORKER_ERROR_AND_RETURN_IF_FAILED hr UnknownError (\<lambda>w. (S_OK, hr, w)) w
        (case device of
           Null \<Rightarrow> (S_OK, hr, w)
         | Ptr dev \<Rightarrow>
        (case IBluetoothDevice.get_BluetoothAddress dev of (hr, address') \<Rightarrow>
         EMIT_WORKER_ERROR_AND_RETURN_IF_FAILED hr UnknownError (\<lambda>w. (S_OK, hr, w)) w
        (case IBluetoothDevice.get_Name dev of (hr, name') \<Rightarrow>
         EMIT_WORKER_ERROR_AND_RETURN_IF_FAILED hr UnknownError (\<lambda>w. (S_OK, hr, w)) w
        (let btName = name' in
         case get_ClassOfDevice dev of (hr, classOfDevice') \<Rightarrow>
         EMIT_WORKER_ERROR_AND_RETURN_IF_FAILED hr UnknownError (\<lambda>w. (S_OK, hr, w)) w
        (case get_RawValue classOfDevice' of (hr, classOfDeviceInt) \<Rightarrow>
         EMIT_WORKER_ERROR_AND_RETURN_IF_FAILED hr UnknownError (\<lambda>w. (S_OK, hr, w)) w
        (case As_IBluetoothDevice3 dev of (hr, device3) \<Rightarrow>
         EMIT_WORKER_ERROR_AND_RETURN_IF_FAILED hr UnknownError (\<lambda>w. (S_OK, hr, w)) w
        (case GetRfcommServicesAsync device3 of (hr, deviceServicesOperation) \<Rightarrow>
         EMIT_WORKER_ERROR_AND_RETURN_IF_FAILED hr UnknownError (\<lambda>w. (S_OK, hr, w)) w
        (let hr = put_Completed deviceServicesOperation in
         EMIT_WORKER_ERROR_AND_RETURN_IF_FAILED hr UnknownError (\<lambda>w. (S_OK, hr, w)) w
         (S_OK, hr,
          registerCallback (RfcommServicesCompleted address' btName classOfDeviceInt) w)))))))))))"

definition onPairedClassicBluetoothDeviceFoundAsync ::
  "IBluetoothDevice ComPtr IAsyncOperation \<Rightarrow> AsyncStatus \<Rightarrow> HRESULT \<Rightarrow> worker \<Rightarrow> HRESULT \<times> worker" where
  "onPairedClassicBluetoothDeviceFoundAsync op status uninitialised w =
     (case onPairedClassicBluetoothDeviceFoundAsync_body op status uninitialised w of
        (result, hr, w) \<Rightarrow>
          (result, if FAILED hr then decrementPairedDevicesAndCheckFinished w else w))"

definition ClassicDeviceFromIdCompleted_lambda ::
  "worker option \<Rightarrow> HRESULT \<Rightarrow> IBluetoothDevice ComPtr IAsyncOperation \<Rightarrow> AsyncStatus \<Rightarrow>
   HRESULT \<times> worker option" where
  "ClassicDeviceFromIdCompleted_lambda thisPointer uninitialised op status =
     (case thisPointer of
        Some w \<Rightarrow>
          if status = Completed
          then (S_OK, Some (snd (onPairedClassicBluetoothDeviceFoundAsync op status uninitialised w)))
          else (S_OK, Some (decrementPairedDevicesAndCheckFinished w))
      | None \<Rightarrow> (S_OK, None))"

definition classicBluetoothInfoFromDeviceIdAsync :: "HSTRING \<Rightarrow> worker \<Rightarrow> worker option" where
  "classicBluetoothInfoFromDeviceIdAsync deviceId w =
     (case m_deviceStatics w of
        Null \<Rightarrow> None
      | Ptr statics \<Rightarrow>
        (case IBluetoothDeviceStatics.FromIdAsync statics deviceId of (hr, deviceFromIdOperation) \<Rightarrow>
         if FAILED hr then
           (let w = emit (errorOccured UnknownError) w
            in Some (decrementPairedDevicesAndCheckFinished w))
         else
           (let hr = put_Completed deviceFromIdOperation in
            if FAILED hr then
              (let w = emit (errorOccured UnknownError) w
               in Some (decrementPairedDevicesAndCheckFinished w))
            else Some (registerCallback ClassicDeviceFromIdCompleted w))))"

subsection \<open>Advertisements\<close>

text \<open>
  \<open>onBluetoothLEAdvertisementReceived\<close>. The statements after the loop over the
  advertised UUIDs (the block under the mutex, the look-up by address and
  \<open>return S_OK\<close>) are the function \<open>onBluetoothLEAdvertisementReceived_merge\<close>; the loop
  ends in it. \<open>m_foundLEDevicesMap[address]\<close> is reached only for a key that the map
  contains.
\<close>

definition QMap_modify ::
  "quint64 \<Rightarrow> (LEAdvertisingInfo \<Rightarrow> LEAdvertisingInfo) \<Rightarrow> worker \<Rightarrow> worker" where
  "QMap_modify k f w =
     w\<lparr>m_foundLEDevicesMap := (m_foundLEDevicesMap w)(k \<mapsto> f (QMap_value (m_foundLEDevicesMap w) k))\<rparr>"

definition onBluetoothLEAdvertisementReceived_merge ::
  "quint64 \<Rightarrow> qint16 \<Rightarrow> ManufacturerData \<Rightarrow> ServiceData \<Rightarrow> QFlags \<Rightarrow> QBluetoothUuid list \<Rightarrow>
   worker \<Rightarrow> (HRESULT \<times> worker) option" where
  "onBluetoothLEAdvertisementReceived_merge address' rssi' manufacturerData' serviceData'
       changedFields serviceUuids' w =
     (if m_foundLEDevicesMap w address' \<noteq> None then
        (let adInfo = QMap_value (m_foundLEDevicesMap w) address';
             foundServices = services adInfo;
             (w, changedFields) =
               (if LEAdvertisingInfo.rssi adInfo \<noteq> rssi'
                then (QMap_modify address' (\<lambda>i. i\<lparr>LEAdvertisingInfo.rssi := rssi'\<rparr>) w,
                      setFlag changedFields Field_RSSI)
                else (w, changedFields));
             (w, changedFields) =
               (if \<not> QHash_eq (LEAdvertisingInfo.manufacturerData adInfo) manufacturerData'
                then (let w = QMap_modify address'
                                (\<lambda>i. i\<lparr>LEAdvertisingInfo.manufacturerData :=
                                         QHash_insert_hash manufacturerData'
                                           (LEAdvertisingInfo.manufacturerData i)\<rparr>) w
                      in (w, if \<not> QHash_eq (LEAdvertisingInfo.manufacturerData adInfo)
                                     (LEAdvertisingInfo.manufacturerData
                                        (QMap_value (m_foundLEDevicesMap w) address'))
                             then setFlag changedFields Field_ManufacturerData
                             else changedFields))
                else (w, changedFields));
             (w, changedFields) =
               (if \<not> QHash_eq (LEAdvertisingInfo.serviceData adInfo) serviceData'
                then (let w = QMap_modify address'
                                (\<lambda>i. i\<lparr>LEAdvertisingInfo.serviceData :=
                                         QHash_insert_hash serviceData'
                                           (LEAdvertisingInfo.serviceData i)\<rparr>) w
                      in (w, if \<not> QHash_eq (LEAdvertisingInfo.serviceData adInfo)
                                     (LEAdvertisingInfo.serviceData
                                        (QMap_value (m_foundLEDevicesMap w) address'))
                             then setFlag changedFields Field_ServiceData
                             else changedFields))
                else (w, changedFields));
             (foundServices, newServiceAdded) =
               fold (\<lambda>uuid (foundServices, newServiceAdded).
                       if uuid \<notin> set foundServices then (foundServices @ [uuid], True)
                       else (foundServices, newServiceAdded))
                    serviceUuids' (foundServices, False)
         in if \<not> newServiceAdded then
              (if \<not> testFlag changedFields Field_None
               then Some (S_OK, invokeMethod (deviceDataChanged address' changedFields rssi'
                                                manufacturerData' serviceData') w)
               else Some (S_OK, w))
            else
              (let w = QMap_modify address' (\<lambda>i. i\<lparr>services := foundServices\<rparr>) w
               in case leBluetoothInfoFromAddressAsync address' w of
                    None \<Rightarrow> None
                  | Some w \<Rightarrow> Some (S_OK, w)))
      else
        (let info = \<lparr>services = serviceUuids',
                     manufacturerData = manufacturerData',
                     serviceData = serviceData',
                     rssi = rssi'\<rparr>;
             w = w\<lparr>m_foundLEDevicesMap := (m_foundLEDevicesMap w)(address' \<mapsto> info)\<rparr>
         in case leBluetoothInfoFromAddressAsync address' w of
              None \<Rightarrow> None
            | Some w \<Rightarrow> Some (S_OK, w)))"

function onBluetoothLEAdvertisementReceived_loop ::
  "nat \<Rightarrow> nat \<Rightarrow> GUID IVector \<Rightarrow> QBluetoothUuid list \<Rightarrow>
   quint64 \<Rightarrow> qint16 \<Rightarrow> ManufacturerData \<Rightarrow> ServiceData \<Rightarrow> QFlags \<Rightarrow>
   worker \<Rightarrow> (HRESULT \<times> worker) option" where
  "onBluetoothLEAdvertisementReceived_loop i size' guids serviceUuids'
       address' rssi' manufacturerData' serviceData' changedFields w =
     (if i < size' then
        (case GetAt guids (of_nat i) of (hr, guid) \<Rightarrow>
         EMIT_WORKER_ERROR_AND_RETURN_IF_FAILED hr UnknownError (\<lambda>w. Some (S_OK, w)) w
        (let uuid = QBluetoothUuid_GUID guid
         in onBluetoothLEAdvertisementReceived_loop (i + 1) size' guids (serviceUuids' @ [uuid])
              address' rssi' manufacturerData' serviceData' changedFields w))
      else onBluetoothLEAdvertisementReceived_merge address' rssi' manufacturerData' serviceData'
             changedFields serviceUuids' w)"
  by pat_completeness auto
termination
  by (relation "measure (\<lambda>(i, size', rest). size' - i)") auto

declare onBluetoothLEAdvertisementReceived_loop.simps [simp del]

definition onBluetoothLEAdvertisementReceived ::
  "(QByteArray \<Rightarrow> int \<Rightarrow> QByteArray) \<Rightarrow> quint128 \<Rightarrow> (quint8 \<Rightarrow> nat \<Rightarrow> nat \<Rightarrow> quint8) \<Rightarrow>
   IBluetoothLEAdvertisementReceivedEventArgs \<Rightarrow> worker \<Rightarrow> (HRESULT \<times> worker) option" where
  "onBluetoothLEAdvertisementReceived byteArrayPlus u beyond args w =
     (case IBluetoothLEAdvertisementReceivedEventArgs.get_BluetoothAddress args of (hr, address') \<Rightarrow>
      EMIT_WORKER_ERROR_AND_RETURN_IF_FAILED hr UnknownError (\<lambda>w. Some (S_OK, w)) w
     (case get_RawSignalStrengthInDBm args of (hr, rssi') \<Rightarrow>
      EMIT_WORKER_ERROR_AND_RETURN_IF_FAILED hr UnknownError (\<lambda>w. Some (S_OK, w)) w
     (case get_Advertisement args of (hr, ad) \<Rightarrow>
      EMIT_WORKER_ERROR_AND_RETURN_IF_FAILED hr UnknownError (\<lambda>w. Some (S_OK, w)) w
     (let manufacturerData' = extractManufacturerData ad;
          serviceData' = extractServiceData byteArrayPlus u beyond ad;
          changedFields = Field_None in
      case get_ServiceUuids ad of (hr, guids) \<Rightarrow>
      EMIT_WORKER_ERROR_AND_RETURN_IF_FAILED hr UnknownError (\<lambda>w. Some (S_OK, w)) w
     (case get_Size guids of (hr, size') \<Rightarrow>
      EMIT_WORKER_ERROR_AND_RETURN_IF_FAILED hr UnknownError (\<lambda>w. Some (S_OK, w)) w
      (onBluetoothLEAdvertisementReceived_loop 0 (unat size') guids []
         address' rssi' manufacturerData' serviceData' changedFields w))))))"

text \<open>
  The lambda handed to \<open>add_Received\<close> in \<open>setupLEDeviceWatcher\<close>. The outer \<open>None\<close> is
  a run that calls through a null pointer (see the look-ups above).
\<close>

definition AdvertisementReceived_lambda ::
  "worker option \<Rightarrow> (QByteArray \<Rightarrow> int \<Rightarrow> QByteArray) \<Rightarrow> quint128 \<Rightarrow> (quint8 \<Rightarrow> nat \<Rightarrow> nat \<Rightarrow> quint8) \<Rightarrow>
   IBluetoothLEAdvertisementReceivedEventArgs \<Rightarrow> (HRESULT \<times> worker option) option" where
  "AdvertisementReceived_lambda thisPointer byteArrayPlus u beyond args =
     (case thisPointer of
        Some w \<Rightarrow>
          (case onBluetoothLEAdvertisementReceived byteArrayPlus u beyond args w of
             None \<Rightarrow> None
           | Some (hr, w) \<Rightarrow> Some (hr, Some w))
      | None \<Rightarrow> Some (S_OK, None))"

definition setupLEDeviceWatcher ::
  "HRESULT \<times> IBluetoothLEAdvertisementWatcher ComPtr \<Rightarrow> worker \<Rightarrow> worker option" where
  "setupLEDeviceWatcher RoActivateInstance w =
     (case RoActivateInstance of (hr, watcher) \<Rightarrow>
      let w = w\<lparr>m_leWatcher := watcher\<rparr> in
      EMIT_WORKER_ERROR_AND_RETURN_IF_FAILED hr UnknownError (\<lambda>w. Some w) w
     (case m_leWatcher w of
        Null \<Rightarrow> None
      | Ptr watcher \<Rightarrow>
     (let hr = put_ScanningMode watcher in
      EMIT_WORKER_ERROR_AND_RETURN_IF_FAILED hr UnknownError (\<lambda>w. Some w) w
     (case add_Received watcher (m_leDeviceAddedToken w) of (hr, token) \<Rightarrow>
      let w = w\<lparr>m_leDeviceAddedToken := token\<rparr> in
      EMIT_WORKER_ERROR_AND_RETURN_IF_FAILED hr UnknownError (\<lambda>w. Some w) w
     (let w = registerCallback AdvertisementReceived w;
          hr = Start watcher in
      EMIT_WORKER_ERROR_AND_RETURN_IF_FAILED hr UnknownError (\<lambda>w. Some w) w
      (Some w))))))"

subsection \<open>Enumerating the paired devices\<close>

definition gatherDeviceInformation :: "IDeviceInformation \<Rightarrow> 32 word \<Rightarrow> worker \<Rightarrow> worker option" where
  "gatherDeviceInformation deviceInfo mode w =
     (case get_Id deviceInfo of (hr, deviceId) \<Rightarrow>
      EMIT_WORKER_ERROR_AND_RETURN_IF_FAILED hr UnknownError (\<lambda>w. Some w) w
      (if mode = LowEnergyMethod then leBluetoothInfoFromDeviceIdAsync deviceId w
       else classicBluetoothInfoFromDeviceIdAsync deviceId w))"

function gatherMultipleDeviceInformation_loop ::
  "nat \<Rightarrow> nat \<Rightarrow> IDeviceInformation IVector \<Rightarrow> 32 word \<Rightarrow> worker \<Rightarrow> worker option" where
  "gatherMultipleDeviceInformation_loop i deviceCount devices mode w =
     (if i < deviceCount then
        (case GetAt devices (of_nat i) of (hr, device) \<Rightarrow>
         EMIT_WORKER_ERROR_AND_RETURN_IF_FAILED hr UnknownError (\<lambda>w. Some w) w
        (case gatherDeviceInformation device mode w of
           None \<Rightarrow> None
         | Some w \<Rightarrow> gatherMultipleDeviceInformation_loop (i + 1) deviceCount devices mode w))
      else Some w)"
  by pat_completeness auto
termination
  by (relation "measure (\<lambda>(i, deviceCount, devices, mode, w). deviceCount - i)") auto

declare gatherMultipleDeviceInformation_loop.simps [simp del]

definition gatherMultipleDeviceInformation ::
  "quint32 \<Rightarrow> IDeviceInformation IVector \<Rightarrow> 32 word \<Rightarrow> worker \<Rightarrow> worker option" where
  "gatherMultipleDeviceInformation deviceCount devices mode w =
     gatherMultipleDeviceInformation_loop 0 (unat deviceCount) devices mode w"

definition onDeviceDiscoveryFinished ::
  "IDeviceInformation IVector IAsyncOperation \<Rightarrow> 32 word \<Rightarrow> worker \<Rightarrow> worker option" where
  "onDeviceDiscoveryFinished op mode w =
     (case GetResults op of (hr, devices) \<Rightarrow>
      EMIT_WORKER_ERROR_AND_RETURN_IF_FAILED hr UnknownError (\<lambda>w. Some w) w
     (case get_Size devices of (hr, deviceCount) \<Rightarrow>
      EMIT_WORKER_ERROR_AND_RETURN_IF_FAILED hr UnknownError (\<lambda>w. Some w) w
     (if ucast (requestedModes w) = ClassicMethod \<and> deviceCount = 0
      then Some (finishDiscovery w)
      else
        (let w = w\<lparr>m_pendingPairedDevices := m_pendingPairedDevices w + deviceCount\<rparr>
         in gatherMultipleDeviceInformation deviceCount devices mode w))))"

definition DeviceDiscoveryCompleted_lambda ::
  "worker option \<Rightarrow> 32 word \<Rightarrow> IDeviceInformation IVector IAsyncOperation \<Rightarrow> AsyncStatus \<Rightarrow>
   (HRESULT \<times> worker option) option" where
  "DeviceDiscoveryCompleted_lambda thisPointer mode op status =
     (if status = Completed \<and> thisPointer \<noteq> None
      then (case thisPointer of
              Some w \<Rightarrow>
                (case onDeviceDiscoveryFinished op mode w of
                   None \<Rightarrow> None
                 | Some w \<Rightarrow> Some (S_OK, Some w))
            | None \<Rightarrow> Some (S_OK, None))
      else Some (S_OK, thisPointer))"

text \<open>
  \<open>startDeviceDiscovery\<close> is given what \<open>GetActivationFactory\<close> answers for the device
  information class. The \<open>HRESULT\<close> of \<open>GetDeviceSelector\<close> is not looked at.
\<close>

definition startDeviceDiscovery ::
  "HRESULT \<times> IDeviceInformationStatics \<Rightarrow> 32 word \<Rightarrow> worker \<Rightarrow> worker option" where
  "startDeviceDiscovery GetActivationFactory mode w =
     (case GetActivationFactory of (hr, deviceInformationStatics) \<Rightarrow>
      EMIT_WORKER_ERROR_AND_RETURN_IF_FAILED hr UnknownError (\<lambda>w. Some w) w
     (case (if mode = LowEnergyMethod
            then (case m_leDeviceStatics w of
                    Null \<Rightarrow> None
                  | Ptr statics \<Rightarrow> Some (snd (IBluetoothLEDeviceStatics.GetDeviceSelector statics)))
            else (case m_deviceStatics w of
                    Null \<Rightarrow> None
                  | Ptr statics \<Rightarrow> Some (snd (IBluetoothDeviceStatics.GetDeviceSelector statics)))) of
        None \<Rightarrow> None
      | Some deviceSelector \<Rightarrow>
     (case FindAllAsyncAqsFilter deviceInformationStatics deviceSelector of (hr, op) \<Rightarrow>
      EMIT_WORKER_ERROR_AND_RETURN_IF_FAILED hr UnknownError (\<lambda>w. Some w) w
     (let hr = put_Completed op in
      EMIT_WORKER_ERROR_AND_RETURN_IF_FAILED hr UnknownError (\<lambda>w. Some w) w
      (Some (registerCallback (DeviceDiscoveryCompleted mode) w))))))"

subsection \<open>Construction and start\<close>

text \<open>
  What the platform answers to the worker while it is constructed and started: the
  activation factories of the two device classes, the factory of the device
  information class for each of the two enumerations, and the new advertisement
  watcher. \<open>m_leDeviceAddedToken\<close> has no initialiser; its starting value is an
  argument of the constructor.
\<close>

record platform =
  GetActivationFactory_BluetoothDevice :: "HRESULT \<times> IBluetoothDeviceStatics ComPtr"
  GetActivationFactory_BluetoothLEDevice :: "HRESULT \<times> IBluetoothLEDeviceStatics ComPtr"
  GetActivationFactory_DeviceInformation_classic :: "HRESULT \<times> IDeviceInformationStatics"
  GetActivationFactory_DeviceInformation_le :: "HRESULT \<times> IDeviceInformationStatics"
  RoActivateInstance_Watcher :: "HRESULT \<times> IBluetoothLEAdvertisementWatcher ComPtr"

definition QWinRTBluetoothDeviceDiscoveryWorker ::
  "platform \<Rightarrow> EventRegistrationToken \<Rightarrow> QFlags \<Rightarrow> worker" where
  "QWinRTBluetoothDeviceDiscoveryWorker p uninitialised methods' =
     (let w = \<lparr>requestedModes = ucast methods', m_leWatcher = Null,
                m_leDeviceAddedToken = uninitialised, m_foundLEDevicesMap = Map.empty,
                m_pendingPairedDevices = 0, m_deviceStatics = Null, m_leDeviceStatics = Null,
                effects = []\<rparr>
      in case GetActivationFactory_BluetoothDevice p of (hr, statics) \<Rightarrow>
         let w = w\<lparr>m_deviceStatics := statics\<rparr> in
         EMIT_WORKER_ERROR_AND_RETURN_IF_FAILED hr UnknownError (\<lambda>w. w) w
        (case GetActivationFactory_BluetoothLEDevice p of (hr, statics) \<Rightarrow>
         let w = w\<lparr>m_leDeviceStatics := statics\<rparr> in
         EMIT_WORKER_ERROR_AND_RETURN_IF_FAILED hr UnknownError (\<lambda>w. w) w
         w))"

definition worker_start :: "platform \<Rightarrow> worker \<Rightarrow> worker option" where
  "worker_start p w =
     (case (if ucast (requestedModes w) AND ClassicMethod \<noteq> 0
            then startDeviceDiscovery (GetActivationFactory_DeviceInformation_classic p)
                   ClassicMethod w
            else Some w) of
        None \<Rightarrow> None
      | Some w \<Rightarrow>
          if ucast (requestedModes w) AND LowEnergyMethod \<noteq> 0 then
            (case startDeviceDiscovery (GetActivationFactory_DeviceInformation_le p)
                    LowEnergyMethod w of
               None \<Rightarrow> None
             | Some w \<Rightarrow> setupLEDeviceWatcher (RoActivateInstance_Watcher p) w)
          else Some w)"

section \<open>The discovery agent on WinRT\<close>

text \<open>
  The private part of the agent: its members, and \<open>emitted\<close>, the signals of the
  public object \<open>q\<close> emitted so far, in order. The guarded pointer \<open>worker\<close> is \<open>None\<close>
  when it is null. Of the timer, the model keeps what \<open>start\<close> and \<open>stop\<close> set, and
  the number of connections from its \<open>timeout\<close> to the worker's \<open>finishDiscovery\<close>.
\<close>

datatype agent_signal =
    deviceDiscovered QBluetoothDeviceInfo
  | deviceUpdated QBluetoothDeviceInfo QFlags
  | errorOccurred Error
  | finished
  | canceled

record QTimer =
  singleShot :: bool
  interval :: int
  active :: bool
  timeout_connections :: nat

record agent =
  adapterAddress :: quint64
  lastError :: Error
  errorString :: string
  worker :: "worker option"
  discoveredDevices :: "QBluetoothDeviceInfo list"
  leScanTimer :: "QTimer option"
  lowEnergySearchTimeout :: int
  emitted :: "agent_signal list"

definition emit_q :: "agent_signal \<Rightarrow> agent \<Rightarrow> agent" where
  "emit_q s d = d\<lparr>emitted := emitted d @ [s]\<rparr>"

definition isActive :: "agent \<Rightarrow> bool" where
  "isActive d \<longleftrightarrow> worker d \<noteq> None"

definition supportedDiscoveryMethods :: QFlags where
  "supportedDiscoveryMethods = (ClassicMethod OR LowEnergyMethod)"

text \<open>
  \<open>registerDevice\<close>: the loop over \<open>discoveredDevices\<close> changes the first entry with
  the address of \<open>info\<close> and returns; \<open>None\<close> is the loop running to the end of the
  list. \<open>QSet::values()\<close> lists the elements of the set in the order of the hash,
  which the core library does not fix: \<open>QSet_values\<close> is a parameter that is given the
  distinct elements and answers them as the set lists them.
\<close>

fun registerDevice_loop ::
  "(QBluetoothUuid list \<Rightarrow> QBluetoothUuid list) \<Rightarrow> QBluetoothDeviceInfo \<Rightarrow>
   QBluetoothDeviceInfo list \<Rightarrow> QBluetoothDeviceInfo list option" where
  "registerDevice_loop QSet_values info [] = None"
| "registerDevice_loop QSet_values info (iter # rest) =
     (if address iter = address info then
        (let uuids = serviceUuids iter;
             uuids = uuids @ serviceUuids info;
             uuidSet = remdups uuids;
             iter = (if length (serviceUuids iter) \<noteq> length uuidSet
                     then setServiceUuids (QSet_values uuidSet) iter else iter);
             iter = (if coreConfigurations iter \<noteq> coreConfigurations info
                     then setCoreConfigurations BaseRateAndLowEnergyCoreConfiguration iter
                     else iter)
         in Some (iter # rest))
      else map_option ((#) iter) (registerDevice_loop QSet_values info rest))"

definition registerDevice ::
  "(QBluetoothUuid list \<Rightarrow> QBluetoothUuid list) \<Rightarrow> QBluetoothDeviceInfo \<Rightarrow> agent \<Rightarrow> agent" where
  "registerDevice QSet_values info d =
     (case registerDevice_loop QSet_values info (discoveredDevices d) of
        Some devices \<Rightarrow> d\<lparr>discoveredDevices := devices\<rparr>
      | None \<Rightarrow>
          (let d = d\<lparr>discoveredDevices := discoveredDevices d @ [info]\<rparr>
           in emit_q (deviceDiscovered info) d))"

text \<open>
  \<open>updateDeviceData\<close>: the loop answers the changed list and the changed entry, which
  is the argument of the signal.
\<close>

fun updateDeviceData_loop ::
  "quint64 \<Rightarrow> QFlags \<Rightarrow> qint16 \<Rightarrow> ManufacturerData \<Rightarrow> ServiceData \<Rightarrow>
   QBluetoothDeviceInfo list \<Rightarrow> (QBluetoothDeviceInfo list \<times> QBluetoothDeviceInfo) option" where
  "updateDeviceData_loop address' fields' rssi' manufacturerData' serviceData' [] = None"
| "updateDeviceData_loop address' fields' rssi' manufacturerData' serviceData' (iter # rest) =
     (if address iter = address' then
        (let iter = (if testFlag fields' Field_RSSI then setRssi rssi' iter else iter);
             iter = (if testFlag fields' Field_ManufacturerData
                     then fold (\<lambda>key. setManufacturerData key (QHash_value manufacturerData' key))
                            (QHash_keys manufacturerData') iter
                     else iter);
             iter = (if testFlag fields' Field_ServiceData
                     then fold (\<lambda>key. setServiceData key (QHash_value serviceData' key))
                            (QHash_keys serviceData') iter
                     else iter)
         in Some (iter # rest, iter))
      else map_option (\<lambda>(devices, changed). (iter # devices, changed))
             (updateDeviceData_loop address' fields' rssi' manufacturerData' serviceData' rest))"

definition updateDeviceData ::
  "quint64 \<Rightarrow> QFlags \<Rightarrow> qint16 \<Rightarrow> ManufacturerData \<Rightarrow> ServiceData \<Rightarrow> agent \<Rightarrow> agent" where
  "updateDeviceData address' fields' rssi' manufacturerData' serviceData' d =
     (if testFlag fields' Field_None then d
      else
        (case updateDeviceData_loop address' fields' rssi' manufacturerData' serviceData'
                (discoveredDevices d) of
           Some (devices, iter) \<Rightarrow>
             emit_q (deviceUpdated iter fields') (d\<lparr>discoveredDevices := devices\<rparr>)
         | None \<Rightarrow> d))"

definition onErrorOccured :: "Error \<Rightarrow> agent \<Rightarrow> agent" where
  "onErrorOccured e d = emit_q (errorOccurred e) (d\<lparr>lastError := e\<rparr>)"

definition disconnectAndClearWorker :: "agent \<Rightarrow> agent" where
  "disconnectAndClearWorker d =
     (if worker d = None then d
      else
        (let d = (case leScanTimer d of
                    Some timer \<Rightarrow> d\<lparr>leScanTimer := Some (timer\<lparr>timeout_connections := 0\<rparr>)\<rparr>
                  | None \<Rightarrow> d)
         in d\<lparr>worker := None\<rparr>))"

definition onScanFinished :: "agent \<Rightarrow> agent" where
  "onScanFinished d = emit_q finished (disconnectAndClearWorker d)"

text \<open>
  The four connections that \<open>start\<close> makes: each signal of the worker runs one slot of
  the agent.
\<close>

fun deliver ::
  "(QBluetoothUuid list \<Rightarrow> QBluetoothUuid list) \<Rightarrow> worker_signal \<Rightarrow> agent \<Rightarrow> agent" where
  "deliver QSet_values (deviceFound info) d = registerDevice QSet_values info d"
| "deliver QSet_values (deviceDataChanged address' fields' rssi' manufacturerData' serviceData') d =
     updateDeviceData address' fields' rssi' manufacturerData' serviceData' d"
| "deliver QSet_values (errorOccured e) d = onErrorOccured e d"
| "deliver QSet_values scanFinished d = onScanFinished d"

fun deliver_effect ::
  "(QBluetoothUuid list \<Rightarrow> QBluetoothUuid list) \<Rightarrow> worker_effect \<Rightarrow> agent \<Rightarrow> agent" where
  "deliver_effect QSet_values (Emit s) d = deliver QSet_values s d"
| "deliver_effect QSet_values (InvokeMethod s) d = deliver QSet_values s d"
| "deliver_effect QSet_values (Registered cb) d = d"
| "deliver_effect QSet_values DeleteLater d = d"

text \<open>
  Modelled from the spec: the class \<open>QBluetoothLocalDevice\<close> is missing from the
  sources. \<open>start\<close> asks the adapter it constructs for \<open>isValid()\<close> and \<open>hostMode()\<close>;
  the adapter is the record of the two answers.
\<close>

datatype HostMode = HostPoweredOff | HostConnectable | HostDiscoverable | HostDiscoverableLimitedInquiry

record QBluetoothLocalDevice =
  isValid :: bool
  hostMode :: HostMode

text \<open>
  \<open>start\<close>. The signals that the worker emits in its constructor find no connection
  and are dropped; those it emits in \<open>worker->start()\<close> run the connected slots, in the
  agent's thread, before \<open>start\<close> goes on. \<open>None\<close> is a run of \<open>worker->start()\<close> that
  calls through a null pointer.
\<close>

definition start ::
  "(QBluetoothUuid list \<Rightarrow> QBluetoothUuid list) \<Rightarrow> QBluetoothLocalDevice \<Rightarrow> platform \<Rightarrow>
   EventRegistrationToken \<Rightarrow> QFlags \<Rightarrow> agent \<Rightarrow> agent option" where
  "start QSet_values adapter p uninitialised methods' d =
     (if \<not> isValid adapter then
        (let d = d\<lparr>lastError := InvalidBluetoothAdapterError\<rparr>;
             d = d\<lparr>errorString := ''Cannot find valid Bluetooth adapter.''\<rparr>
         in Some (emit_q (errorOccurred (lastError d)) d))
      else if hostMode adapter = HostPoweredOff then
        (let d = d\<lparr>lastError := PoweredOffError\<rparr>;
             d = d\<lparr>errorString := ''Bluetooth adapter powered off.''\<rparr>
         in Some (emit_q (errorOccurred (lastError d)) d))
      else if worker d \<noteq> None then Some d
      else
        (let w = QWinRTBluetoothDeviceDiscoveryWorker p uninitialised methods';
             d = d\<lparr>worker := Some w\<rparr>;
             d = d\<lparr>discoveredDevices := []\<rparr>
         in case worker_start p w of
              None \<Rightarrow> None
            | Some w' \<Rightarrow>
                (let d = d\<lparr>worker := Some w'\<rparr>;
                     d = fold (deliver_effect QSet_values) (drop (length (effects w)) (effects w')) d
                 in if lowEnergySearchTimeout d > 0 \<and> (methods' AND LowEnergyMethod) \<noteq> 0 then
                      (let timer = (case leScanTimer d of
                                      None \<Rightarrow> \<lparr>singleShot = True, interval = 0, active = False,
                                               timeout_connections = 0\<rparr>
                                    | Some timer \<Rightarrow> timer);
                           timer = timer\<lparr>timeout_connections := timeout_connections timer + 1\<rparr>;
                           timer = timer\<lparr>interval := lowEnergySearchTimeout d\<rparr>;
                           timer = timer\<lparr>active := True\<rparr>
                       in Some (d\<lparr>leScanTimer := Some timer\<rparr>))
                    else Some d)))"

text \<open>
  \<open>stop\<close>. The signal that \<open>stopLEWatcher\<close> emits when a call fails runs the slot that
  \<open>start\<close> connected to it, before the worker is disconnected and cleared.
\<close>

definition stop :: "(QBluetoothUuid list \<Rightarrow> QBluetoothUuid list) \<Rightarrow> agent \<Rightarrow> agent" where
  "stop QSet_values d =
     (let d = (case worker d of
                 Some w \<Rightarrow>
                   (let w' = stopLEWatcher w;
                        d = d\<lparr>worker := Some w'\<rparr>;
                        d = fold (deliver_effect QSet_values) (drop (length (effects w)) (effects w')) d;
                        d = disconnectAndClearWorker d
                    in emit_q canceled d)
               | None \<Rightarrow> d)
      in case leScanTimer d of
           Some timer \<Rightarrow> d\<lparr>leScanTimer := Some (timer\<lparr>active := False\<rparr>)\<rparr>
         | None \<Rightarrow> d)"

section \<open>Inputs for running the model\<close>

text \<open>
  Two virtual machines to run the registration on: one where every class is found and
  registers, one where the class \<open>QtBluetoothLE\<close> is missing.
\<close>

definition vm_all_found :: JavaVM where
  "vm_all_found =
     \<lparr>GetEnv = \<lambda>version. (0, \<lparr>FindClass = \<lambda>name. Some 7,
                                 RegisterNatives = \<lambda>clazz table n. 0\<rparr>)\<rparr>"

definition vm_le_missing :: JavaVM where
  "vm_le_missing =
     \<lparr>GetEnv = \<lambda>version. (0,
        \<lparr>FindClass = \<lambda>name. if name = ''org/qtproject/qt/android/bluetooth/QtBluetoothLE''
                                then None else Some 7,
         RegisterNatives = \<lambda>clazz table n. 0\<rparr>)\<rparr>"

text \<open>
  Two standard service UUIDs, an agent that has discovered nothing, and a sensor
  reported twice under one address: first with the heart-rate service listed twice
  (a GATT server may hold two instances of a service), then with the battery service.
\<close>

definition heartRate :: QBluetoothUuid where
  "heartRate = QBluetoothUuid_quint16 0x180D"

definition battery :: QBluetoothUuid where
  "battery = QBluetoothUuid_quint16 0x180F"

definition agent_idle :: agent where
  "agent_idle =
     \<lparr>adapterAddress = 0, lastError = NoError, errorString = [], worker = None,
      discoveredDevices = [], leScanTimer = None, lowEnergySearchTimeout = 25000,
      emitted = []\<rparr>"

definition sensor_heartRate_twice :: QBluetoothDeviceInfo where
  "sensor_heartRate_twice =
     setServiceUuids [heartRate, heartRate] (QBluetoothDeviceInfo_new 0x112233445566 ''sensor'' 0)"

definition sensor_battery :: QBluetoothDeviceInfo where
  "sensor_battery =
     setServiceUuids [battery] (QBluetoothDeviceInfo_new 0x112233445566 ''sensor'' 0)"

definition QSet_values_as_inserted :: "QBluetoothUuid list \<Rightarrow> QBluetoothUuid list" where
  "QSet_values_as_inserted uuids = uuids"

text \<open>
  Platform objects to run the worker on. \<open>E_FAIL\<close> is a failing \<open>HRESULT\<close>.
  \<open>IVector_of\<close> is a platform list that holds the given elements and answers
  \<open>E_BOUNDS\<close> beyond them; \<open>operation\<close> is an asynchronous operation that accepts a
  handler and holds the given result with the given \<open>HRESULT\<close>.
\<close>

definition E_FAIL :: HRESULT where
  "E_FAIL = 0x80004005"

definition E_BOUNDS :: HRESULT where
  "E_BOUNDS = 0x8000000B"

definition IVector_of :: "'a \<Rightarrow> 'a list \<Rightarrow> 'a IVector" where
  "IVector_of none xs =
     \<lparr>get_Size = (S_OK, of_nat (length xs)),
      GetAt = (\<lambda>i. if unat i < length xs then (S_OK, xs ! unat i) else (E_BOUNDS, none))\<rparr>"

definition operation :: "HRESULT \<Rightarrow> 'r \<Rightarrow> 'r IAsyncOperation" where
  "operation hr r = \<lparr>put_Completed = S_OK, GetResults = (hr, r)\<rparr>"

definition no_manufacturer_data :: IBluetoothLEManufacturerData where
  "no_manufacturer_data =
     \<lparr>get_CompanyId = (E_FAIL, 0), IBluetoothLEManufacturerData.get_Data = (E_FAIL, [])\<rparr>"

definition no_section :: IBluetoothLEAdvertisementDataSection where
  "no_section = \<lparr>get_DataType = (E_FAIL, 0), get_Data = (E_FAIL, [])\<rparr>"

definition data_section :: "quint8 \<Rightarrow> QByteArray \<Rightarrow> IBluetoothLEAdvertisementDataSection" where
  "data_section t payload = \<lparr>get_DataType = (S_OK, t), get_Data = (S_OK, payload)\<rparr>"

text \<open>
  An advertisement that carries the given manufacturer data and the given data
  sections, each a type with a payload, and no list of service UUIDs. Asked for the
  sections of a type, it lists those of that type, in order.
\<close>

definition advertisement ::
  "(quint16 \<times> QByteArray) list \<Rightarrow> (quint8 \<times> QByteArray) list \<Rightarrow> IBluetoothLEAdvertisement" where
  "advertisement md sections =
     \<lparr>get_ManufacturerData =
        (S_OK, IVector_of no_manufacturer_data
                 (map (\<lambda>(company, bytes). \<lparr>get_CompanyId = (S_OK, company),
                                         IBluetoothLEManufacturerData.get_Data = (S_OK, bytes)\<rparr>) md)),
      GetSectionsByType =
        (\<lambda>type. (S_OK, IVector_of no_section
                          (map (\<lambda>(t, payload). data_section t payload)
                             (filter (\<lambda>(t, payload). t = type) sections)))),
      get_ServiceUuids = (S_OK, IVector_of 0 [])\<rparr>"

text \<open>Memory that holds zero bytes after every byte array.\<close>

definition zeros_beyond :: "quint8 \<Rightarrow> nat \<Rightarrow> nat \<Rightarrow> quint8" where
  "zeros_beyond serviceDataType i offset = 0"

definition event_without_address :: IBluetoothLEAdvertisementReceivedEventArgs where
  "event_without_address =
     \<lparr>IBluetoothLEAdvertisementReceivedEventArgs.get_BluetoothAddress = (E_FAIL, 0),
      get_RawSignalStrengthInDBm = (S_OK, 0xFFC4),
      get_Advertisement = (S_OK, advertisement [] [(0x16, [0x0D, 0x18, 0x40])])\<rparr>"

definition worker_idle :: worker where
  "worker_idle =
     \<lparr>requestedModes = 3, m_leWatcher = Null, m_leDeviceAddedToken = 0,
      m_foundLEDevicesMap = Map.empty, m_pendingPairedDevices = 0,
      m_deviceStatics = Null, m_leDeviceStatics = Null, effects = []\<rparr>"

definition no_device_information :: IDeviceInformation where
  "no_device_information =
     \<lparr>get_Id = (E_FAIL, []),
      As_IDeviceInformation2 =
        (E_FAIL, \<lparr>get_Pairing = (E_FAIL, \<lparr>get_IsPaired = (E_FAIL, False)\<rparr>)\<rparr>)\<rparr>"

definition no_rfcomm_services :: IRfcommDeviceServicesResult where
  "no_rfcomm_services =
     \<lparr>get_Error = (E_FAIL, 0),
      IRfcommDeviceServicesResult.get_Services =
        (E_FAIL, IVector_of
                   \<lparr>get_ServiceId = (E_FAIL, \<lparr>IRfcommServiceId.get_Uuid = (E_FAIL, 0)\<rparr>)\<rparr> [])\<rparr>"

definition no_gatt_services :: IGattDeviceServicesResult where
  "no_gatt_services =
     \<lparr>get_Status = (E_FAIL, 0),
      get_Services = (E_FAIL, IVector_of \<lparr>get_Uuid = (E_FAIL, 0)\<rparr> [])\<rparr>"

text \<open>A platform on which Bluetooth cannot be reached at all.\<close>

definition platform_down :: platform where
  "platform_down =
     \<lparr>GetActivationFactory_BluetoothDevice = (E_FAIL, Null),
      GetActivationFactory_BluetoothLEDevice = (E_FAIL, Null),
      GetActivationFactory_DeviceInformation_classic =
        (E_FAIL, \<lparr>FindAllAsyncAqsFilter =
                    (\<lambda>selector. (E_FAIL, operation E_FAIL (IVector_of no_device_information [])))\<rparr>),
      GetActivationFactory_DeviceInformation_le =
        (E_FAIL, \<lparr>FindAllAsyncAqsFilter =
                    (\<lambda>selector. (E_FAIL, operation E_FAIL (IVector_of no_device_information [])))\<rparr>),
      RoActivateInstance_Watcher = (E_FAIL, Null)\<rparr>"

text \<open>
  One reading of \<open>bufferData + n\<close>: the overload of \<open>operator+\<close> for a byte array and
  a \<open>char\<close>, which appends the character with code \<open>n\<close>.
\<close>

definition QByteArray_plus_char :: "QByteArray \<Rightarrow> int \<Rightarrow> QByteArray" where
  "QByteArray_plus_char a n = a @ [word_of_int n]"

text \<open>
  More platform objects for the worker. \<open>watcher_failing n\<close> is a watcher whose
  calls succeed except the one with number \<open>n\<close>, counting \<open>put_ScanningMode\<close>,
  \<open>add_Received\<close>, \<open>Start\<close>, \<open>Stop\<close>, \<open>remove_Received\<close> from 0; \<open>add_Received\<close> leaves
  1 in the token. \<open>no_le_lookup\<close> is a factory for low-energy devices that names a
  selector and refuses every look-up, \<open>le_device_unnamed\<close> a low-energy device that
  answers its address and nothing else, and \<open>worker_scanning\<close> a worker that obtained
  the factory and holds a watcher that cannot be stopped. \<open>event_heartRate\<close> is the
  event for an advertisement with service data for the heart-rate service.
\<close>

definition watcher_failing :: "nat \<Rightarrow> IBluetoothLEAdvertisementWatcher" where
  "watcher_failing n =
     \<lparr>put_ScanningMode = (if n = 0 then E_FAIL else S_OK),
      add_Received = (\<lambda>token. (if n = 1 then E_FAIL else S_OK, 1)),
      Start = (if n = 2 then E_FAIL else S_OK),
      Stop = (if n = 3 then E_FAIL else S_OK),
      remove_Received = (\<lambda>token. if n = 4 then E_FAIL else S_OK)\<rparr>"

definition no_le_lookup :: IBluetoothLEDeviceStatics where
  "no_le_lookup =
     \<lparr>GetDeviceSelector = (S_OK, ''System.Devices.Aep.ProtocolId''),
      FromIdAsync = (\<lambda>deviceId. (E_FAIL, operation E_FAIL Null)),
      FromBluetoothAddressAsync = (\<lambda>address'. (E_FAIL, operation E_FAIL Null))\<rparr>"

definition le_device_unnamed :: IBluetoothLEDevice where
  "le_device_unnamed =
     \<lparr>IBluetoothLEDevice.get_BluetoothAddress = (S_OK, 0x112233445566),
      IBluetoothLEDevice.get_Name = (E_FAIL, []),
      As_IBluetoothLEDevice2 = (E_FAIL, \<lparr>get_DeviceInformation = (E_FAIL, Null)\<rparr>),
      As_IBluetoothLEDevice3 =
        (E_FAIL, \<lparr>GetGattServicesAsync = (E_FAIL, operation E_FAIL no_gatt_services)\<rparr>)\<rparr>"

definition worker_scanning :: worker where
  "worker_scanning =
     worker_idle\<lparr>m_leWatcher := Ptr (watcher_failing 3), m_leDeviceStatics := Ptr no_le_lookup\<rparr>"

definition event_heartRate :: IBluetoothLEAdvertisementReceivedEventArgs where
  "event_heartRate =
     \<lparr>IBluetoothLEAdvertisementReceivedEventArgs.get_BluetoothAddress = (S_OK, 0x112233445566),
      get_RawSignalStrengthInDBm = (S_OK, 0xFFC4),
      get_Advertisement = (S_OK, advertisement [(0x004C, [0x02, 0x15])] [(0x16, [0x0D, 0x18, 0x40])])\<rparr>"

text \<open>
  An advertisement with two elements of manufacturer data and a data section of each
  of the three types.
\<close>

definition beacon :: IBluetoothLEAdvertisement where
  "beacon =
     advertisement [(0x004C, [0x02, 0x15]), (0x0006, [0x01])]
       [(0x16, [0x0D, 0x18, 0x40]),
        (0x20, [0x0F, 0x18, 0x00, 0x00, 0x64]),
        (0x21, [1, 2, 3, 4, 5, 6, 7, 8, 9, 10, 11, 12, 13, 14, 15, 16, 0x2A])]"

text \<open>
  The three guarded blocks of setters in the body of \<open>updateDeviceData\<close>'s loop, as
  one function of the entry, for stating what the loop does to the entry it finds.
\<close>

definition updated_entry ::
  "QFlags \<Rightarrow> qint16 \<Rightarrow> ManufacturerData \<Rightarrow> ServiceData \<Rightarrow> QBluetoothDeviceInfo \<Rightarrow> QBluetoothDeviceInfo" where
  "updated_entry fields' rssi' manufacturerData' serviceData' iter =
     (let iter = (if testFlag fields' Field_RSSI then setRssi rssi' iter else iter);
          iter = (if testFlag fields' Field_ManufacturerData
                  then fold (\<lambda>key. setManufacturerData key (QHash_value manufacturerData' key))
                         (QHash_keys manufacturerData') iter
                  else iter)
      in (if testFlag fields' Field_ServiceData
          then fold (\<lambda>key. setServiceData key (QHash_value serviceData' key))
                 (QHash_keys serviceData') iter
          else iter))"


section \<open>Properties of the byte swap\<close>

lemma length_Rep_quint128: "length (Rep_quint128 q) = 16"
  using Rep_quint128 [of q] by simp

lemma Rep_data_upd: "Rep_quint128 (data_upd q i v) = (Rep_quint128 q)[i := v]"
  by (simp add: data_upd_def Abs_quint128_inverse length_Rep_quint128)

lemma Rep_quint128_of:
  "Rep_quint128 (quint128_of xs) = take 16 xs @ replicate (16 - length xs) 0"
  by (simp add: quint128_of_def Abs_quint128_inverse)

lemma data_data_upd:
  "i < 16 \<Longrightarrow> data (data_upd d i v) j = (if j = i then v else data d j)"
  by (simp add: data_def Rep_data_upd length_Rep_quint128)

lemma quint128_eqI:
  assumes "\<And>i. i < 16 \<Longrightarrow> data a i = data b i"
  shows "a = b"
proof -
  have "Rep_quint128 a = Rep_quint128 b"
    using assms by (simp add: list_eq_iff_nth_eq length_Rep_quint128 data_def)
  then show ?thesis by (simp add: Rep_quint128_inject)
qed

lemma data_qbswap_loop:
  "j < 16 \<Longrightarrow> data (qbswap_loop i src dst) j =
     (if i \<le> j then data src (15 - j) else data dst j)"
proof (induction i src dst rule: qbswap_loop.induct)
  case (1 i src dst)
  show ?case
  proof (cases "i < 16")
    case True
    then show ?thesis
      using "1.IH" [OF True "1.prems"] "1.prems"
      by (subst qbswap_loop.simps) (auto simp: data_data_upd not_less_eq_eq dest: order.antisym)
  next
    case False
    then show ?thesis
      using "1.prems" by (subst qbswap_loop.simps) simp
  qed
qed

lemma data_qbswap: "i < 16 \<Longrightarrow> data (qbswap d x) i = data x (15 - i)"
  by (simp add: qbswap_def data_qbswap_loop)

text \<open>
  Claim C10. \<open>qbswap\<close> reverses the byte order: byte \<open>i\<close> of the result is byte
  \<open>15 - i\<close> of the argument for every index below 16, and so swapping twice gives the
  argument back, whatever the uninitialised destinations held.
\<close>

theorem qbswap_reverses_and_involution:
  "(\<forall>i<16. data (qbswap d x) i = data x (15 - i)) \<and> qbswap d' (qbswap d x) = x"
proof
  show "\<forall>i<16. data (qbswap d x) i = data x (15 - i)"
    by (simp add: data_qbswap)
  show "qbswap d' (qbswap d x) = x"
    by (rule quint128_eqI) (simp add: data_qbswap)
qed

theorem qbswap_reverses_and_involution_witness:
  "(3::nat) < 16 \<and>
   data (qbswap (quint128_of []) (quint128_of [1, 2, 3, 4, 5, 6, 7, 8, 9, 10, 11, 12, 13, 14, 15, 16])) 3 = 13 \<and>
   qbswap (quint128_of []) (qbswap (quint128_of [])
     (quint128_of [1, 2, 3, 4, 5, 6, 7, 8, 9, 10, 11, 12, 13, 14, 15, 16])) =
     quint128_of [1, 2, 3, 4, 5, 6, 7, 8, 9, 10, 11, 12, 13, 14, 15, 16]"
proof -
  have d: "data (quint128_of [1, 2, 3, 4, 5, 6, 7, 8, 9, 10, 11, 12, 13, 14, 15, 16]) 12 = 13"
    by (simp add: data_def Rep_quint128_of)
  from qbswap_reverses_and_involution
    [of "quint128_of []" "quint128_of [1, 2, 3, 4, 5, 6, 7, 8, 9, 10, 11, 12, 13, 14, 15, 16]"
        "quint128_of []"]
  show ?thesis using d by simp
qed


section \<open>Properties of the native-method registration\<close>

lemma registerNatives_eq:
  "registerNatives env =
     ((\<forall>c\<in>set bridge_classes. class_registers env c), registered_until_failure env bridge_classes)"
  by (simp add: registerNatives_def bridge_classes_def class_registers_def
           split: option.split)

text \<open>
  Claim C7. \<open>JNI_OnLoad\<close> returns \<open>-1\<close> exactly on a first call in which \<open>GetEnv\<close>
  does not answer \<open>JNI_OK\<close> or one of the five bridge classes fails to register (it is
  not found, or \<open>RegisterNatives\<close> answers a negative value); every other call
  returns \<open>JNI_VERSION_1_6\<close>. The classes registered are those up to the first
  failing one, none when \<open>GetEnv\<close> failed, and none on a call that finds the flag
  set; the flag is set after every call.
\<close>

theorem JNI_OnLoad_returns:
  "(fst (JNI_OnLoad vm initialized) = - 1 \<longleftrightarrow>
      \<not> initialized \<and>
      (fst (GetEnv vm JNI_VERSION_1_6) \<noteq> JNI_OK \<or>
       (\<exists>c\<in>set bridge_classes. \<not> class_registers (snd (GetEnv vm JNI_VERSION_1_6)) c))) \<and>
   (fst (JNI_OnLoad vm initialized) \<noteq> - 1 \<longrightarrow>
      fst (JNI_OnLoad vm initialized) = JNI_VERSION_1_6) \<and>
   snd (snd (JNI_OnLoad vm initialized)) =
     (if initialized \<or> fst (GetEnv vm JNI_VERSION_1_6) \<noteq> JNI_OK then []
      else registered_until_failure (snd (GetEnv vm JNI_VERSION_1_6)) bridge_classes) \<and>
   fst (snd (JNI_OnLoad vm initialized))"
  by (auto simp: JNI_OnLoad_def registerNatives_eq JNI_VERSION_1_6_def split: prod.splits)

theorem JNI_OnLoad_returns_witness:
  "fst (JNI_OnLoad vm_all_found False) \<noteq> - 1 \<and>
   fst (JNI_OnLoad vm_all_found False) = JNI_VERSION_1_6 \<and>
   fst (JNI_OnLoad vm_le_missing False) = - 1 \<and>
   snd (snd (JNI_OnLoad vm_le_missing False)) =
     [''org/qtproject/qt/android/bluetooth/QtBluetoothBroadcastReceiver'']"
proof -
  have ok: "fst (GetEnv vm_all_found JNI_VERSION_1_6) = JNI_OK"
           "fst (GetEnv vm_le_missing JNI_VERSION_1_6) = JNI_OK"
    by (simp_all add: vm_all_found_def vm_le_missing_def JNI_OK_def)
  have all: "\<forall>c\<in>set bridge_classes. class_registers (snd (GetEnv vm_all_found JNI_VERSION_1_6)) c"
    by (simp add: bridge_classes_def class_registers_def vm_all_found_def)
  have miss: "\<exists>c\<in>set bridge_classes. \<not> class_registers (snd (GetEnv vm_le_missing JNI_VERSION_1_6)) c"
    by (simp add: bridge_classes_def class_registers_def vm_le_missing_def)
  have reg: "registered_until_failure (snd (GetEnv vm_le_missing JNI_VERSION_1_6)) bridge_classes =
      [''org/qtproject/qt/android/bluetooth/QtBluetoothBroadcastReceiver'']"
    by (simp add: bridge_classes_def class_registers_def vm_le_missing_def)
  from JNI_OnLoad_returns [of vm_all_found False] JNI_OnLoad_returns [of vm_le_missing False]
    ok all miss reg
  show ?thesis by simp
qed


section \<open>Properties of the stub generation\<close>

lemma split_fields_no_IFS:
  "set w \<inter> IFS = {} \<Longrightarrow> cur @ w \<noteq> [] \<Longrightarrow> split_fields cur w = [cur @ w]"
  by (induction w arbitrary: cur) auto

lemma unquoted_word:
  assumes "set B \<inter> IFS = {}" "set B \<inter> pattern_characters = {}"
  shows "unquoted m fs (B @ ''_p.h'' @ '':'' @ B @ ''.cpp'') = [B @ ''_p.h:'' @ B @ ''.cpp'']"
proof -
  have "split_fields [] (B @ ''_p.h'' @ '':'' @ B @ ''.cpp'') = [B @ ''_p.h'' @ '':'' @ B @ ''.cpp'']"
    using assms(1) by (subst split_fields_no_IFS) (auto simp: IFS_def)
  moreover have "set (B @ ''_p.h'' @ '':'' @ B @ ''.cpp'') \<inter> pattern_characters = {}"
    using assms(2) by (auto simp: pattern_characters_def)
  ultimately show ?thesis
    by (simp add: unquoted_def pathname_expansion_def)
qed

lemma process_plain:
  assumes "set B \<inter> IFS = {}" "set B \<inter> pattern_characters = {}" "CHR 0x5C \<notin> set B"
  shows "commands (process env B X rest sh) = commands sh @ [process_command B X rest]"
    and "files (process env B X rest sh) (B @ ''.cpp'') =
           Some ((case qdbusxml2cpp env (tl (process_command B X rest)) (files sh) (B @ ''.cpp'') of
                    None \<Rightarrow> [] | Some old \<Rightarrow> old) @ moc_include B)"
    and "f \<noteq> B @ ''.cpp'' \<Longrightarrow>
           files (process env B X rest sh) f =
             qdbusxml2cpp env (tl (process_command B X rest)) (files sh) f"
  using unquoted_word [OF assms(1,2)] assms(3)
  by (simp_all add: process_def Let_def process_command_def QGLOBAL_P_H_def append_to_def echo_def
        moc_include_def split: option.split)

lemma invocations_plain:
  "\<forall>(B, X, rest)\<in>set invocations.
     set B \<inter> IFS = {} \<and> set B \<inter> pattern_characters = {} \<and> CHR 0x5C \<notin> set B"
  by (simp add: invocations_def IFS_def pattern_characters_def)

lemma script_invocations:
  "script env sh = foldl (\<lambda>sh (B, X, rest). process env B X rest sh) sh invocations"
  by (simp add: script_def invocations_def Let_def)

text \<open>
  Claim C8. The script calls \<open>process\<close> exactly ten times, once for each listed XML
  file, in order: it is the ten listed calls, one after the other. Each of them, with
  base name \<open>B\<close> and XML file \<open>X\<close>, runs \<open>qdbusxml2cpp\<close> with \<open>-p B_p.h:B.cpp\<close> on \<open>X\<close>
  and then appends an empty line and the line \<open>#include "moc_B_p.cpp"\<close> to \<open>B.cpp\<close>,
  touching no other file; so the tool is run exactly ten times. This holds whatever
  the tool writes, whatever files exist, and whichever shell \<open>/bin/sh\<close> is.
\<close>

theorem script_runs_process_ten_times:
  "(\<forall>(B, X, rest)\<in>set invocations.
      commands (process env B X rest sh) = commands sh @ [process_command B X rest] \<and>
      files (process env B X rest sh) (B @ ''.cpp'') =
        Some ((case qdbusxml2cpp env (tl (process_command B X rest)) (files sh) (B @ ''.cpp'') of
                 None \<Rightarrow> [] | Some old \<Rightarrow> old) @ moc_include B) \<and>
      (\<forall>f. f \<noteq> B @ ''.cpp'' \<longrightarrow>
         files (process env B X rest sh) f =
           qdbusxml2cpp env (tl (process_command B X rest)) (files sh) f)) \<and>
   script env sh = foldl (\<lambda>sh (B, X, rest). process env B X rest sh) sh invocations \<and>
   commands (script env sh) =
     commands sh @ map (\<lambda>(B, X, rest). process_command B X rest) invocations \<and>
   length invocations = 10 \<and>
   distinct (map (fst \<circ> snd) invocations)"
proof (intro conjI ballI)
  fix inv assume "inv \<in> set invocations"
  with invocations_plain
  have plain: "set (fst inv) \<inter> IFS = {}" "set (fst inv) \<inter> pattern_characters = {}"
      "CHR 0x5C \<notin> set (fst inv)"
    by (auto simp: case_prod_unfold)
  show "case inv of (B, X, rest) \<Rightarrow>
      commands (process env B X rest sh) = commands sh @ [process_command B X rest] \<and>
      files (process env B X rest sh) (B @ ''.cpp'') =
        Some ((case qdbusxml2cpp env (tl (process_command B X rest)) (files sh) (B @ ''.cpp'') of
                 None \<Rightarrow> [] | Some old \<Rightarrow> old) @ moc_include B) \<and>
      (\<forall>f. f \<noteq> B @ ''.cpp'' \<longrightarrow>
         files (process env B X rest sh) f =
           qdbusxml2cpp env (tl (process_command B X rest)) (files sh) f)"
    using process_plain [OF plain] by (simp add: case_prod_unfold)
next
  show "script env sh = foldl (\<lambda>sh (B, X, rest). process env B X rest sh) sh invocations"
    by (rule script_invocations)
  have p: "\<And>B X rest sh. (B, X, rest) \<in> set invocations \<Longrightarrow>
      commands (process env B X rest sh) = commands sh @ [process_command B X rest]"
    using invocations_plain process_plain(1) by fastforce
  show "commands (script env sh) =
     commands sh @ map (\<lambda>(B, X, rest). process_command B X rest) invocations"
    by (simp add: script_def Let_def p invocations_def)
  show "length invocations = 10"
    by (simp add: invocations_def)
  show "distinct (map (fst \<circ> snd) invocations)"
    by (simp add: invocations_def)
qed

text \<open>
  The last call, on an empty file system, with a tool that writes nothing, a shell
  that has every pattern match the file \<open>surprise\<close>, and an \<open>echo\<close> that drops a line
  with a backslash.
\<close>

theorem script_runs_process_ten_times_witness:
  "(''battery1'', ''org.bluez.Battery1.xml'', []) \<in> set invocations \<and>
   commands (process \<lparr>qdbusxml2cpp = \<lambda>argv fs. fs, matches = \<lambda>fs w. [''surprise''],
                      escapes = \<lambda>operand. []\<rparr>
               ''battery1'' ''org.bluez.Battery1.xml'' []
               \<lparr>files = Map.empty, commands = []\<rparr>) =
     [[''qdbusxml2cpp'', ''-i'', ''QtCore/private/qglobal_p.h'', ''-p'',
       ''battery1_p.h:battery1.cpp'', ''org.bluez.Battery1.xml'']] \<and>
   files (process \<lparr>qdbusxml2cpp = \<lambda>argv fs. fs, matches = \<lambda>fs w. [''surprise''],
                   escapes = \<lambda>operand. []\<rparr>
            ''battery1'' ''org.bluez.Battery1.xml'' []
            \<lparr>files = Map.empty, commands = []\<rparr>) ''battery1.cpp'' =
     Some ([CHR 0x0A] @ ''#include '' @ [CHR 0x22] @ ''moc_battery1_p.cpp'' @ [CHR 0x22, CHR 0x0A])"
proof -
  have mem: "(''battery1'', ''org.bluez.Battery1.xml'', []) \<in> set invocations"
    by (simp add: invocations_def)
  from script_runs_process_ten_times
         [of "\<lparr>qdbusxml2cpp = \<lambda>argv fs. fs, matches = \<lambda>fs w. [''surprise''],
               escapes = \<lambda>operand. []\<rparr>"
             "\<lparr>files = Map.empty, commands = []\<rparr>"] mem
  have "case (''battery1'', ''org.bluez.Battery1.xml'', []) of (B, X, rest) \<Rightarrow>
      commands (process \<lparr>qdbusxml2cpp = \<lambda>argv fs. fs, matches = \<lambda>fs w. [''surprise''],
                         escapes = \<lambda>operand. []\<rparr> B X rest \<lparr>files = Map.empty, commands = []\<rparr>)
        = commands \<lparr>files = Map.empty, commands = []\<rparr> @ [process_command B X rest] \<and>
      files (process \<lparr>qdbusxml2cpp = \<lambda>argv fs. fs, matches = \<lambda>fs w. [''surprise''],
                      escapes = \<lambda>operand. []\<rparr> B X rest \<lparr>files = Map.empty, commands = []\<rparr>)
          (B @ ''.cpp'') =
        Some ((case qdbusxml2cpp \<lparr>qdbusxml2cpp = \<lambda>argv fs. fs, matches = \<lambda>fs w. [''surprise''],
                      escapes = \<lambda>operand. []\<rparr> (tl (process_command B X rest))
                      (files \<lparr>files = Map.empty, commands = []\<rparr>) (B @ ''.cpp'') of
                 None \<Rightarrow> [] | Some old \<Rightarrow> old) @ moc_include B)"
    by blast
  with mem show ?thesis
    by (simp add: process_command_def moc_include_def)
qed

section \<open>Properties of the discovery agent\<close>

text \<open>
  Claim C4. \<open>supportedDiscoveryMethods\<close> on this backend is the combination of the
  classic and the low-energy method: both bits are set in the flags it returns.
\<close>

theorem supportedDiscoveryMethods_classic_and_low_energy:
  "supportedDiscoveryMethods = (ClassicMethod OR LowEnergyMethod) \<and>
   supportedDiscoveryMethods AND ClassicMethod = ClassicMethod \<and>
   supportedDiscoveryMethods AND LowEnergyMethod = LowEnergyMethod \<and>
   ClassicMethod \<noteq> NoMethod \<and> LowEnergyMethod \<noteq> NoMethod"
  by (simp add: supportedDiscoveryMethods_def ClassicMethod_def LowEnergyMethod_def NoMethod_def)

text \<open>
  \<open>registerDevice\<close> keeps the addresses of the list distinct, and emits
  \<open>deviceDiscovered\<close> exactly when the address of \<open>info\<close> is new.
\<close>

lemma registerDevice_loop_None:
  "registerDevice_loop qv info ds = None \<longleftrightarrow> address info \<notin> address ` set ds"
  by (induction ds) (auto simp: Let_def)

lemma registerDevice_loop_addresses:
  "registerDevice_loop qv info ds = Some ds' \<Longrightarrow> map address ds' = map address ds"
  by (induction ds arbitrary: ds')
     (auto simp: Let_def setServiceUuids_def setCoreConfigurations_def split: if_splits)

lemma registerDevice_distinct_addresses:
  assumes "distinct (map address (discoveredDevices d))"
  shows "distinct (map address (discoveredDevices (registerDevice qv info d)))"
proof (cases "registerDevice_loop qv info (discoveredDevices d)")
  case None
  then have "address info \<notin> address ` set (discoveredDevices d)"
    by (simp add: registerDevice_loop_None)
  then show ?thesis
    using assms by (simp add: registerDevice_def None emit_q_def Let_def)
next
  case (Some ds')
  then show ?thesis
    using assms registerDevice_loop_addresses [OF Some] by (simp add: registerDevice_def)
qed

lemma registerDevice_signal:
  "emitted (registerDevice qv info d) =
     (if address info \<in> address ` set (discoveredDevices d) then emitted d
      else emitted d @ [deviceDiscovered info])"
proof (cases "registerDevice_loop qv info (discoveredDevices d)")
  case None
  then have "address info \<notin> address ` set (discoveredDevices d)"
    by (simp add: registerDevice_loop_None)
  then show ?thesis
    by (simp add: registerDevice_def None emit_q_def Let_def)
next
  case (Some ds')
  then have "address info \<in> address ` set (discoveredDevices d)"
    using registerDevice_loop_None [of qv info "discoveredDevices d"] by simp
  then show ?thesis using Some by (simp add: registerDevice_def)
qed

lemma heartRate_neq_battery: "heartRate \<noteq> battery"
  by (simp add: heartRate_def battery_def QBluetoothUuid_quint16_def baseUuid_def)

text \<open>
  Where no stored list of UUIDs holds a duplicate, the call for a known address does
  merge the two lists as sets, whatever order the set lists its elements in.
\<close>

lemma registerDevice_loop_merges:
  assumes "registerDevice_loop qv info ds = Some ds'"
      and "\<forall>d\<in>set ds. distinct (serviceUuids d)"
      and "\<And>xs. set (qv xs) = set xs"
  shows "\<exists>i<length ds. address (ds ! i) = address info \<and> (\<forall>j<i. address (ds ! j) \<noteq> address info) \<and>
           ds' = ds[i := ds' ! i] \<and>
           set (serviceUuids (ds' ! i)) = set (serviceUuids (ds ! i)) \<union> set (serviceUuids info)"
  using assms(1,2)
proof (induction ds arbitrary: ds')
  case Nil
  then show ?case by simp
next
  case (Cons d ds)
  show ?case
  proof (cases "address d = address info")
    case True
    have dist: "distinct (serviceUuids d)" using Cons.prems(2) by simp
    have len: "length (serviceUuids d) = length (remdups (serviceUuids d @ serviceUuids info)) \<Longrightarrow>
               set (serviceUuids info) \<subseteq> set (serviceUuids d)"
    proof -
      assume l: "length (serviceUuids d) = length (remdups (serviceUuids d @ serviceUuids info))"
      have "card (set (serviceUuids d)) = card (set (serviceUuids d) \<union> set (serviceUuids info))"
        using l dist by (simp add: distinct_card length_remdups_card_conv)
      then have "set (serviceUuids d) = set (serviceUuids d) \<union> set (serviceUuids info)"
        by (intro card_subset_eq) auto
      then show ?thesis by blast
    qed
    let ?d1 = "if length (serviceUuids d) \<noteq> length (remdups (serviceUuids d @ serviceUuids info))
               then setServiceUuids (qv (remdups (serviceUuids d @ serviceUuids info))) d else d"
    let ?d2 = "if coreConfigurations ?d1 \<noteq> coreConfigurations info
               then setCoreConfigurations BaseRateAndLowEnergyCoreConfiguration ?d1 else ?d1"
    have 1: "ds' = ?d2 # ds"
      using Cons.prems(1) True by (simp add: Let_def)
    have "set (serviceUuids ?d1) = set (serviceUuids d) \<union> set (serviceUuids info)"
      using len assms(3) by (auto simp: setServiceUuids_def)
    then have 2: "set (serviceUuids ?d2) = set (serviceUuids d) \<union> set (serviceUuids info)"
      by (simp add: setCoreConfigurations_def)
    from 1 2 have "ds' = (d # ds)[0 := ds' ! 0] \<and>
        set (serviceUuids (ds' ! 0)) = set (serviceUuids ((d # ds) ! 0)) \<union> set (serviceUuids info)"
      by simp
    then show ?thesis using True by (intro exI [of _ 0]) simp
  next
    case False
    then obtain ds0 where ds0: "registerDevice_loop qv info ds = Some ds0" and ds': "ds' = d # ds0"
      using Cons.prems(1) by auto
    from Cons.IH [OF ds0] Cons.prems(2) obtain i where i: "i < length ds"
        "address (ds ! i) = address info" "\<forall>j<i. address (ds ! j) \<noteq> address info"
        "ds0 = ds[i := ds0 ! i]"
        "set (serviceUuids (ds0 ! i)) = set (serviceUuids (ds ! i)) \<union> set (serviceUuids info)"
      by auto
    have "\<forall>j<Suc i. address ((d # ds) ! j) \<noteq> address info"
      using False i(3) by (auto simp: less_Suc_eq_0_disj)
    moreover have "ds' = (d # ds)[Suc i := ds' ! Suc i]"
      using i(4) ds' by simp
    ultimately show ?thesis
      using i ds' by (intro exI [of _ "Suc i"]) simp
  qed
qed

text \<open>
  Claim C3, at the input where the code departs from it. The sensor is registered with
  the heart-rate service listed twice and then again, under the same address, with the
  battery service. The second call finds two UUIDs in the entry and two in the set of
  all three, takes the lists as unchanged and leaves the entry as it was: the battery
  service is not merged.
\<close>

theorem registerDevice_loses_uuid:
  "discoveredDevices
     (registerDevice QSet_values_as_inserted sensor_battery
        (registerDevice QSet_values_as_inserted sensor_heartRate_twice agent_idle)) =
     [sensor_heartRate_twice] \<and>
   serviceUuids sensor_battery = [battery] \<and>
   battery \<notin> set (serviceUuids sensor_heartRate_twice)"
  using heartRate_neq_battery
  by (auto simp: registerDevice_def agent_idle_def sensor_heartRate_twice_def sensor_battery_def
        emit_q_def Let_def setServiceUuids_def QBluetoothDeviceInfo_new_def)

lemma fold_setManufacturerData_frame:
  "\<exists>y. fold (\<lambda>key. setManufacturerData key (f key)) keys d = d\<lparr>manufacturerData := y\<rparr>"
proof (induction keys arbitrary: d)
  case Nil
  have "d = d\<lparr>manufacturerData := manufacturerData d\<rparr>" by simp
  then have "fold (\<lambda>key. setManufacturerData key (f key)) [] d = d\<lparr>manufacturerData := manufacturerData d\<rparr>"
    by simp
  then show ?case ..
next
  case (Cons k ks)
  let ?d' = "setManufacturerData k (f k) d"
  obtain y where y: "fold (\<lambda>key. setManufacturerData key (f key)) ks ?d' = ?d'\<lparr>manufacturerData := y\<rparr>"
    using Cons.IH by blast
  have "?d' = d\<lparr>manufacturerData := manufacturerData ?d'\<rparr>"
    by (simp add: setManufacturerData_def)
  then obtain z where z: "?d' = d\<lparr>manufacturerData := z\<rparr>" ..
  have "fold (\<lambda>key. setManufacturerData key (f key)) (k # ks) d =
          fold (\<lambda>key. setManufacturerData key (f key)) ks ?d'"
    by simp
  also have "\<dots> = ?d'\<lparr>manufacturerData := y\<rparr>" by (rule y)
  also have "\<dots> = d\<lparr>manufacturerData := y\<rparr>" by (subst z) simp
  finally show ?case ..
qed

lemma fold_setServiceData_frame:
  "\<exists>y. fold (\<lambda>key. setServiceData key (f key)) keys d = d\<lparr>serviceData := y\<rparr>"
proof (induction keys arbitrary: d)
  case Nil
  have "d = d\<lparr>serviceData := serviceData d\<rparr>" by simp
  then have "fold (\<lambda>key. setServiceData key (f key)) [] d = d\<lparr>serviceData := serviceData d\<rparr>"
    by simp
  then show ?case ..
next
  case (Cons k ks)
  let ?d' = "setServiceData k (f k) d"
  obtain y where y: "fold (\<lambda>key. setServiceData key (f key)) ks ?d' = ?d'\<lparr>serviceData := y\<rparr>"
    using Cons.IH by blast
  have "?d' = d\<lparr>serviceData := serviceData ?d'\<rparr>"
    by (simp add: setServiceData_def)
  then obtain z where z: "?d' = d\<lparr>serviceData := z\<rparr>" ..
  have "fold (\<lambda>key. setServiceData key (f key)) (k # ks) d =
          fold (\<lambda>key. setServiceData key (f key)) ks ?d'"
    by simp
  also have "\<dots> = ?d'\<lparr>serviceData := y\<rparr>" by (rule y)
  also have "\<dots> = d\<lparr>serviceData := y\<rparr>" by (subst z) simp
  finally show ?case ..
qed

lemma updated_entry_frame:
  "\<exists>md sd. updated_entry f r m s iter =
      iter\<lparr>rssi := (if testFlag f Field_RSSI then r else rssi iter),
            manufacturerData := md, serviceData := sd\<rparr> \<and>
      (\<not> testFlag f Field_ManufacturerData \<longrightarrow> md = manufacturerData iter) \<and>
      (\<not> testFlag f Field_ServiceData \<longrightarrow> sd = serviceData iter)"
proof -
  define i1 where "i1 = (if testFlag f Field_RSSI then setRssi r iter else iter)"
  define i2 where "i2 = (if testFlag f Field_ManufacturerData
                  then fold (\<lambda>key. setManufacturerData key (QHash_value m key)) (QHash_keys m) i1
                  else i1)"
  define i3 where "i3 = (if testFlag f Field_ServiceData
          then fold (\<lambda>key. setServiceData key (QHash_value s key)) (QHash_keys s) i2
          else i2)"
  have e: "updated_entry f r m s iter = i3"
    by (simp add: updated_entry_def i1_def i2_def i3_def Let_def)
  have e1: "i1 = iter\<lparr>rssi := (if testFlag f Field_RSSI then r else rssi iter)\<rparr>"
    by (simp add: i1_def setRssi_def)
  obtain md where e2: "i2 = i1\<lparr>manufacturerData := md\<rparr>"
      and f2: "\<not> testFlag f Field_ManufacturerData \<longrightarrow> md = manufacturerData i1"
  proof (cases "testFlag f Field_ManufacturerData")
    case True
    then show ?thesis
      using fold_setManufacturerData_frame [of "QHash_value m" "QHash_keys m" i1] that
      by (auto simp: i2_def)
  next
    case False
    then show ?thesis using that [of "manufacturerData i1"] by (simp add: i2_def)
  qed
  obtain sd where e3: "i3 = i2\<lparr>serviceData := sd\<rparr>"
      and f3: "\<not> testFlag f Field_ServiceData \<longrightarrow> sd = serviceData i2"
  proof (cases "testFlag f Field_ServiceData")
    case True
    then show ?thesis
      using fold_setServiceData_frame [of "QHash_value s" "QHash_keys s" i2] that
      by (auto simp: i3_def)
  next
    case False
    then show ?thesis using that [of "serviceData i2"] by (simp add: i3_def)
  qed
  show ?thesis
    unfolding e using e1 e2 f2 e3 f3 by (intro exI [of _ md] exI [of _ sd]) simp
qed

lemma updateDeviceData_loop_None:
  "updateDeviceData_loop a f r m s ds = None \<longleftrightarrow> a \<notin> address ` set ds"
  by (induction ds) (auto simp: Let_def)

lemma updateDeviceData_loop_Some:
  "updateDeviceData_loop a f r m s ds = Some (ds', iter') \<Longrightarrow>
   \<exists>i<length ds. address (ds ! i) = a \<and> (\<forall>j<i. address (ds ! j) \<noteq> a) \<and>
      iter' = updated_entry f r m s (ds ! i) \<and> ds' = ds[i := iter']"
proof (induction ds arbitrary: ds')
  case Nil
  then show ?case by simp
next
  case (Cons d ds)
  show ?case
  proof (cases "address d = a")
    case True
    then have "iter' = updated_entry f r m s d" "ds' = iter' # ds"
      using Cons.prems by (auto simp: updated_entry_def Let_def)
    then show ?thesis using True by (intro exI [of _ 0]) simp
  next
    case False
    then obtain ds0 where ds0: "updateDeviceData_loop a f r m s ds = Some (ds0, iter')"
        and ds': "ds' = d # ds0"
      using Cons.prems by auto
    from Cons.IH [OF ds0] obtain i where i: "i < length ds" "address (ds ! i) = a"
        "\<forall>j<i. address (ds ! j) \<noteq> a" "iter' = updated_entry f r m s (ds ! i)"
        "ds0 = ds[i := iter']"
      by blast
    have "\<forall>j<Suc i. address ((d # ds) ! j) \<noteq> a"
      using False i(3) by (auto simp: less_Suc_eq_0_disj)
    then show ?thesis
      using i ds' by (intro exI [of _ "Suc i"]) simp
  qed
qed

text \<open>
  Claim C9. \<open>updateDeviceData\<close> changes nothing and emits nothing when \<open>fields\<close> tests
  as \<open>Field::None\<close> or no entry has the address. Otherwise the first entry with the
  address is the only one changed: its RSSI is the given one if flagged, its manufacturer
  and service data are as before unless flagged, every other attribute and every other
  member of the agent is as before, and \<open>deviceUpdated\<close> is emitted once, with the
  changed entry.
\<close>

theorem updateDeviceData_frame:
  "(testFlag f Field_None \<or> a \<notin> address ` set (discoveredDevices d) \<longrightarrow>
      updateDeviceData a f r m s d = d) \<and>
   (\<not> testFlag f Field_None \<and> a \<in> address ` set (discoveredDevices d) \<longrightarrow>
      (\<exists>i<length (discoveredDevices d). \<exists>md sd.
         address (discoveredDevices d ! i) = a \<and>
         (\<forall>j<i. address (discoveredDevices d ! j) \<noteq> a) \<and>
         (\<not> testFlag f Field_ManufacturerData \<longrightarrow> md = manufacturerData (discoveredDevices d ! i)) \<and>
         (\<not> testFlag f Field_ServiceData \<longrightarrow> sd = serviceData (discoveredDevices d ! i)) \<and>
         updateDeviceData a f r m s d =
           d\<lparr>discoveredDevices := (discoveredDevices d)
                  [i := (discoveredDevices d ! i)
                          \<lparr>rssi := (if testFlag f Field_RSSI then r
                                    else rssi (discoveredDevices d ! i)),
                           manufacturerData := md, serviceData := sd\<rparr>],
             emitted := emitted d @
                  [deviceUpdated ((discoveredDevices d ! i)
                          \<lparr>rssi := (if testFlag f Field_RSSI then r
                                    else rssi (discoveredDevices d ! i)),
                           manufacturerData := md, serviceData := sd\<rparr>) f]\<rparr>))"
proof (intro conjI impI)
  assume "testFlag f Field_None \<or> a \<notin> address ` set (discoveredDevices d)"
  then show "updateDeviceData a f r m s d = d"
    using updateDeviceData_loop_None [of a f r m s "discoveredDevices d"]
    by (auto simp: updateDeviceData_def)
next
  assume h: "\<not> testFlag f Field_None \<and> a \<in> address ` set (discoveredDevices d)"
  then obtain ds' iter' where l: "updateDeviceData_loop a f r m s (discoveredDevices d) = Some (ds', iter')"
    using updateDeviceData_loop_None [of a f r m s "discoveredDevices d"] by fastforce
  from updateDeviceData_loop_Some [OF l] obtain i where i: "i < length (discoveredDevices d)"
      "address (discoveredDevices d ! i) = a" "\<forall>j<i. address (discoveredDevices d ! j) \<noteq> a"
      "iter' = updated_entry f r m s (discoveredDevices d ! i)" "ds' = (discoveredDevices d)[i := iter']"
    by blast
  from updated_entry_frame [of f r m s "discoveredDevices d ! i"] obtain md sd where
      e: "updated_entry f r m s (discoveredDevices d ! i) =
            (discoveredDevices d ! i)\<lparr>rssi := (if testFlag f Field_RSSI then r
                                    else rssi (discoveredDevices d ! i)),
                           manufacturerData := md, serviceData := sd\<rparr>"
      and md: "\<not> testFlag f Field_ManufacturerData \<longrightarrow> md = manufacturerData (discoveredDevices d ! i)"
      and sd: "\<not> testFlag f Field_ServiceData \<longrightarrow> sd = serviceData (discoveredDevices d ! i)"
    by blast
  have u: "updateDeviceData a f r m s d =
      d\<lparr>discoveredDevices := ds', emitted := emitted d @ [deviceUpdated iter' f]\<rparr>"
    using h l by (simp add: updateDeviceData_def emit_q_def)
  show "\<exists>i<length (discoveredDevices d). \<exists>md sd.
         address (discoveredDevices d ! i) = a \<and>
         (\<forall>j<i. address (discoveredDevices d ! j) \<noteq> a) \<and>
         (\<not> testFlag f Field_ManufacturerData \<longrightarrow> md = manufacturerData (discoveredDevices d ! i)) \<and>
         (\<not> testFlag f Field_ServiceData \<longrightarrow> sd = serviceData (discoveredDevices d ! i)) \<and>
         updateDeviceData a f r m s d =
           d\<lparr>discoveredDevices := (discoveredDevices d)
                  [i := (discoveredDevices d ! i)
                          \<lparr>rssi := (if testFlag f Field_RSSI then r
                                    else rssi (discoveredDevices d ! i)),
                           manufacturerData := md, serviceData := sd\<rparr>],
             emitted := emitted d @
                  [deviceUpdated ((discoveredDevices d ! i)
                          \<lparr>rssi := (if testFlag f Field_RSSI then r
                                    else rssi (discoveredDevices d ! i)),
                           manufacturerData := md, serviceData := sd\<rparr>) f]\<rparr>"
    using i(1,2,3) md sd u [unfolded i(4,5) e]
    by (intro exI [of _ i] exI [of _ md] exI [of _ sd] conjI) assumption+
qed

text \<open>
  Claim C5. With an invalid adapter \<open>start\<close> sets \<open>lastError\<close> to
  \<open>InvalidBluetoothAdapterError\<close> and emits \<open>errorOccurred\<close> with it; with a valid
  adapter that is powered off it does the same with \<open>PoweredOffError\<close>. In both cases
  it returns with the worker pointer and the list of discovered devices as they were.
\<close>

theorem start_precondition_failures:
  "(\<not> isValid adapter \<longrightarrow>
      start qv adapter p u methods' d =
        Some (d\<lparr>lastError := InvalidBluetoothAdapterError,
                errorString := ''Cannot find valid Bluetooth adapter.'',
                emitted := emitted d @ [errorOccurred InvalidBluetoothAdapterError]\<rparr>)) \<and>
   (isValid adapter \<and> hostMode adapter = HostPoweredOff \<longrightarrow>
      start qv adapter p u methods' d =
        Some (d\<lparr>lastError := PoweredOffError,
                errorString := ''Bluetooth adapter powered off.'',
                emitted := emitted d @ [errorOccurred PoweredOffError]\<rparr>)) \<and>
   (\<not> isValid adapter \<or> hostMode adapter = HostPoweredOff \<longrightarrow>
      (\<exists>d'. start qv adapter p u methods' d = Some d' \<and> worker d' = worker d \<and>
            discoveredDevices d' = discoveredDevices d))"
  by (auto simp: start_def emit_q_def Let_def)

section \<open>Properties of the discovery worker\<close>

lemma fst_EMIT [simp]:
  "fst (EMIT_WORKER_ERROR_AND_RETURN_IF_FAILED hr e (\<lambda>w. (S_OK, w)) w rest) = S_OK \<longleftrightarrow>
     FAILED hr \<or> fst rest = S_OK"
  by (simp add: EMIT_WORKER_ERROR_AND_RETURN_IF_FAILED_def)

lemma fst3_EMIT [simp]:
  "fst (EMIT_WORKER_ERROR_AND_RETURN_IF_FAILED hr e (\<lambda>w. (S_OK, x, w)) w rest) = S_OK \<longleftrightarrow>
     FAILED hr \<or> fst rest = S_OK"
  by (simp add: EMIT_WORKER_ERROR_AND_RETURN_IF_FAILED_def)

lemma onLeServicesReceived_loop_S_OK:
  "fst (onLeServicesReceived_loop i n deviceServices uuids info w) = S_OK"
proof (induction "n - i" arbitrary: i uuids)
  case 0
  then show ?case
    by (subst onLeServicesReceived_loop.simps) (simp add: Let_def)
next
  case (Suc k)
  then have "\<And>uuids'. fst (onLeServicesReceived_loop (i + 1) n deviceServices uuids' info w) = S_OK"
    by simp
  then show ?case
    by (subst onLeServicesReceived_loop.simps) (simp add: Let_def case_prod_unfold)
qed

lemma onLeServicesReceived_S_OK: "fst (onLeServicesReceived op status info w) = S_OK"
  by (auto simp: onLeServicesReceived_def onLeServicesReceived_loop_S_OK split: prod.splits)

lemma onBluetoothLEDeviceFound_S_OK: "fst (onBluetoothLEDeviceFound device w) = S_OK"
  by (auto simp: onBluetoothLEDeviceFound_def Let_def split: prod.splits ComPtr.splits)

lemma onPairedBluetoothLEDeviceFoundAsync_S_OK:
  "fst (onPairedBluetoothLEDeviceFoundAsync op status w) = S_OK"
  by (auto simp: onPairedBluetoothLEDeviceFoundAsync_def Let_def onBluetoothLEDeviceFound_S_OK
           split: prod.splits)

lemma onBluetoothLEDeviceFoundAsync_S_OK:
  "fst (onBluetoothLEDeviceFoundAsync op status w) = S_OK"
  by (auto simp: onBluetoothLEDeviceFoundAsync_def onBluetoothLEDeviceFound_S_OK split: prod.splits)

lemma onRfcommServicesReceived_loop_S_OK:
  "fst (onRfcommServicesReceived_loop i n deviceServices uuids a c b w) = S_OK"
proof (induction "n - i" arbitrary: i uuids)
  case 0
  then show ?case
    by (subst onRfcommServicesReceived_loop.simps) (simp add: Let_def)
next
  case (Suc k)
  then have "\<And>uuids'. fst (onRfcommServicesReceived_loop (i + 1) n deviceServices uuids' a c b w) = S_OK"
    by simp
  then show ?case
    by (subst onRfcommServicesReceived_loop.simps) (simp add: Let_def case_prod_unfold)
qed

lemma onRfcommServicesReceived_S_OK:
  "fst (onRfcommServicesReceived op status a c b w) = S_OK"
proof -
  have "fst (onRfcommServicesReceived_body op status a c b w) = S_OK"
    by (auto simp: onRfcommServicesReceived_body_def onRfcommServicesReceived_loop_S_OK
             split: prod.splits)
  then show ?thesis
    by (simp add: onRfcommServicesReceived_def case_prod_unfold)
qed

lemma onPairedClassicBluetoothDeviceFoundAsync_S_OK:
  "fst (onPairedClassicBluetoothDeviceFoundAsync op status hr0 w) = S_OK"
proof -
  have "fst (onPairedClassicBluetoothDeviceFoundAsync_body op status hr0 w) = S_OK"
    by (auto simp: onPairedClassicBluetoothDeviceFoundAsync_body_def Let_def
             split: prod.splits ComPtr.splits)
  then show ?thesis
    by (simp add: onPairedClassicBluetoothDeviceFoundAsync_def case_prod_unfold)
qed

lemma onBluetoothLEAdvertisementReceived_merge_S_OK:
  "onBluetoothLEAdvertisementReceived_merge a r m s cf us w = Some (hr, w') \<Longrightarrow> hr = S_OK"
  by (auto simp: onBluetoothLEAdvertisementReceived_merge_def Let_def case_prod_unfold
           split: if_splits option.splits)

lemma onBluetoothLEAdvertisementReceived_loop_S_OK:
  "onBluetoothLEAdvertisementReceived_loop i n guids us a r m s cf w = Some (hr, w') \<Longrightarrow> hr = S_OK"
proof (induction "n - i" arbitrary: i us)
  case 0
  then show ?case
    by (subst (asm) onBluetoothLEAdvertisementReceived_loop.simps)
       (auto dest: onBluetoothLEAdvertisementReceived_merge_S_OK)
next
  case (Suc k)
  from Suc.prems Suc.hyps(2) Suc.hyps(1) [of "i + 1"] show ?case
    by (subst (asm) onBluetoothLEAdvertisementReceived_loop.simps)
       (auto simp: EMIT_WORKER_ERROR_AND_RETURN_IF_FAILED_def Let_def case_prod_unfold
             split: if_splits)
qed

lemma onBluetoothLEAdvertisementReceived_S_OK:
  "onBluetoothLEAdvertisementReceived p u b args w = Some (hr, w') \<Longrightarrow> hr = S_OK"
  by (auto simp: onBluetoothLEAdvertisementReceived_def EMIT_WORKER_ERROR_AND_RETURN_IF_FAILED_def
                 Let_def case_prod_unfold
           split: if_splits option.splits
           dest: onBluetoothLEAdvertisementReceived_loop_S_OK)

lemma onBluetoothLEAdvertisementReceived_loop_failed:
  assumes "i \<le> j" "j < n" "FAILED (fst (GetAt guids (of_nat j)))"
  shows "onBluetoothLEAdvertisementReceived_loop i n guids us a r m s cf w =
           Some (S_OK, emit (errorOccured UnknownError) w)"
  using assms
proof (induction "j - i" arbitrary: i us)
  case 0
  then have "i = j" by simp
  then show ?case
    using "0.prems"
    by (subst onBluetoothLEAdvertisementReceived_loop.simps)
       (simp add: EMIT_WORKER_ERROR_AND_RETURN_IF_FAILED_def case_prod_unfold)
next
  case (Suc k)
  then have "k = j - (i + 1)" "i + 1 \<le> j" "i < n" by simp_all
  then have "\<And>us'. onBluetoothLEAdvertisementReceived_loop (i + 1) n guids us' a r m s cf w =
           Some (S_OK, emit (errorOccured UnknownError) w)"
    using Suc.hyps(1) Suc.prems by blast
  then show ?case
    using \<open>i < n\<close>
    by (subst onBluetoothLEAdvertisementReceived_loop.simps)
       (simp add: EMIT_WORKER_ERROR_AND_RETURN_IF_FAILED_def case_prod_unfold Let_def)
qed

lemma onLeServicesReceived_loop_failed:
  assumes "i \<le> j" "j < n"
    "FAILED (fst (GetAt deviceServices (of_nat j))) \<or>
     FAILED (fst (IGattDeviceService.get_Uuid (snd (GetAt deviceServices (of_nat j)))))"
  shows "onLeServicesReceived_loop i n deviceServices uuids info w =
           (S_OK, emit (errorOccured UnknownError) w)"
  using assms(1,2)
proof (induction "j - i" arbitrary: i uuids)
  case 0
  then have "i = j" by simp
  then show ?case
    using "0.prems" assms(3)
    by (subst onLeServicesReceived_loop.simps)
       (auto simp: EMIT_WORKER_ERROR_AND_RETURN_IF_FAILED_def case_prod_unfold)
next
  case (Suc k)
  then have "k = j - (i + 1)" "i + 1 \<le> j" "i < n" by simp_all
  then have "\<And>uuids'. onLeServicesReceived_loop (i + 1) n deviceServices uuids' info w =
           (S_OK, emit (errorOccured UnknownError) w)"
    using Suc.hyps(1) Suc.prems by blast
  then show ?case
    using \<open>i < n\<close>
    by (subst onLeServicesReceived_loop.simps)
       (simp add: EMIT_WORKER_ERROR_AND_RETURN_IF_FAILED_def case_prod_unfold Let_def)
qed

lemma onRfcommServicesReceived_loop_failed:
  assumes "i \<le> j" "j < n"
    "FAILED (fst (GetAt deviceServices (of_nat j))) \<or>
     FAILED (fst (get_ServiceId (snd (GetAt deviceServices (of_nat j))))) \<or>
     FAILED (fst (IRfcommServiceId.get_Uuid
                    (snd (get_ServiceId (snd (GetAt deviceServices (of_nat j)))))))"
  shows "onRfcommServicesReceived_loop i n deviceServices uuids a c b w =
           (S_OK, emit (errorOccured UnknownError) w)"
  using assms(1,2)
proof (induction "j - i" arbitrary: i uuids)
  case 0
  then have "i = j" by simp
  then show ?case
    using "0.prems" assms(3)
    by (subst onRfcommServicesReceived_loop.simps)
       (auto simp: EMIT_WORKER_ERROR_AND_RETURN_IF_FAILED_def case_prod_unfold)
next
  case (Suc k)
  then have "k = j - (i + 1)" "i + 1 \<le> j" "i < n" by simp_all
  then have "\<And>uuids'. onRfcommServicesReceived_loop (i + 1) n deviceServices uuids' a c b w =
           (S_OK, emit (errorOccured UnknownError) w)"
    using Suc.hyps(1) Suc.prems by blast
  then show ?case
    using \<open>i < n\<close>
    by (subst onRfcommServicesReceived_loop.simps)
       (simp add: EMIT_WORKER_ERROR_AND_RETURN_IF_FAILED_def case_prod_unfold Let_def)
qed

lemma gatherMultipleDeviceInformation_loop_split:
  assumes "i \<le> j" "j \<le> n" "\<forall>k. i \<le> k \<and> k < j \<longrightarrow> \<not> FAILED (fst (GetAt devices (of_nat k)))"
    and "gatherMultipleDeviceInformation_loop i j devices mode w = Some wj"
  shows "gatherMultipleDeviceInformation_loop i n devices mode w =
           gatherMultipleDeviceInformation_loop j n devices mode wj"
  using assms
proof (induction "j - i" arbitrary: i w)
  case 0
  then have "i = j" by simp
  with "0.prems"(4) show ?case
    by (subst (asm) gatherMultipleDeviceInformation_loop.simps) simp
next
  case (Suc k)
  then have lt: "i < j" "i < n" by simp_all
  have ok: "\<not> FAILED (fst (GetAt devices (of_nat i)))" using Suc.prems(3) lt by simp
  from Suc.prems(4) lt ok obtain w1 where
      g: "gatherDeviceInformation (snd (GetAt devices (of_nat i))) mode w = Some w1"
      and r: "gatherMultipleDeviceInformation_loop (i + 1) j devices mode w1 = Some wj"
    by (subst (asm) gatherMultipleDeviceInformation_loop.simps)
       (auto simp: EMIT_WORKER_ERROR_AND_RETURN_IF_FAILED_def case_prod_unfold split: option.splits)
  have "gatherMultipleDeviceInformation_loop (i + 1) n devices mode w1 =
           gatherMultipleDeviceInformation_loop j n devices mode wj"
    using Suc.hyps(1) [of "i + 1" w1] Suc.hyps(2) Suc.prems(2,3) lt r by simp
  then show ?case
    using lt ok g
    by (subst gatherMultipleDeviceInformation_loop.simps)
       (simp add: EMIT_WORKER_ERROR_AND_RETURN_IF_FAILED_def case_prod_unfold)
qed

lemma leBluetoothInfoFromAddressAsync_returns:
  "m_leDeviceStatics w \<noteq> Null \<Longrightarrow> \<exists>w'. leBluetoothInfoFromAddressAsync a w = Some w'"
  by (auto simp: leBluetoothInfoFromAddressAsync_def Let_def case_prod_unfold split: ComPtr.splits)

lemma onBluetoothLEAdvertisementReceived_merge_returns:
  "m_leDeviceStatics w \<noteq> Null \<Longrightarrow>
   \<exists>w'. onBluetoothLEAdvertisementReceived_merge a r m s cf us w = Some (S_OK, w')"
proof -
  assume n: "m_leDeviceStatics w \<noteq> Null"
  have k: "\<And>w0. m_leDeviceStatics w0 = m_leDeviceStatics w \<Longrightarrow>
      \<exists>w'. (case leBluetoothInfoFromAddressAsync a w0 of None \<Rightarrow> None | Some w \<Rightarrow> Some (S_OK, w))
            = Some (S_OK, w')"
    using leBluetoothInfoFromAddressAsync_returns n by (metis option.simps(5))
  show ?thesis
    unfolding onBluetoothLEAdvertisementReceived_merge_def Let_def case_prod_unfold
    by (auto intro!: k simp: QMap_modify_def)
qed

lemma onBluetoothLEAdvertisementReceived_loop_returns:
  "m_leDeviceStatics w \<noteq> Null \<Longrightarrow>
   \<exists>w'. onBluetoothLEAdvertisementReceived_loop i n guids us a r m s cf w = Some (S_OK, w')"
proof (induction "n - i" arbitrary: i us)
  case 0
  then show ?case
    by (subst onBluetoothLEAdvertisementReceived_loop.simps)
       (simp add: onBluetoothLEAdvertisementReceived_merge_returns)
next
  case (Suc k)
  then have "\<And>us'. \<exists>w'. onBluetoothLEAdvertisementReceived_loop (i + 1) n guids us' a r m s cf w
       = Some (S_OK, w')"
    by simp
  moreover have "i < n" using Suc.hyps(2) by simp
  ultimately show ?case
    by (subst onBluetoothLEAdvertisementReceived_loop.simps)
       (simp add: EMIT_WORKER_ERROR_AND_RETURN_IF_FAILED_def case_prod_unfold Let_def)
qed

lemma statics_stopLEWatcher:
  "m_deviceStatics (stopLEWatcher w) = m_deviceStatics w \<and>
   m_leDeviceStatics (stopLEWatcher w) = m_leDeviceStatics w"
  by (auto simp: stopLEWatcher_def EMIT_WORKER_ERROR_AND_RETURN_IF_FAILED_def
        emit_def split: ComPtr.splits)

lemma statics_finishDiscovery:
  "m_deviceStatics (finishDiscovery w) = m_deviceStatics w \<and>
   m_leDeviceStatics (finishDiscovery w) = m_leDeviceStatics w"
  using statics_stopLEWatcher [of "emit scanFinished w"]
  by (simp add: finishDiscovery_def Let_def emit_def)

lemma statics_decrementPairedDevicesAndCheckFinished:
  "m_deviceStatics (decrementPairedDevicesAndCheckFinished w) = m_deviceStatics w \<and>
   m_leDeviceStatics (decrementPairedDevicesAndCheckFinished w) = m_leDeviceStatics w"
  by (simp add: decrementPairedDevicesAndCheckFinished_def Let_def statics_finishDiscovery)

lemma gatherDeviceInformation_returns:
  assumes "if mode = LowEnergyMethod then m_leDeviceStatics w \<noteq> Null else m_deviceStatics w \<noteq> Null"
  shows "\<exists>w'. gatherDeviceInformation deviceInfo mode w = Some w' \<and>
           m_deviceStatics w' = m_deviceStatics w \<and> m_leDeviceStatics w' = m_leDeviceStatics w"
proof (cases "mode = LowEnergyMethod")
  case True
  with assms obtain s where "m_leDeviceStatics w = Ptr s" by (cases "m_leDeviceStatics w") auto
  with True show ?thesis
    by (auto simp: gatherDeviceInformation_def EMIT_WORKER_ERROR_AND_RETURN_IF_FAILED_def
          case_prod_unfold leBluetoothInfoFromDeviceIdAsync_def Let_def emit_def
          registerCallback_def)
next
  case False
  with assms obtain s where s: "m_deviceStatics w = Ptr s" by (cases "m_deviceStatics w") auto
  have d: "m_deviceStatics (decrementPairedDevicesAndCheckFinished (emit (errorOccured UnknownError) w))
             = m_deviceStatics w"
      "m_leDeviceStatics (decrementPairedDevicesAndCheckFinished (emit (errorOccured UnknownError) w))
             = m_leDeviceStatics w"
    by (simp_all add: statics_decrementPairedDevicesAndCheckFinished) (simp_all add: emit_def)
  from False s d show ?thesis
    by (auto simp: gatherDeviceInformation_def EMIT_WORKER_ERROR_AND_RETURN_IF_FAILED_def
          case_prod_unfold classicBluetoothInfoFromDeviceIdAsync_def Let_def)
       (simp_all add: emit_def registerCallback_def)
qed

lemma gatherMultipleDeviceInformation_loop_returns:
  assumes "if mode = LowEnergyMethod then m_leDeviceStatics w \<noteq> Null else m_deviceStatics w \<noteq> Null"
  shows "\<exists>w'. gatherMultipleDeviceInformation_loop i n devices mode w = Some w'"
  using assms
proof (induction "n - i" arbitrary: i w)
  case 0
  then show ?case by (subst gatherMultipleDeviceInformation_loop.simps) simp
next
  case (Suc k)
  have lt: "i < n" using Suc.hyps(2) by simp
  from gatherDeviceInformation_returns [OF Suc.prems, of "snd (GetAt devices (of_nat i))"]
  obtain w1 where g: "gatherDeviceInformation (snd (GetAt devices (of_nat i))) mode w = Some w1"
      and s: "m_deviceStatics w1 = m_deviceStatics w" "m_leDeviceStatics w1 = m_leDeviceStatics w"
    by blast
  from s Suc.prems
  have "if mode = LowEnergyMethod then m_leDeviceStatics w1 \<noteq> Null else m_deviceStatics w1 \<noteq> Null"
    by simp
  then have "\<exists>w'. gatherMultipleDeviceInformation_loop (i + 1) n devices mode w1 = Some w'"
    using Suc.hyps(1) [of "i + 1" w1] Suc.hyps(2) by simp
  then show ?case
    using lt g
    by (subst gatherMultipleDeviceInformation_loop.simps)
       (simp add: EMIT_WORKER_ERROR_AND_RETURN_IF_FAILED_def case_prod_unfold)
qed

lemma lambdas_S_OK:
  "fst (LeServicesCompleted_lambda tp info op4 st) = S_OK"
  "fst (LEDeviceFromIdCompleted_lambda tp op2 st) = S_OK"
  "fst (LEDeviceFromAddressCompleted_lambda tp op2 st) = S_OK"
  "fst (RfcommServicesCompleted_lambda tp a n c op3 st) = S_OK"
  "fst (ClassicDeviceFromIdCompleted_lambda tp hr0 op1 st) = S_OK"
  by (simp_all add: LeServicesCompleted_lambda_def LEDeviceFromIdCompleted_lambda_def
        LEDeviceFromAddressCompleted_lambda_def RfcommServicesCompleted_lambda_def
        ClassicDeviceFromIdCompleted_lambda_def split: option.splits)

lemma macro_failed:
  "(FAILED hr \<longrightarrow>
      EMIT_WORKER_ERROR_AND_RETURN_IF_FAILED hr error ret w rest = ret (emit (errorOccured error) w))"
  by (simp add: EMIT_WORKER_ERROR_AND_RETURN_IF_FAILED_def)

lemma macro_succeeded:
  "(\<not> FAILED hr \<longrightarrow> EMIT_WORKER_ERROR_AND_RETURN_IF_FAILED hr error ret w rest = rest)"
  by (simp add: EMIT_WORKER_ERROR_AND_RETURN_IF_FAILED_def)

lemma constructor_effects:
  "effects (QWinRTBluetoothDeviceDiscoveryWorker p token methods') =
     (if FAILED (fst (GetActivationFactory_BluetoothDevice p)) \<or>
         FAILED (fst (GetActivationFactory_BluetoothLEDevice p))
      then [Emit (errorOccured UnknownError)] else [])"
  by (simp add: QWinRTBluetoothDeviceDiscoveryWorker_def EMIT_WORKER_ERROR_AND_RETURN_IF_FAILED_def
        emit_def Let_def case_prod_unfold)

lemma stopLEWatcher_failed:
  "(m_leWatcher w = Ptr watcher \<and>
    (FAILED (Stop watcher) \<or>
     m_leDeviceAddedToken w \<noteq> 0 \<and> FAILED (remove_Received watcher (m_leDeviceAddedToken w)))
    \<longrightarrow> stopLEWatcher w = emit (errorOccured UnknownError) w)"
  by (auto simp: stopLEWatcher_def EMIT_WORKER_ERROR_AND_RETURN_IF_FAILED_def)

lemma startDeviceDiscovery_failed_factory:
  "(FAILED (fst factory) \<longrightarrow>
      startDeviceDiscovery factory mode w = Some (emit (errorOccured UnknownError) w))"
  by (auto simp: startDeviceDiscovery_def EMIT_WORKER_ERROR_AND_RETURN_IF_FAILED_def
        case_prod_unfold Let_def)

lemma startDeviceDiscovery_failed:
  "((mode = LowEnergyMethod \<and> m_leDeviceStatics w = Ptr leStatics \<and>
       selector = snd (IBluetoothLEDeviceStatics.GetDeviceSelector leStatics) \<or>
     mode \<noteq> LowEnergyMethod \<and> m_deviceStatics w = Ptr statics \<and>
       selector = snd (IBluetoothDeviceStatics.GetDeviceSelector statics)) \<and>
    (FAILED (fst (FindAllAsyncAqsFilter (snd factory) selector)) \<or>
     FAILED (put_Completed (snd (FindAllAsyncAqsFilter (snd factory) selector))))
    \<longrightarrow> startDeviceDiscovery factory mode w = Some (emit (errorOccured UnknownError) w))"
  by (auto simp: startDeviceDiscovery_def EMIT_WORKER_ERROR_AND_RETURN_IF_FAILED_def
        case_prod_unfold Let_def)

lemma onDeviceDiscoveryFinished_failed:
  "(FAILED (fst (GetResults discoveryOp)) \<or> FAILED (fst (get_Size (snd (GetResults discoveryOp))))
    \<longrightarrow> onDeviceDiscoveryFinished discoveryOp mode w = Some (emit (errorOccured UnknownError) w))"
  by (auto simp: onDeviceDiscoveryFinished_def EMIT_WORKER_ERROR_AND_RETURN_IF_FAILED_def
        case_prod_unfold Let_def)

lemma gatherDeviceInformation_failed:
  "(FAILED (fst (get_Id deviceInfo))
    \<longrightarrow> gatherDeviceInformation deviceInfo mode w = Some (emit (errorOccured UnknownError) w))"
  by (auto simp: gatherDeviceInformation_def EMIT_WORKER_ERROR_AND_RETURN_IF_FAILED_def
        case_prod_unfold Let_def)

lemma gatherMultipleDeviceInformation_failed:
  "(j < unat deviceCount \<and> (\<forall>k<j. \<not> FAILED (fst (GetAt devices (of_nat k)))) \<and>
    FAILED (fst (GetAt devices (of_nat j))) \<and>
    gatherMultipleDeviceInformation (of_nat j) devices mode w = Some wj
    \<longrightarrow> gatherMultipleDeviceInformation deviceCount devices mode w =
          Some (emit (errorOccured UnknownError) wj))"
proof (intro impI, elim conjE)
  assume j: "j < unat deviceCount"
    and ok: "\<forall>k<j. \<not> FAILED (fst (GetAt devices (of_nat k)))"
    and f: "FAILED (fst (GetAt devices (of_nat j)))"
    and g: "gatherMultipleDeviceInformation (of_nat j) devices mode w = Some wj"
  have "j < 2 ^ 32" using j unsigned_less [of deviceCount, where 'a = nat] by simp
  then have u: "unat (of_nat j :: quint32) = j"
    by (simp add: unat_of_nat)
  from g have g': "gatherMultipleDeviceInformation_loop 0 j devices mode w = Some wj"
    by (simp add: gatherMultipleDeviceInformation_def u)
  have "gatherMultipleDeviceInformation_loop 0 (unat deviceCount) devices mode w =
          gatherMultipleDeviceInformation_loop j (unat deviceCount) devices mode wj"
    using gatherMultipleDeviceInformation_loop_split [of 0 j "unat deviceCount" devices mode w wj]
      j ok g' by simp
  also have "\<dots> = Some (emit (errorOccured UnknownError) wj)"
    using j f
    by (subst gatherMultipleDeviceInformation_loop.simps)
       (simp add: EMIT_WORKER_ERROR_AND_RETURN_IF_FAILED_def case_prod_unfold)
  finally show "gatherMultipleDeviceInformation deviceCount devices mode w =
          Some (emit (errorOccured UnknownError) wj)"
    by (simp add: gatherMultipleDeviceInformation_def)
qed

lemma setupLEDeviceWatcher_failed_activation:
  "(FAILED (fst activation) \<longrightarrow>
      setupLEDeviceWatcher activation w =
        Some (emit (errorOccured UnknownError) (w\<lparr>m_leWatcher := snd activation\<rparr>)))"
  by (auto simp: setupLEDeviceWatcher_def EMIT_WORKER_ERROR_AND_RETURN_IF_FAILED_def
        case_prod_unfold Let_def emit_def registerCallback_def)

lemma setupLEDeviceWatcher_failed_put_ScanningMode:
  "(\<not> FAILED (fst activation) \<and> snd activation = Ptr watcher \<and> FAILED (put_ScanningMode watcher)
    \<longrightarrow> setupLEDeviceWatcher activation w =
        Some (emit (errorOccured UnknownError) (w\<lparr>m_leWatcher := Ptr watcher\<rparr>)))"
  by (auto simp: setupLEDeviceWatcher_def EMIT_WORKER_ERROR_AND_RETURN_IF_FAILED_def
        case_prod_unfold Let_def emit_def registerCallback_def)

lemma setupLEDeviceWatcher_failed_add_Received:
  "(\<not> FAILED (fst activation) \<and> snd activation = Ptr watcher \<and> \<not> FAILED (put_ScanningMode watcher) \<and>
    FAILED (fst (add_Received watcher (m_leDeviceAddedToken w)))
    \<longrightarrow> setupLEDeviceWatcher activation w =
        Some (emit (errorOccured UnknownError)
                (w\<lparr>m_leWatcher := Ptr watcher,
                   m_leDeviceAddedToken := snd (add_Received watcher (m_leDeviceAddedToken w))\<rparr>)))"
  by (auto simp: setupLEDeviceWatcher_def EMIT_WORKER_ERROR_AND_RETURN_IF_FAILED_def
        case_prod_unfold Let_def emit_def registerCallback_def)

lemma setupLEDeviceWatcher_failed_Start:
  "(\<not> FAILED (fst activation) \<and> snd activation = Ptr watcher \<and> \<not> FAILED (put_ScanningMode watcher) \<and>
    \<not> FAILED (fst (add_Received watcher (m_leDeviceAddedToken w))) \<and> FAILED (Start watcher)
    \<longrightarrow> setupLEDeviceWatcher activation w =
        Some (emit (errorOccured UnknownError)
                (registerCallback AdvertisementReceived
                   (w\<lparr>m_leWatcher := Ptr watcher,
                      m_leDeviceAddedToken := snd (add_Received watcher (m_leDeviceAddedToken w))\<rparr>))))"
  by (auto simp: setupLEDeviceWatcher_def EMIT_WORKER_ERROR_AND_RETURN_IF_FAILED_def
        case_prod_unfold Let_def emit_def registerCallback_def)

lemma onBluetoothLEAdvertisementReceived_failed:
  "(FAILED (fst (IBluetoothLEAdvertisementReceivedEventArgs.get_BluetoothAddress args)) \<or>
    FAILED (fst (get_RawSignalStrengthInDBm args)) \<or>
    FAILED (fst (get_Advertisement args)) \<or>
    FAILED (fst (get_ServiceUuids (snd (get_Advertisement args)))) \<or>
    FAILED (fst (get_Size (snd (get_ServiceUuids (snd (get_Advertisement args)))))) \<or>
    (\<exists>i<unat (snd (get_Size (snd (get_ServiceUuids (snd (get_Advertisement args)))))).
       FAILED (fst (GetAt (snd (get_ServiceUuids (snd (get_Advertisement args)))) (of_nat i))))
    \<longrightarrow> onBluetoothLEAdvertisementReceived byteArrayPlus u beyond args w =
          Some (S_OK, emit (errorOccured UnknownError) w))"
  by (auto simp: onBluetoothLEAdvertisementReceived_def EMIT_WORKER_ERROR_AND_RETURN_IF_FAILED_def
                 Let_def case_prod_unfold onBluetoothLEAdvertisementReceived_loop_failed)

lemma onPairedClassicBluetoothDeviceFoundAsync_failed:
  "(FAILED (fst (GetResults classicOp)) \<or>
    snd (GetResults classicOp) = Ptr classic \<and>
      (FAILED (fst (IBluetoothDevice.get_BluetoothAddress classic)) \<or>
       FAILED (fst (IBluetoothDevice.get_Name classic)) \<or>
       FAILED (fst (get_ClassOfDevice classic)) \<or>
       FAILED (fst (get_RawValue (snd (get_ClassOfDevice classic)))) \<or>
       FAILED (fst (As_IBluetoothDevice3 classic)) \<or>
       FAILED (fst (GetRfcommServicesAsync (snd (As_IBluetoothDevice3 classic)))) \<or>
       FAILED (put_Completed (snd (GetRfcommServicesAsync (snd (As_IBluetoothDevice3 classic))))))
    \<longrightarrow> onPairedClassicBluetoothDeviceFoundAsync classicOp Completed uninitialised w =
          (S_OK, decrementPairedDevicesAndCheckFinished (emit (errorOccured UnknownError) w)))"
proof
  assume "FAILED (fst (GetResults classicOp)) \<or>
 snd (GetResults classicOp) = Ptr classic \<and>
   (FAILED (fst (IBluetoothDevice.get_BluetoothAddress classic)) \<or>
    FAILED (fst (IBluetoothDevice.get_Name classic)) \<or>
    FAILED (fst (get_ClassOfDevice classic)) \<or>
    FAILED (fst (get_RawValue (snd (get_ClassOfDevice classic)))) \<or>
    FAILED (fst (As_IBluetoothDevice3 classic)) \<or>
    FAILED (fst (GetRfcommServicesAsync (snd (As_IBluetoothDevice3 classic)))) \<or>
    FAILED (put_Completed (snd (GetRfcommServicesAsync (snd (As_IBluetoothDevice3 classic))))))"
  then have "\<exists>hr. FAILED hr \<and>
      onPairedClassicBluetoothDeviceFoundAsync_body classicOp Completed uninitialised w =
        (S_OK, hr, emit (errorOccured UnknownError) w)"
    by (auto simp: onPairedClassicBluetoothDeviceFoundAsync_body_def
          EMIT_WORKER_ERROR_AND_RETURN_IF_FAILED_def case_prod_unfold Let_def)
  then show "onPairedClassicBluetoothDeviceFoundAsync classicOp Completed uninitialised w =
       (S_OK, decrementPairedDevicesAndCheckFinished (emit (errorOccured UnknownError) w))"
    by (auto simp: onPairedClassicBluetoothDeviceFoundAsync_def)
qed

lemma onRfcommServicesReceived_failed:
  "(FAILED (fst (GetResults rfcommOp)) \<or>
    FAILED (fst (get_Error (snd (GetResults rfcommOp)))) \<or>
    snd (get_Error (snd (GetResults rfcommOp))) = BluetoothError_Success \<and>
      (FAILED (fst (IRfcommDeviceServicesResult.get_Services (snd (GetResults rfcommOp)))) \<or>
       FAILED (fst (get_Size (snd (IRfcommDeviceServicesResult.get_Services (snd (GetResults rfcommOp)))))) \<or>
       (\<exists>i<unat (snd (get_Size (snd (IRfcommDeviceServicesResult.get_Services (snd (GetResults rfcommOp)))))).
          FAILED (fst (GetAt (snd (IRfcommDeviceServicesResult.get_Services (snd (GetResults rfcommOp))))
                         (of_nat i))) \<or>
          FAILED (fst (get_ServiceId
                         (snd (GetAt (snd (IRfcommDeviceServicesResult.get_Services (snd (GetResults rfcommOp))))
                                 (of_nat i))))) \<or>
          FAILED (fst (IRfcommServiceId.get_Uuid (snd (get_ServiceId
                         (snd (GetAt (snd (IRfcommDeviceServicesResult.get_Services (snd (GetResults rfcommOp))))
                                 (of_nat i)))))))))
    \<longrightarrow> onRfcommServicesReceived rfcommOp Completed bluetoothAddress classOfDeviceInt btName w =
          (S_OK, decrementPairedDevicesAndCheckFinished (emit (errorOccured UnknownError) w)))"
proof
  assume "FAILED (fst (GetResults rfcommOp)) \<or>
 FAILED (fst (get_Error (snd (GetResults rfcommOp)))) \<or>
 snd (get_Error (snd (GetResults rfcommOp))) = BluetoothError_Success \<and>
   (FAILED (fst (IRfcommDeviceServicesResult.get_Services (snd (GetResults rfcommOp)))) \<or>
    FAILED (fst (get_Size (snd (IRfcommDeviceServicesResult.get_Services (snd (GetResults rfcommOp)))))) \<or>
    (\<exists>i<unat (snd (get_Size (snd (IRfcommDeviceServicesResult.get_Services (snd (GetResults rfcommOp)))))).
       FAILED (fst (GetAt (snd (IRfcommDeviceServicesResult.get_Services (snd (GetResults rfcommOp))))
                      (of_nat i))) \<or>
       FAILED (fst (get_ServiceId
                      (snd (GetAt (snd (IRfcommDeviceServicesResult.get_Services (snd (GetResults rfcommOp))))
                              (of_nat i))))) \<or>
       FAILED (fst (IRfcommServiceId.get_Uuid (snd (get_ServiceId
                      (snd (GetAt (snd (IRfcommDeviceServicesResult.get_Services (snd (GetResults rfcommOp))))
                              (of_nat i)))))))))"
  then have "onRfcommServicesReceived_body rfcommOp Completed bluetoothAddress classOfDeviceInt btName w =
          (S_OK, emit (errorOccured UnknownError) w)"
    by (auto simp: onRfcommServicesReceived_body_def EMIT_WORKER_ERROR_AND_RETURN_IF_FAILED_def
                 case_prod_unfold onRfcommServicesReceived_loop_failed)
  then show "onRfcommServicesReceived rfcommOp Completed bluetoothAddress classOfDeviceInt btName w =
       (S_OK, decrementPairedDevicesAndCheckFinished (emit (errorOccured UnknownError) w))"
    by (simp add: onRfcommServicesReceived_def)
qed

lemma onPairedBluetoothLEDeviceFoundAsync_failed:
  "onPairedBluetoothLEDeviceFoundAsync leOp Completed w =
     (if FAILED (fst (GetResults leOp))
      then (S_OK, emit (errorOccured UnknownError)
                    (w\<lparr>m_pendingPairedDevices := m_pendingPairedDevices w - 1\<rparr>))
      else onBluetoothLEDeviceFound (snd (GetResults leOp))
             (w\<lparr>m_pendingPairedDevices := m_pendingPairedDevices w - 1\<rparr>))"
  by (simp add: onPairedBluetoothLEDeviceFoundAsync_def EMIT_WORKER_ERROR_AND_RETURN_IF_FAILED_def
                case_prod_unfold Let_def)

lemma onBluetoothLEDeviceFoundAsync_failed:
  "onBluetoothLEDeviceFoundAsync leOp Completed w =
     (if FAILED (fst (GetResults leOp)) then (S_OK, emit (errorOccured UnknownError) w)
      else onBluetoothLEDeviceFound (snd (GetResults leOp)) w)"
  by (simp add: onBluetoothLEDeviceFoundAsync_def EMIT_WORKER_ERROR_AND_RETURN_IF_FAILED_def
                case_prod_unfold Let_def)

lemma onBluetoothLEDeviceFound_failed:
  "(FAILED (fst (IBluetoothLEDevice.get_BluetoothAddress dev)) \<or>
    FAILED (fst (IBluetoothLEDevice.get_Name dev)) \<or>
    FAILED (fst (As_IBluetoothLEDevice2 dev)) \<or>
    FAILED (fst (get_DeviceInformation (snd (As_IBluetoothLEDevice2 dev)))) \<or>
    snd (get_DeviceInformation (snd (As_IBluetoothLEDevice2 dev))) = Ptr information \<and>
      (FAILED (fst (As_IDeviceInformation2 information)) \<or>
       FAILED (fst (get_Pairing (snd (As_IDeviceInformation2 information)))) \<or>
       FAILED (fst (get_IsPaired (snd (get_Pairing (snd (As_IDeviceInformation2 information)))))) \<or>
       snd (get_IsPaired (snd (get_Pairing (snd (As_IDeviceInformation2 information))))) \<and>
         (FAILED (fst (As_IBluetoothLEDevice3 dev)) \<or>
          FAILED (fst (GetGattServicesAsync (snd (As_IBluetoothLEDevice3 dev)))) \<or>
          FAILED (put_Completed (snd (GetGattServicesAsync (snd (As_IBluetoothLEDevice3 dev)))))))
    \<longrightarrow> onBluetoothLEDeviceFound (Ptr dev) w = (S_OK, emit (errorOccured UnknownError) w))"
  by (auto simp: onBluetoothLEDeviceFound_def EMIT_WORKER_ERROR_AND_RETURN_IF_FAILED_def
                 case_prod_unfold Let_def)

lemma onLeServicesReceived_failed:
  "(FAILED (fst (GetResults gattOp)) \<or>
    FAILED (fst (get_Status (snd (GetResults gattOp)))) \<or>
    snd (get_Status (snd (GetResults gattOp))) = GattCommunicationStatus_Success \<and>
      (FAILED (fst (IGattDeviceServicesResult.get_Services (snd (GetResults gattOp)))) \<or>
       FAILED (fst (get_Size (snd (IGattDeviceServicesResult.get_Services (snd (GetResults gattOp)))))) \<or>
       (\<exists>i<unat (snd (get_Size (snd (IGattDeviceServicesResult.get_Services (snd (GetResults gattOp)))))).
          FAILED (fst (GetAt (snd (IGattDeviceServicesResult.get_Services (snd (GetResults gattOp))))
                         (of_nat i))) \<or>
          FAILED (fst (IGattDeviceService.get_Uuid
                         (snd (GetAt (snd (IGattDeviceServicesResult.get_Services (snd (GetResults gattOp))))
                                 (of_nat i)))))))
    \<longrightarrow> onLeServicesReceived gattOp Completed info w = (S_OK, emit (errorOccured UnknownError) w))"
  by (auto simp: onLeServicesReceived_def EMIT_WORKER_ERROR_AND_RETURN_IF_FAILED_def
                 case_prod_unfold onLeServicesReceived_loop_failed)

lemma onBluetoothLEAdvertisementReceived_returns:
  "(m_leDeviceStatics w \<noteq> Null
    \<longrightarrow> (\<exists>w'. onBluetoothLEAdvertisementReceived byteArrayPlus u beyond args w = Some (S_OK, w') \<and>
              AdvertisementReceived_lambda (Some w) byteArrayPlus u beyond args = Some (S_OK, Some w')))"
proof
  assume n: "m_leDeviceStatics w \<noteq> Null"
  have "\<exists>w'. onBluetoothLEAdvertisementReceived byteArrayPlus u beyond args w = Some (S_OK, w')"
    using onBluetoothLEAdvertisementReceived_loop_returns [OF n]
    by (auto simp: onBluetoothLEAdvertisementReceived_def EMIT_WORKER_ERROR_AND_RETURN_IF_FAILED_def
                 Let_def case_prod_unfold)
  then show "\<exists>w'. onBluetoothLEAdvertisementReceived byteArrayPlus u beyond args w = Some (S_OK, w') \<and>
           AdvertisementReceived_lambda (Some w) byteArrayPlus u beyond args = Some (S_OK, Some w')"
    by (auto simp: AdvertisementReceived_lambda_def)
qed

lemma onDeviceDiscoveryFinished_returns:
  "((if mode = LowEnergyMethod then m_leDeviceStatics w \<noteq> Null else m_deviceStatics w \<noteq> Null)
    \<longrightarrow> (\<exists>w'. onDeviceDiscoveryFinished discoveryOp mode w = Some w' \<and>
              DeviceDiscoveryCompleted_lambda (Some w) mode discoveryOp Completed = Some (S_OK, Some w')))"
proof
  assume a: "if mode = LowEnergyMethod then m_leDeviceStatics w \<noteq> Null else m_deviceStatics w \<noteq> Null"
  let ?w = "w\<lparr>m_pendingPairedDevices :=
                 m_pendingPairedDevices w + snd (get_Size (snd (GetResults discoveryOp)))\<rparr>"
  from a have "if mode = LowEnergyMethod then m_leDeviceStatics ?w \<noteq> Null
               else m_deviceStatics ?w \<noteq> Null"
    by simp
  from gatherMultipleDeviceInformation_loop_returns [OF this]
  have "\<exists>w'. onDeviceDiscoveryFinished discoveryOp mode w = Some w'"
    by (simp add: onDeviceDiscoveryFinished_def EMIT_WORKER_ERROR_AND_RETURN_IF_FAILED_def
          case_prod_unfold Let_def gatherMultipleDeviceInformation_def)
  then show "\<exists>w'. onDeviceDiscoveryFinished discoveryOp mode w = Some w' \<and>
           DeviceDiscoveryCompleted_lambda (Some w) mode discoveryOp Completed = Some (S_OK, Some w')"
    by (auto simp: DeviceDiscoveryCompleted_lambda_def)
qed

lemma onBluetoothLEAdvertisementReceived_only_S_OK:
  "(\<forall>r w'. onBluetoothLEAdvertisementReceived byteArrayPlus u beyond args w = Some (r, w') \<longrightarrow> r = S_OK)"
  by (auto dest: onBluetoothLEAdvertisementReceived_S_OK)

lemma AdvertisementReceived_lambda_only_S_OK:
  "(\<forall>r tp'. AdvertisementReceived_lambda tp byteArrayPlus u beyond args = Some (r, tp') \<longrightarrow> r = S_OK)"
  by (auto simp: AdvertisementReceived_lambda_def split: option.splits
           dest: onBluetoothLEAdvertisementReceived_S_OK)

lemma DeviceDiscoveryCompleted_lambda_only_S_OK:
  "(\<forall>r tp'. DeviceDiscoveryCompleted_lambda tp mode discoveryOp st = Some (r, tp') \<longrightarrow> r = S_OK)"
  by (auto simp: DeviceDiscoveryCompleted_lambda_def split: option.splits if_splits)

text \<open>
  Claim C1. Where the checking macro meets a failed \<open>HRESULT\<close> it emits
  \<open>errorOccured\<close> with the error it is given and leaves by its \<open>ret\<close>; otherwise
  it goes on. Every use of the macro in the worker passes \<open>UnknownError\<close>. So, for
  each method and callback that the macro guards, and for each call it guards there:
  if the call fails, the method has emitted \<open>errorOccured(UnknownError)\<close> and has
  returned, a callback with \<open>S_OK\<close>. This is stated for the constructor,
  \<open>stopLEWatcher\<close>, \<open>startDeviceDiscovery\<close>, \<open>onDeviceDiscoveryFinished\<close>,
  \<open>gatherDeviceInformation\<close>, \<open>gatherMultipleDeviceInformation\<close> (at the first
  element that cannot be fetched, after what the elements before it have done to the
  worker), \<open>setupLEDeviceWatcher\<close>, the advertisement handler, and the handlers of the
  classic and low-energy look-ups; where a scope guard runs on the way out, it runs
  after the signal. With the factory it needs in hand, the advertisement handler and
  the handler of the enumeration do return, with \<open>S_OK\<close>; and no handler or
  registered callback of the worker ever returns anything but \<open>S_OK\<close>.
\<close>

theorem failed_HRESULT_emits_UnknownError_and_returns_S_OK:
  "(FAILED hr \<longrightarrow>
      EMIT_WORKER_ERROR_AND_RETURN_IF_FAILED hr error ret w rest = ret (emit (errorOccured error) w)) \<and>
   (\<not> FAILED hr \<longrightarrow> EMIT_WORKER_ERROR_AND_RETURN_IF_FAILED hr error ret w rest = rest) \<and>
   effects (QWinRTBluetoothDeviceDiscoveryWorker p token methods') =
     (if FAILED (fst (GetActivationFactory_BluetoothDevice p)) \<or>
         FAILED (fst (GetActivationFactory_BluetoothLEDevice p))
      then [Emit (errorOccured UnknownError)] else []) \<and>
   (m_leWatcher w = Ptr watcher \<and>
    (FAILED (Stop watcher) \<or>
     m_leDeviceAddedToken w \<noteq> 0 \<and> FAILED (remove_Received watcher (m_leDeviceAddedToken w)))
    \<longrightarrow> stopLEWatcher w = emit (errorOccured UnknownError) w) \<and>
   (FAILED (fst factory) \<longrightarrow>
      startDeviceDiscovery factory mode w = Some (emit (errorOccured UnknownError) w)) \<and>
   ((mode = LowEnergyMethod \<and> m_leDeviceStatics w = Ptr leStatics \<and>
       selector = snd (IBluetoothLEDeviceStatics.GetDeviceSelector leStatics) \<or>
     mode \<noteq> LowEnergyMethod \<and> m_deviceStatics w = Ptr statics \<and>
       selector = snd (IBluetoothDeviceStatics.GetDeviceSelector statics)) \<and>
    (FAILED (fst (FindAllAsyncAqsFilter (snd factory) selector)) \<or>
     FAILED (put_Completed (snd (FindAllAsyncAqsFilter (snd factory) selector))))
    \<longrightarrow> startDeviceDiscovery factory mode w = Some (emit (errorOccured UnknownError) w)) \<and>
   (FAILED (fst (GetResults discoveryOp)) \<or> FAILED (fst (get_Size (snd (GetResults discoveryOp))))
    \<longrightarrow> onDeviceDiscoveryFinished discoveryOp mode w = Some (emit (errorOccured UnknownError) w)) \<and>
   (FAILED (fst (get_Id deviceInfo))
    \<longrightarrow> gatherDeviceInformation deviceInfo mode w = Some (emit (errorOccured UnknownError) w)) \<and>
   (j < unat deviceCount \<and> (\<forall>k<j. \<not> FAILED (fst (GetAt devices (of_nat k)))) \<and>
    FAILED (fst (GetAt devices (of_nat j))) \<and>
    gatherMultipleDeviceInformation (of_nat j) devices mode w = Some wj
    \<longrightarrow> gatherMultipleDeviceInformation deviceCount devices mode w =
          Some (emit (errorOccured UnknownError) wj)) \<and>
   (FAILED (fst activation) \<longrightarrow>
      setupLEDeviceWatcher activation w =
        Some (emit (errorOccured UnknownError) (w\<lparr>m_leWatcher := snd activation\<rparr>))) \<and>
   (\<not> FAILED (fst activation) \<and> snd activation = Ptr watcher \<and> FAILED (put_ScanningMode watcher)
    \<longrightarrow> setupLEDeviceWatcher activation w =
        Some (emit (errorOccured UnknownError) (w\<lparr>m_leWatcher := Ptr watcher\<rparr>))) \<and>
   (\<not> FAILED (fst activation) \<and> snd activation = Ptr watcher \<and> \<not> FAILED (put_ScanningMode watcher) \<and>
    FAILED (fst (add_Received watcher (m_leDeviceAddedToken w)))
    \<longrightarrow> setupLEDeviceWatcher activation w =
        Some (emit (errorOccured UnknownError)
                (w\<lparr>m_leWatcher := Ptr watcher,
                   m_leDeviceAddedToken := snd (add_Received watcher (m_leDeviceAddedToken w))\<rparr>))) \<and>
   (\<not> FAILED (fst activation) \<and> snd activation = Ptr watcher \<and> \<not> FAILED (put_ScanningMode watcher) \<and>
    \<not> FAILED (fst (add_Received watcher (m_leDeviceAddedToken w))) \<and> FAILED (Start watcher)
    \<longrightarrow> setupLEDeviceWatcher activation w =
        Some (emit (errorOccured UnknownError)
                (registerCallback AdvertisementReceived
                   (w\<lparr>m_leWatcher := Ptr watcher,
                      m_leDeviceAddedToken := snd (add_Received watcher (m_leDeviceAddedToken w))\<rparr>)))) \<and>
   (FAILED (fst (IBluetoothLEAdvertisementReceivedEventArgs.get_BluetoothAddress args)) \<or>
    FAILED (fst (get_RawSignalStrengthInDBm args)) \<or>
    FAILED (fst (get_Advertisement args)) \<or>
    FAILED (fst (get_ServiceUuids (snd (get_Advertisement args)))) \<or>
    FAILED (fst (get_Size (snd (get_ServiceUuids (snd (get_Advertisement args)))))) \<or>
    (\<exists>i<unat (snd (get_Size (snd (get_ServiceUuids (snd (get_Advertisement args)))))).
       FAILED (fst (GetAt (snd (get_ServiceUuids (snd (get_Advertisement args)))) (of_nat i))))
    \<longrightarrow> onBluetoothLEAdvertisementReceived byteArrayPlus u beyond args w =
          Some (S_OK, emit (errorOccured UnknownError) w)) \<and>
   (FAILED (fst (GetResults classicOp)) \<or>
    snd (GetResults classicOp) = Ptr classic \<and>
      (FAILED (fst (IBluetoothDevice.get_BluetoothAddress classic)) \<or>
       FAILED (fst (IBluetoothDevice.get_Name classic)) \<or>
       FAILED (fst (get_ClassOfDevice classic)) \<or>
       FAILED (fst (get_RawValue (snd (get_ClassOfDevice classic)))) \<or>
       FAILED (fst (As_IBluetoothDevice3 classic)) \<or>
       FAILED (fst (GetRfcommServicesAsync (snd (As_IBluetoothDevice3 classic)))) \<or>
       FAILED (put_Completed (snd (GetRfcommServicesAsync (snd (As_IBluetoothDevice3 classic))))))
    \<longrightarrow> onPairedClassicBluetoothDeviceFoundAsync classicOp Completed uninitialised w =
          (S_OK, decrementPairedDevicesAndCheckFinished (emit (errorOccured UnknownError) w))) \<and>
   (FAILED (fst (GetResults rfcommOp)) \<or>
    FAILED (fst (get_Error (snd (GetResults rfcommOp)))) \<or>
    snd (get_Error (snd (GetResults rfcommOp))) = BluetoothError_Success \<and>
      (FAILED (fst (IRfcommDeviceServicesResult.get_Services (snd (GetResults rfcommOp)))) \<or>
       FAILED (fst (get_Size (snd (IRfcommDeviceServicesResult.get_Services (snd (GetResults rfcommOp)))))) \<or>
       (\<exists>i<unat (snd (get_Size (snd (IRfcommDeviceServicesResult.get_Services (snd (GetResults rfcommOp)))))).
          FAILED (fst (GetAt (snd (IRfcommDeviceServicesResult.get_Services (snd (GetResults rfcommOp))))
                         (of_nat i))) \<or>
          FAILED (fst (get_ServiceId
                         (snd (GetAt (snd (IRfcommDeviceServicesResult.get_Services (snd (GetResults rfcommOp))))
                                 (of_nat i))))) \<or>
          FAILED (fst (IRfcommServiceId.get_Uuid (snd (get_ServiceId
                         (snd (GetAt (snd (IRfcommDeviceServicesResult.get_Services (snd (GetResults rfcommOp))))
                                 (of_nat i)))))))))
    \<longrightarrow> onRfcommServicesReceived rfcommOp Completed bluetoothAddress classOfDeviceInt btName w =
          (S_OK, decrementPairedDevicesAndCheckFinished (emit (errorOccured UnknownError) w))) \<and>
   onPairedBluetoothLEDeviceFoundAsync leOp Completed w =
     (if FAILED (fst (GetResults leOp))
      then (S_OK, emit (errorOccured UnknownError)
                    (w\<lparr>m_pendingPairedDevices := m_pendingPairedDevices w - 1\<rparr>))
      else onBluetoothLEDeviceFound (snd (GetResults leOp))
             (w\<lparr>m_pendingPairedDevices := m_pendingPairedDevices w - 1\<rparr>)) \<and>
   onBluetoothLEDeviceFoundAsync leOp Completed w =
     (if FAILED (fst (GetResults leOp)) then (S_OK, emit (errorOccured UnknownError) w)
      else onBluetoothLEDeviceFound (snd (GetResults leOp)) w) \<and>
   (FAILED (fst (IBluetoothLEDevice.get_BluetoothAddress dev)) \<or>
    FAILED (fst (IBluetoothLEDevice.get_Name dev)) \<or>
    FAILED (fst (As_IBluetoothLEDevice2 dev)) \<or>
    FAILED (fst (get_DeviceInformation (snd (As_IBluetoothLEDevice2 dev)))) \<or>
    snd (get_DeviceInformation (snd (As_IBluetoothLEDevice2 dev))) = Ptr information \<and>
      (FAILED (fst (As_IDeviceInformation2 information)) \<or>
       FAILED (fst (get_Pairing (snd (As_IDeviceInformation2 information)))) \<or>
       FAILED (fst (get_IsPaired (snd (get_Pairing (snd (As_IDeviceInformation2 information)))))) \<or>
       snd (get_IsPaired (snd (get_Pairing (snd (As_IDeviceInformation2 information))))) \<and>
         (FAILED (fst (As_IBluetoothLEDevice3 dev)) \<or>
          FAILED (fst (GetGattServicesAsync (snd (As_IBluetoothLEDevice3 dev)))) \<or>
          FAILED (put_Completed (snd (GetGattServicesAsync (snd (As_IBluetoothLEDevice3 dev)))))))
    \<longrightarrow> onBluetoothLEDeviceFound (Ptr dev) w = (S_OK, emit (errorOccured UnknownError) w)) \<and>
   (FAILED (fst (GetResults gattOp)) \<or>
    FAILED (fst (get_Status (snd (GetResults gattOp)))) \<or>
    snd (get_Status (snd (GetResults gattOp))) = GattCommunicationStatus_Success \<and>
      (FAILED (fst (IGattDeviceServicesResult.get_Services (snd (GetResults gattOp)))) \<or>
       FAILED (fst (get_Size (snd (IGattDeviceServicesResult.get_Services (snd (GetResults gattOp)))))) \<or>
       (\<exists>i<unat (snd (get_Size (snd (IGattDeviceServicesResult.get_Services (snd (GetResults gattOp)))))).
          FAILED (fst (GetAt (snd (IGattDeviceServicesResult.get_Services (snd (GetResults gattOp))))
                         (of_nat i))) \<or>
          FAILED (fst (IGattDeviceService.get_Uuid
                         (snd (GetAt (snd (IGattDeviceServicesResult.get_Services (snd (GetResults gattOp))))
                                 (of_nat i)))))))
    \<longrightarrow> onLeServicesReceived gattOp Completed info w = (S_OK, emit (errorOccured UnknownError) w)) \<and>
   (m_leDeviceStatics w \<noteq> Null
    \<longrightarrow> (\<exists>w'. onBluetoothLEAdvertisementReceived byteArrayPlus u beyond args w = Some (S_OK, w') \<and>
              AdvertisementReceived_lambda (Some w) byteArrayPlus u beyond args = Some (S_OK, Some w'))) \<and>
   ((if mode = LowEnergyMethod then m_leDeviceStatics w \<noteq> Null else m_deviceStatics w \<noteq> Null)
    \<longrightarrow> (\<exists>w'. onDeviceDiscoveryFinished discoveryOp mode w = Some w' \<and>
              DeviceDiscoveryCompleted_lambda (Some w) mode discoveryOp Completed = Some (S_OK, Some w'))) \<and>
   (\<forall>r w'. onBluetoothLEAdvertisementReceived byteArrayPlus u beyond args w = Some (r, w') \<longrightarrow> r = S_OK) \<and>
   (\<forall>r tp'. AdvertisementReceived_lambda tp byteArrayPlus u beyond args = Some (r, tp') \<longrightarrow> r = S_OK) \<and>
   (\<forall>r tp'. DeviceDiscoveryCompleted_lambda tp mode discoveryOp st = Some (r, tp') \<longrightarrow> r = S_OK) \<and>
   fst (onPairedClassicBluetoothDeviceFoundAsync classicOp st uninitialised w) = S_OK \<and>
   fst (ClassicDeviceFromIdCompleted_lambda tp uninitialised classicOp st) = S_OK \<and>
   fst (onRfcommServicesReceived rfcommOp st bluetoothAddress classOfDeviceInt btName w) = S_OK \<and>
   fst (RfcommServicesCompleted_lambda tp bluetoothAddress btName classOfDeviceInt rfcommOp st) = S_OK \<and>
   fst (onPairedBluetoothLEDeviceFoundAsync leOp st w) = S_OK \<and>
   fst (LEDeviceFromIdCompleted_lambda tp leOp st) = S_OK \<and>
   fst (onBluetoothLEDeviceFoundAsync leOp st w) = S_OK \<and>
   fst (LEDeviceFromAddressCompleted_lambda tp leOp st) = S_OK \<and>
   fst (onBluetoothLEDeviceFound device w) = S_OK \<and>
   fst (onLeServicesReceived gattOp st info w) = S_OK \<and>
   fst (LeServicesCompleted_lambda tp info gattOp st) = S_OK"
  by (intro conjI)
     (rule macro_failed macro_succeeded constructor_effects
        stopLEWatcher_failed startDeviceDiscovery_failed_factory startDeviceDiscovery_failed
        onDeviceDiscoveryFinished_failed gatherDeviceInformation_failed
        gatherMultipleDeviceInformation_failed setupLEDeviceWatcher_failed_activation
        setupLEDeviceWatcher_failed_put_ScanningMode setupLEDeviceWatcher_failed_add_Received
        setupLEDeviceWatcher_failed_Start onBluetoothLEAdvertisementReceived_failed
        onPairedClassicBluetoothDeviceFoundAsync_failed onRfcommServicesReceived_failed
        onPairedBluetoothLEDeviceFoundAsync_failed onBluetoothLEDeviceFoundAsync_failed
        onBluetoothLEDeviceFound_failed onLeServicesReceived_failed
        onBluetoothLEAdvertisementReceived_returns onDeviceDiscoveryFinished_returns
        onBluetoothLEAdvertisementReceived_only_S_OK AdvertisementReceived_lambda_only_S_OK
        DeviceDiscoveryCompleted_lambda_only_S_OK onPairedClassicBluetoothDeviceFoundAsync_S_OK
        lambdas_S_OK(5) onRfcommServicesReceived_S_OK lambdas_S_OK(4)
        onPairedBluetoothLEDeviceFoundAsync_S_OK lambdas_S_OK(2)
        onBluetoothLEDeviceFoundAsync_S_OK lambdas_S_OK(3) onBluetoothLEDeviceFound_S_OK
        onLeServicesReceived_S_OK lambdas_S_OK(1))+

text \<open>
  Claim C6. Each of the seven callbacks that the worker hands to \<open>put_Completed\<close> or
  \<open>add_Received\<close> holds the worker through a guarded pointer. Called when the pointer
  is null, it returns \<open>S_OK\<close> and there is still no worker: nothing was done.
\<close>

theorem destroyed_worker_callbacks_do_nothing:
  "DeviceDiscoveryCompleted_lambda None mode op0 st = Some (S_OK, None) \<and>
   AdvertisementReceived_lambda None p u b args = Some (S_OK, None) \<and>
   ClassicDeviceFromIdCompleted_lambda None hr0 op1 st = (S_OK, None) \<and>
   LEDeviceFromIdCompleted_lambda None op2 st = (S_OK, None) \<and>
   LEDeviceFromAddressCompleted_lambda None op2 st = (S_OK, None) \<and>
   RfcommServicesCompleted_lambda None a n c op3 st = (S_OK, None) \<and>
   LeServicesCompleted_lambda None info op4 st = (S_OK, None)"
  by (simp add: DeviceDiscoveryCompleted_lambda_def AdvertisementReceived_lambda_def
        ClassicDeviceFromIdCompleted_lambda_def LEDeviceFromIdCompleted_lambda_def
        LEDeviceFromAddressCompleted_lambda_def RfcommServicesCompleted_lambda_def
        LeServicesCompleted_lambda_def)

section \<open>Properties of the advertisement readers\<close>

lemma set_QHash_insert: "set (QHash_insert k v h) \<subseteq> insert (k, v) (set h)"
  unfolding QHash_insert_def by (induction h) auto

lemma map_of_QHash_insert: "map_of (QHash_insert k v h) = (map_of h)(k \<mapsto> v)"
  by (simp add: QHash_insert_def update_conv')

lemma keys_QHash_insert: "fst ` set (QHash_insert k v h) = insert k (fst ` set h)"
  by (simp add: QHash_insert_def dom_update)

lemma extractManufacturerData_loop_step:
  "i < n \<Longrightarrow>
   extractManufacturerData_loop i n data' ret =
     extractManufacturerData_loop (i + 1) n data'
       (if \<not> FAILED (fst (GetAt data' (of_nat i))) \<and> \<not> FAILED (fst (get_CompanyId
             (snd (GetAt data' (of_nat i))))) \<and> \<not> FAILED (fst
             (IBluetoothLEManufacturerData.get_Data (snd (GetAt data' (of_nat i)))))
        then QHash_insert (snd (get_CompanyId (snd (GetAt data' (of_nat i))))) (byteArrayFromBuffer (snd (IBluetoothLEManufacturerData.get_Data (snd (GetAt
                      data' (of_nat i)))))) ret else ret)"
  by (subst extractManufacturerData_loop.simps)
     (simp add: WARN_AND_CONTINUE_IF_FAILED_def case_prod_unfold Let_def)

lemma extractManufacturerData_loop_entries:
  "set (extractManufacturerData_loop i n data' ret) \<subseteq>
     set ret \<union>
     {e. \<exists>j. i \<le> j \<and> j < n \<and> \<not> FAILED (fst (GetAt data' (of_nat j))) \<and> \<not> FAILED (fst
              (get_CompanyId (snd (GetAt data' (of_nat j))))) \<and> \<not> FAILED (fst
              (IBluetoothLEManufacturerData.get_Data (snd (GetAt data' (of_nat j))))) \<and>
            e = (snd (get_CompanyId (snd (GetAt data' (of_nat j)))), byteArrayFromBuffer (snd (IBluetoothLEManufacturerData.get_Data (snd (GetAt
                    data' (of_nat j))))))}"
proof (induction "n - i" arbitrary: i ret)
  case 0
  then show ?case by (subst extractManufacturerData_loop.simps) simp
next
  case (Suc k)
  have lt: "i < n" using Suc.hyps(2) by simp
  have IH: "\<And>ret'. set (extractManufacturerData_loop (i + 1) n data' ret') \<subseteq>
     set ret' \<union>
     {e. \<exists>j. i + 1 \<le> j \<and> j < n \<and> \<not> FAILED (fst (GetAt data' (of_nat j))) \<and> \<not> FAILED (fst
              (get_CompanyId (snd (GetAt data' (of_nat j))))) \<and> \<not> FAILED (fst
              (IBluetoothLEManufacturerData.get_Data (snd (GetAt data' (of_nat j))))) \<and>
            e = (snd (get_CompanyId (snd (GetAt data' (of_nat j)))), byteArrayFromBuffer (snd (IBluetoothLEManufacturerData.get_Data (snd (GetAt
                    data' (of_nat j))))))}"
    using Suc.hyps(1) [of "i + 1"] Suc.hyps(2) by simp
  show ?case
  proof (cases "\<not> FAILED (fst (GetAt data' (of_nat i))) \<and> \<not> FAILED (fst
              (get_CompanyId (snd (GetAt data' (of_nat i))))) \<and> \<not> FAILED (fst
              (IBluetoothLEManufacturerData.get_Data (snd (GetAt data' (of_nat i)))))")
    case True
    show ?thesis
      using IH [of "QHash_insert (snd (get_CompanyId (snd (GetAt data' (of_nat i))))) (byteArrayFromBuffer (snd (IBluetoothLEManufacturerData.get_Data (snd (GetAt
                    data' (of_nat i)))))) ret"]
        set_QHash_insert [of "snd (get_CompanyId (snd (GetAt data' (of_nat i))))" "byteArrayFromBuffer (snd (IBluetoothLEManufacturerData.get_Data (snd (GetAt
                    data' (of_nat i)))))" ret] lt True
      unfolding extractManufacturerData_loop_step [OF lt]
      by (simp add: subset_iff) (metis Suc_leD order_refl)
  next
    case False
    show ?thesis
      using IH [of ret] lt False
      unfolding extractManufacturerData_loop_step [OF lt]
      by (simp add: subset_iff) (metis Suc_leD)
  qed
qed

lemma extractManufacturerData_loop_frame:
  assumes "\<forall>j. i \<le> j \<and> j < n \<and> \<not> FAILED (fst (GetAt data' (of_nat j))) \<and> \<not> FAILED (fst
              (get_CompanyId (snd (GetAt data' (of_nat j))))) \<and> \<not> FAILED (fst
              (IBluetoothLEManufacturerData.get_Data (snd (GetAt data' (of_nat j)))))
             \<longrightarrow> snd (get_CompanyId (snd (GetAt data' (of_nat j)))) \<noteq> k"
  shows "map_of (extractManufacturerData_loop i n data' ret) k = map_of ret k"
  using assms
proof (induction "n - i" arbitrary: i ret)
  case 0
  then show ?case by (subst extractManufacturerData_loop.simps) simp
next
  case (Suc m)
  have lt: "i < n" using Suc.hyps(2) by simp
  have IH: "\<And>ret'. map_of (extractManufacturerData_loop (i + 1) n data' ret') k = map_of ret' k"
    using Suc.hyps(1) [of "i + 1"] Suc.hyps(2) Suc.prems by simp
  show ?case
    using Suc.prems lt
    unfolding extractManufacturerData_loop_step [OF lt] IH
    by (auto simp: map_of_QHash_insert)
qed

lemma extractManufacturerData_loop_last:
  assumes "i \<le> j" "j < n"
    and "\<not> FAILED (fst (GetAt data' (of_nat j))) \<and> \<not> FAILED (fst (get_CompanyId
            (snd (GetAt data' (of_nat j))))) \<and> \<not> FAILED (fst
            (IBluetoothLEManufacturerData.get_Data (snd (GetAt data' (of_nat j)))))"
    and "\<forall>j'. j < j' \<and> j' < n \<and> \<not> FAILED (fst (GetAt data' (of_nat j'))) \<and> \<not> FAILED (fst
              (get_CompanyId (snd (GetAt data' (of_nat j'))))) \<and> \<not> FAILED (fst
              (IBluetoothLEManufacturerData.get_Data (snd (GetAt data' (of_nat j')))))
           \<longrightarrow> snd (get_CompanyId (snd (GetAt data' (of_nat j')))) \<noteq> snd (get_CompanyId (snd (GetAt data' (of_nat j))))"
  shows "map_of (extractManufacturerData_loop i n data' ret) (snd (get_CompanyId (snd (GetAt data' (of_nat j))))) =
           Some (byteArrayFromBuffer (snd (IBluetoothLEManufacturerData.get_Data (snd (GetAt
                    data' (of_nat j))))))"
  using assms(1)
proof (induction "j - i" arbitrary: i ret)
  case 0
  then have ij: "i = j" by simp
  have "map_of (extractManufacturerData_loop (j + 1) n data'
                  (QHash_insert (snd (get_CompanyId (snd (GetAt data' (of_nat j))))) (byteArrayFromBuffer (snd (IBluetoothLEManufacturerData.get_Data (snd (GetAt
                    data' (of_nat j)))))) ret))
          (snd (get_CompanyId (snd (GetAt data' (of_nat j))))) =
        map_of (QHash_insert (snd (get_CompanyId (snd (GetAt data' (of_nat j))))) (byteArrayFromBuffer (snd (IBluetoothLEManufacturerData.get_Data (snd (GetAt
                    data' (of_nat j)))))) ret) (snd (get_CompanyId (snd (GetAt data' (of_nat j)))))"
    using assms(4) by (intro extractManufacturerData_loop_frame) auto
  then show ?case
    using assms(2,3) unfolding ij extractManufacturerData_loop_step [OF assms(2)]
    by (simp add: map_of_QHash_insert)
next
  case (Suc m)
  then have lt: "i < n" "i + 1 \<le> j" "m = j - (i + 1)" using assms(2) by simp_all
  show ?case
    unfolding extractManufacturerData_loop_step [OF lt(1)]
    using Suc.hyps(1) [OF lt(3) lt(2)] by simp
qed

lemma extractServiceData_sections_step:
  "i < n \<Longrightarrow>
   extractServiceData_sections p u b i n S ret =
     extractServiceData_sections p u b (i + 1) n S
       (if \<not> FAILED (fst (GetAt S (of_nat i))) \<and> \<not> FAILED (fst (get_DataType (snd
         (GetAt S (of_nat i))))) \<and> \<not> FAILED (fst
         (IBluetoothLEAdvertisementDataSection.get_Data (snd (GetAt S (of_nat i))))) then (if snd
         (get_DataType (snd (GetAt S (of_nat i)))) = 0x16 then QHash_insert
         (QBluetoothUuid_quint16 (qFromLittleEndian_quint16 (constData (b i) (byteArrayFromBuffer
         (snd (IBluetoothLEAdvertisementDataSection.get_Data (snd (GetAt S (of_nat i))))))))) (p
         (byteArrayFromBuffer (snd (IBluetoothLEAdvertisementDataSection.get_Data (snd (GetAt S
         (of_nat i)))))) 2) ret else if snd (get_DataType (snd (GetAt S (of_nat i)))) = 0x20 then
         QHash_insert (QBluetoothUuid_quint32 (qFromLittleEndian_quint32 (constData (b i)
         (byteArrayFromBuffer (snd (IBluetoothLEAdvertisementDataSection.get_Data (snd (GetAt S
         (of_nat i))))))))) (p (byteArrayFromBuffer (snd
         (IBluetoothLEAdvertisementDataSection.get_Data (snd (GetAt S (of_nat i)))))) 4) ret else
         if snd (get_DataType (snd (GetAt S (of_nat i)))) = 0x21 then QHash_insert
         (QBluetoothUuid_quint128 (qToBigEndian_quint128 u (qFromLittleEndian_quint128 (constData
         (b i) (byteArrayFromBuffer (snd (IBluetoothLEAdvertisementDataSection.get_Data (snd
         (GetAt S (of_nat i)))))))))) (p (byteArrayFromBuffer (snd
         (IBluetoothLEAdvertisementDataSection.get_Data (snd (GetAt S (of_nat i)))))) 16) ret else
         ret) else ret)"
  by (subst extractServiceData_sections.simps)
     (simp add: WARN_AND_CONTINUE_IF_FAILED_def case_prod_unfold Let_def)

lemma extractServiceData_sections_keys_mono:
  "fst ` set ret \<subseteq> fst ` set (extractServiceData_sections p u b i n S ret)"
proof (induction "n - i" arbitrary: i ret)
  case 0
  then show ?case by (subst extractServiceData_sections.simps) simp
next
  case (Suc m)
  have lt: "i < n" using Suc.hyps(2) by simp
  have IH: "\<And>ret'. fst ` set ret' \<subseteq> fst ` set (extractServiceData_sections p u b (i + 1) n S ret')"
    using Suc.hyps(1) [of "i + 1"] Suc.hyps(2) by simp
  have "fst ` set ret \<subseteq> fst ` set (if \<not> FAILED (fst (GetAt S (of_nat i))) \<and> \<not> FAILED (fst (get_DataType (snd
         (GetAt S (of_nat i))))) \<and> \<not> FAILED (fst
         (IBluetoothLEAdvertisementDataSection.get_Data (snd (GetAt S (of_nat i))))) then (if snd
         (get_DataType (snd (GetAt S (of_nat i)))) = 0x16 then QHash_insert
         (QBluetoothUuid_quint16 (qFromLittleEndian_quint16 (constData (b i) (byteArrayFromBuffer
         (snd (IBluetoothLEAdvertisementDataSection.get_Data (snd (GetAt S (of_nat i))))))))) (p
         (byteArrayFromBuffer (snd (IBluetoothLEAdvertisementDataSection.get_Data (snd (GetAt S
         (of_nat i)))))) 2) ret else if snd (get_DataType (snd (GetAt S (of_nat i)))) = 0x20 then
         QHash_insert (QBluetoothUuid_quint32 (qFromLittleEndian_quint32 (constData (b i)
         (byteArrayFromBuffer (snd (IBluetoothLEAdvertisementDataSection.get_Data (snd (GetAt S
         (of_nat i))))))))) (p (byteArrayFromBuffer (snd
         (IBluetoothLEAdvertisementDataSection.get_Data (snd (GetAt S (of_nat i)))))) 4) ret else
         if snd (get_DataType (snd (GetAt S (of_nat i)))) = 0x21 then QHash_insert
         (QBluetoothUuid_quint128 (qToBigEndian_quint128 u (qFromLittleEndian_quint128 (constData
         (b i) (byteArrayFromBuffer (snd (IBluetoothLEAdvertisementDataSection.get_Data (snd
         (GetAt S (of_nat i)))))))))) (p (byteArrayFromBuffer (snd
         (IBluetoothLEAdvertisementDataSection.get_Data (snd (GetAt S (of_nat i)))))) 16) ret else
         ret) else ret)"
    by (auto simp: keys_QHash_insert)
  then show ?case
    unfolding extractServiceData_sections_step [OF lt]
    using IH by (rule subset_trans)
qed

lemma extractServiceData_sections_entries:
  fixes p u b S
  defines "P \<equiv> \<lambda>j e. \<not> FAILED (fst (GetAt S (of_nat j))) \<and> \<not> FAILED (fst (get_DataType
              (snd (GetAt S (of_nat j))))) \<and> \<not> FAILED (fst
              (IBluetoothLEAdvertisementDataSection.get_Data (snd (GetAt S (of_nat j))))) \<and>
            (snd (get_DataType (snd (GetAt S (of_nat j)))) = 0x16 \<and> e =
              (QBluetoothUuid_quint16 (qFromLittleEndian_quint16 (constData (b j)
              (byteArrayFromBuffer (snd (IBluetoothLEAdvertisementDataSection.get_Data (snd (GetAt
              S (of_nat j)))))))), p (byteArrayFromBuffer (snd
              (IBluetoothLEAdvertisementDataSection.get_Data (snd (GetAt S (of_nat j)))))) 2)
              \<or> snd (get_DataType (snd (GetAt S (of_nat j)))) = 0x20 \<and> e =
              (QBluetoothUuid_quint32 (qFromLittleEndian_quint32 (constData (b j)
              (byteArrayFromBuffer (snd (IBluetoothLEAdvertisementDataSection.get_Data (snd (GetAt
              S (of_nat j)))))))), p (byteArrayFromBuffer (snd
              (IBluetoothLEAdvertisementDataSection.get_Data (snd (GetAt S (of_nat j)))))) 4)
              \<or> snd (get_DataType (snd (GetAt S (of_nat j)))) = 0x21 \<and> e =
              (QBluetoothUuid_quint128 (qToBigEndian_quint128 u (qFromLittleEndian_quint128
              (constData (b j) (byteArrayFromBuffer (snd
              (IBluetoothLEAdvertisementDataSection.get_Data (snd (GetAt S (of_nat j))))))))), p
              (byteArrayFromBuffer (snd (IBluetoothLEAdvertisementDataSection.get_Data (snd (GetAt
              S (of_nat j)))))) 16))"
  shows "set (extractServiceData_sections p u b i n S ret) \<subseteq> set ret \<union> {e. \<exists>j. i \<le> j \<and> j < n \<and> P j e}"
proof (induction "n - i" arbitrary: i ret)
  case 0
  then show ?case by (subst extractServiceData_sections.simps) simp
next
  case (Suc m)
  have lt: "i < n" using Suc.hyps(2) by simp
  have IH: "\<And>ret'. set (extractServiceData_sections p u b (i + 1) n S ret') \<subseteq>
              set ret' \<union> {e. \<exists>j. i + 1 \<le> j \<and> j < n \<and> P j e}"
    using Suc.hyps(1) [of "i + 1"] Suc.hyps(2) by simp
  have mono: "{e. \<exists>j. i + 1 \<le> j \<and> j < n \<and> P j e} \<subseteq> {e. \<exists>j. i \<le> j \<and> j < n \<and> P j e}"
    by (fastforce dest: Suc_leD)
  have here: "set (if \<not> FAILED (fst (GetAt S (of_nat i))) \<and> \<not> FAILED (fst (get_DataType (snd
         (GetAt S (of_nat i))))) \<and> \<not> FAILED (fst
         (IBluetoothLEAdvertisementDataSection.get_Data (snd (GetAt S (of_nat i))))) then (if snd
         (get_DataType (snd (GetAt S (of_nat i)))) = 0x16 then QHash_insert
         (QBluetoothUuid_quint16 (qFromLittleEndian_quint16 (constData (b i) (byteArrayFromBuffer
         (snd (IBluetoothLEAdvertisementDataSection.get_Data (snd (GetAt S (of_nat i))))))))) (p
         (byteArrayFromBuffer (snd (IBluetoothLEAdvertisementDataSection.get_Data (snd (GetAt S
         (of_nat i)))))) 2) ret else if snd (get_DataType (snd (GetAt S (of_nat i)))) = 0x20 then
         QHash_insert (QBluetoothUuid_quint32 (qFromLittleEndian_quint32 (constData (b i)
         (byteArrayFromBuffer (snd (IBluetoothLEAdvertisementDataSection.get_Data (snd (GetAt S
         (of_nat i))))))))) (p (byteArrayFromBuffer (snd
         (IBluetoothLEAdvertisementDataSection.get_Data (snd (GetAt S (of_nat i)))))) 4) ret else
         if snd (get_DataType (snd (GetAt S (of_nat i)))) = 0x21 then QHash_insert
         (QBluetoothUuid_quint128 (qToBigEndian_quint128 u (qFromLittleEndian_quint128 (constData
         (b i) (byteArrayFromBuffer (snd (IBluetoothLEAdvertisementDataSection.get_Data (snd
         (GetAt S (of_nat i)))))))))) (p (byteArrayFromBuffer (snd
         (IBluetoothLEAdvertisementDataSection.get_Data (snd (GetAt S (of_nat i)))))) 16) ret else
         ret) else ret) \<subseteq> set ret \<union> {e. P i e}"
    unfolding P_def by (auto dest!: set_QHash_insert [THEN subsetD])
  have "{e. P i e} \<subseteq> {e. \<exists>j. i \<le> j \<and> j < n \<and> P j e}"
    using lt by auto
  with here mono IH [of "(if \<not> FAILED (fst (GetAt S (of_nat i))) \<and> \<not> FAILED (fst (get_DataType (snd
         (GetAt S (of_nat i))))) \<and> \<not> FAILED (fst
         (IBluetoothLEAdvertisementDataSection.get_Data (snd (GetAt S (of_nat i))))) then (if snd
         (get_DataType (snd (GetAt S (of_nat i)))) = 0x16 then QHash_insert
         (QBluetoothUuid_quint16 (qFromLittleEndian_quint16 (constData (b i) (byteArrayFromBuffer
         (snd (IBluetoothLEAdvertisementDataSection.get_Data (snd (GetAt S (of_nat i))))))))) (p
         (byteArrayFromBuffer (snd (IBluetoothLEAdvertisementDataSection.get_Data (snd (GetAt S
         (of_nat i)))))) 2) ret else if snd (get_DataType (snd (GetAt S (of_nat i)))) = 0x20 then
         QHash_insert (QBluetoothUuid_quint32 (qFromLittleEndian_quint32 (constData (b i)
         (byteArrayFromBuffer (snd (IBluetoothLEAdvertisementDataSection.get_Data (snd (GetAt S
         (of_nat i))))))))) (p (byteArrayFromBuffer (snd
         (IBluetoothLEAdvertisementDataSection.get_Data (snd (GetAt S (of_nat i)))))) 4) ret else
         if snd (get_DataType (snd (GetAt S (of_nat i)))) = 0x21 then QHash_insert
         (QBluetoothUuid_quint128 (qToBigEndian_quint128 u (qFromLittleEndian_quint128 (constData
         (b i) (byteArrayFromBuffer (snd (IBluetoothLEAdvertisementDataSection.get_Data (snd
         (GetAt S (of_nat i)))))))))) (p (byteArrayFromBuffer (snd
         (IBluetoothLEAdvertisementDataSection.get_Data (snd (GetAt S (of_nat i)))))) 16) ret else
         ret) else ret)"]
  show ?case
    unfolding extractServiceData_sections_step [OF lt] by blast
qed

lemma extractServiceData_sections_keys:
  fixes p u b S
  defines "K \<equiv> \<lambda>j R. (snd (get_DataType (snd (GetAt S (of_nat j)))) = 0x16 \<longrightarrow>
           QBluetoothUuid_quint16 (qFromLittleEndian_quint16 (constData (b j) (byteArrayFromBuffer
           (snd (IBluetoothLEAdvertisementDataSection.get_Data (snd (GetAt S (of_nat j))))))))
           \<in> fst ` set (R)) \<and> (snd (get_DataType (snd (GetAt S (of_nat j)))) = 0x20
           \<longrightarrow> QBluetoothUuid_quint32 (qFromLittleEndian_quint32 (constData (b j)
           (byteArrayFromBuffer (snd (IBluetoothLEAdvertisementDataSection.get_Data (snd (GetAt S
           (of_nat j)))))))) \<in> fst ` set (R)) \<and> (snd (get_DataType (snd (GetAt S (of_nat
           j)))) = 0x21 \<longrightarrow> QBluetoothUuid_quint128 (qToBigEndian_quint128 u
           (qFromLittleEndian_quint128 (constData (b j) (byteArrayFromBuffer (snd
           (IBluetoothLEAdvertisementDataSection.get_Data (snd (GetAt S (of_nat j))))))))) \<in>
           fst ` set (R))"
  assumes "i \<le> j" "j < n"
    and "\<not> FAILED (fst (GetAt S (of_nat j))) \<and> \<not> FAILED (fst (get_DataType (snd
            (GetAt S (of_nat j))))) \<and> \<not> FAILED (fst
            (IBluetoothLEAdvertisementDataSection.get_Data (snd (GetAt S (of_nat j)))))"
  shows "K j (extractServiceData_sections p u b i n S ret)"
  using assms(2)
proof (induction "j - i" arbitrary: i ret)
  case 0
  then have ij: "i = j" by simp
  have "fst ` set (if \<not> FAILED (fst (GetAt S (of_nat j))) \<and> \<not> FAILED (fst (get_DataType (snd
         (GetAt S (of_nat j))))) \<and> \<not> FAILED (fst
         (IBluetoothLEAdvertisementDataSection.get_Data (snd (GetAt S (of_nat j))))) then (if snd
         (get_DataType (snd (GetAt S (of_nat j)))) = 0x16 then QHash_insert
         (QBluetoothUuid_quint16 (qFromLittleEndian_quint16 (constData (b j) (byteArrayFromBuffer
         (snd (IBluetoothLEAdvertisementDataSection.get_Data (snd (GetAt S (of_nat j))))))))) (p
         (byteArrayFromBuffer (snd (IBluetoothLEAdvertisementDataSection.get_Data (snd (GetAt S
         (of_nat j)))))) 2) ret else if snd (get_DataType (snd (GetAt S (of_nat j)))) = 0x20 then
         QHash_insert (QBluetoothUuid_quint32 (qFromLittleEndian_quint32 (constData (b j)
         (byteArrayFromBuffer (snd (IBluetoothLEAdvertisementDataSection.get_Data (snd (GetAt S
         (of_nat j))))))))) (p (byteArrayFromBuffer (snd
         (IBluetoothLEAdvertisementDataSection.get_Data (snd (GetAt S (of_nat j)))))) 4) ret else
         if snd (get_DataType (snd (GetAt S (of_nat j)))) = 0x21 then QHash_insert
         (QBluetoothUuid_quint128 (qToBigEndian_quint128 u (qFromLittleEndian_quint128 (constData
         (b j) (byteArrayFromBuffer (snd (IBluetoothLEAdvertisementDataSection.get_Data (snd
         (GetAt S (of_nat j)))))))))) (p (byteArrayFromBuffer (snd
         (IBluetoothLEAdvertisementDataSection.get_Data (snd (GetAt S (of_nat j)))))) 16) ret else
         ret) else ret)
          \<subseteq> fst ` set (extractServiceData_sections p u b (j + 1) n S
                  (if \<not> FAILED (fst (GetAt S (of_nat j))) \<and> \<not> FAILED (fst (get_DataType (snd
         (GetAt S (of_nat j))))) \<and> \<not> FAILED (fst
         (IBluetoothLEAdvertisementDataSection.get_Data (snd (GetAt S (of_nat j))))) then (if snd
         (get_DataType (snd (GetAt S (of_nat j)))) = 0x16 then QHash_insert
         (QBluetoothUuid_quint16 (qFromLittleEndian_quint16 (constData (b j) (byteArrayFromBuffer
         (snd (IBluetoothLEAdvertisementDataSection.get_Data (snd (GetAt S (of_nat j))))))))) (p
         (byteArrayFromBuffer (snd (IBluetoothLEAdvertisementDataSection.get_Data (snd (GetAt S
         (of_nat j)))))) 2) ret else if snd (get_DataType (snd (GetAt S (of_nat j)))) = 0x20 then
         QHash_insert (QBluetoothUuid_quint32 (qFromLittleEndian_quint32 (constData (b j)
         (byteArrayFromBuffer (snd (IBluetoothLEAdvertisementDataSection.get_Data (snd (GetAt S
         (of_nat j))))))))) (p (byteArrayFromBuffer (snd
         (IBluetoothLEAdvertisementDataSection.get_Data (snd (GetAt S (of_nat j)))))) 4) ret else
         if snd (get_DataType (snd (GetAt S (of_nat j)))) = 0x21 then QHash_insert
         (QBluetoothUuid_quint128 (qToBigEndian_quint128 u (qFromLittleEndian_quint128 (constData
         (b j) (byteArrayFromBuffer (snd (IBluetoothLEAdvertisementDataSection.get_Data (snd
         (GetAt S (of_nat j)))))))))) (p (byteArrayFromBuffer (snd
         (IBluetoothLEAdvertisementDataSection.get_Data (snd (GetAt S (of_nat j)))))) 16) ret else
         ret) else ret))"
    by (rule extractServiceData_sections_keys_mono)
  then show ?case
    using assms(4) unfolding ij extractServiceData_sections_step [OF assms(3)] K_def
    by (auto simp: keys_QHash_insert)
next
  case (Suc m)
  then have lt: "i < n" "i + 1 \<le> j" "m = j - (i + 1)" using assms(3) by simp_all
  show ?case
    unfolding extractServiceData_sections_step [OF lt(1)]
    using Suc.hyps(1) [OF lt(3) lt(2)] by simp
qed

lemma extractServiceData_types_step:
  "extractServiceData_types p u b (t # ts) ad ret =
     (if \<not> FAILED (fst (GetSectionsByType ad t)) \<and> \<not> FAILED (fst (get_Size (snd
           (GetSectionsByType ad t))))
      then extractServiceData_types p u b ts ad
             (extractServiceData_sections p u (b t) 0 (unat (snd (get_Size (snd (GetSectionsByType ad t))))) (snd (GetSectionsByType ad t)) ret)
      else ret)"
  by (auto simp: WARN_AND_RETURN_IF_FAILED_def case_prod_unfold Let_def)

lemma extractServiceData_types_keys_mono:
  "fst ` set ret \<subseteq> fst ` set (extractServiceData_types p u b ts ad ret)"
proof (induction ts arbitrary: ret)
  case Nil
  then show ?case by simp
next
  case (Cons t ts)
  let ?ret = "extractServiceData_sections p u (b t) 0 (unat (snd (get_Size (snd (GetSectionsByType ad t))))) (snd (GetSectionsByType ad t)) ret"
  show ?case
  proof (cases "\<not> FAILED (fst (GetSectionsByType ad t)) \<and> \<not> FAILED (fst (get_Size (snd
            (GetSectionsByType ad t))))")
    case True
    have "fst ` set ret \<subseteq> fst ` set ?ret"
      by (rule extractServiceData_sections_keys_mono)
    also have "\<dots> \<subseteq> fst ` set (extractServiceData_types p u b ts ad ?ret)"
      by (rule Cons.IH)
    finally show ?thesis
      unfolding extractServiceData_types_step using True by simp
  next
    case False
    then show ?thesis
      unfolding extractServiceData_types_step by auto
  qed
qed

lemma extractServiceData_types_entries:
  fixes p u b ad
  defines "P \<equiv> \<lambda>t j e. \<not> FAILED (fst (GetAt (snd (GetSectionsByType ad t)) (of_nat j))) \<and> \<not>
              FAILED (fst (get_DataType (snd (GetAt (snd (GetSectionsByType ad t)) (of_nat j)))))
              \<and> \<not> FAILED (fst (IBluetoothLEAdvertisementDataSection.get_Data (snd (GetAt
              (snd (GetSectionsByType ad t)) (of_nat j))))) \<and> (snd (get_DataType (snd (GetAt
              (snd (GetSectionsByType ad t)) (of_nat j)))) = 0x16 \<and> e =
              (QBluetoothUuid_quint16 (qFromLittleEndian_quint16 (constData (b t j)
              (byteArrayFromBuffer (snd (IBluetoothLEAdvertisementDataSection.get_Data (snd (GetAt
              (snd (GetSectionsByType ad t)) (of_nat j)))))))), p (byteArrayFromBuffer (snd
              (IBluetoothLEAdvertisementDataSection.get_Data (snd (GetAt (snd (GetSectionsByType
              ad t)) (of_nat j)))))) 2) \<or> snd (get_DataType (snd (GetAt (snd
              (GetSectionsByType ad t)) (of_nat j)))) = 0x20 \<and> e = (QBluetoothUuid_quint32
              (qFromLittleEndian_quint32 (constData (b t j) (byteArrayFromBuffer (snd
              (IBluetoothLEAdvertisementDataSection.get_Data (snd (GetAt (snd (GetSectionsByType
              ad t)) (of_nat j)))))))), p (byteArrayFromBuffer (snd
              (IBluetoothLEAdvertisementDataSection.get_Data (snd (GetAt (snd (GetSectionsByType
              ad t)) (of_nat j)))))) 4) \<or> snd (get_DataType (snd (GetAt (snd
              (GetSectionsByType ad t)) (of_nat j)))) = 0x21 \<and> e = (QBluetoothUuid_quint128
              (qToBigEndian_quint128 u (qFromLittleEndian_quint128 (constData (b t j)
              (byteArrayFromBuffer (snd (IBluetoothLEAdvertisementDataSection.get_Data (snd (GetAt
              (snd (GetSectionsByType ad t)) (of_nat j))))))))), p (byteArrayFromBuffer (snd
              (IBluetoothLEAdvertisementDataSection.get_Data (snd (GetAt (snd (GetSectionsByType
              ad t)) (of_nat j)))))) 16))"
  shows "set (extractServiceData_types p u b ts ad ret) \<subseteq>
           set ret \<union> {e. \<exists>t\<in>set ts. \<exists>j<unat (snd (get_Size (snd (GetSectionsByType ad t)))). P t j e}"
proof (induction ts arbitrary: ret)
  case Nil
  then show ?case by simp
next
  case (Cons t ts)
  let ?ret = "extractServiceData_sections p u (b t) 0 (unat (snd (get_Size (snd (GetSectionsByType ad t))))) (snd (GetSectionsByType ad t)) ret"
  have "set ?ret \<subseteq> set ret \<union> {e. \<exists>j. 0 \<le> j \<and> j < unat (snd (get_Size (snd (GetSectionsByType ad t)))) \<and> P t j e}"
    unfolding P_def by (rule extractServiceData_sections_entries)
  then have a: "set ?ret \<subseteq> set ret \<union> {e. \<exists>j<unat (snd (get_Size (snd (GetSectionsByType ad t)))). P t j e}"
    by simp
  show ?case
    unfolding extractServiceData_types_step
    using a Cons.IH [of ?ret] by (simp add: subset_iff) blast
qed

lemma extractServiceData_types_keys:
  fixes p u b ad
  defines "ok \<equiv> \<lambda>t. \<not> FAILED (fst (GetSectionsByType ad t)) \<and> \<not> FAILED (fst (get_Size
              (snd (GetSectionsByType ad t))))"
    and "K \<equiv> \<lambda>t j R. (snd (get_DataType (snd (GetAt (snd (GetSectionsByType ad t)) (of_nat j)))) = 0x16
           \<longrightarrow> QBluetoothUuid_quint16 (qFromLittleEndian_quint16 (constData (b t j)
           (byteArrayFromBuffer (snd (IBluetoothLEAdvertisementDataSection.get_Data (snd (GetAt
           (snd (GetSectionsByType ad t)) (of_nat j)))))))) \<in> fst ` set (R)) \<and> (snd
           (get_DataType (snd (GetAt (snd (GetSectionsByType ad t)) (of_nat j)))) = 0x20
           \<longrightarrow> QBluetoothUuid_quint32 (qFromLittleEndian_quint32 (constData (b t j)
           (byteArrayFromBuffer (snd (IBluetoothLEAdvertisementDataSection.get_Data (snd (GetAt
           (snd (GetSectionsByType ad t)) (of_nat j)))))))) \<in> fst ` set (R)) \<and> (snd
           (get_DataType (snd (GetAt (snd (GetSectionsByType ad t)) (of_nat j)))) = 0x21
           \<longrightarrow> QBluetoothUuid_quint128 (qToBigEndian_quint128 u
           (qFromLittleEndian_quint128 (constData (b t j) (byteArrayFromBuffer (snd
           (IBluetoothLEAdvertisementDataSection.get_Data (snd (GetAt (snd (GetSectionsByType ad
           t)) (of_nat j))))))))) \<in> fst ` set (R))"
  assumes "m < length ts"
    and "\<forall>m'\<le>m. ok (ts ! m')"
    and "j < unat (snd (get_Size (snd (GetSectionsByType ad (ts ! m)))))"
    and "\<not> FAILED (fst (GetAt (snd (GetSectionsByType ad (ts ! m))) (of_nat j))) \<and>
            \<not> FAILED (fst (get_DataType (snd (GetAt (snd (GetSectionsByType ad (ts ! m)))
            (of_nat j))))) \<and> \<not> FAILED (fst
            (IBluetoothLEAdvertisementDataSection.get_Data (snd (GetAt (snd (GetSectionsByType ad
            (ts ! m))) (of_nat j)))))"
  shows "K (ts ! m) j (extractServiceData_types p u b ts ad ret)"
  using assms(3-)
proof (induction ts arbitrary: m ret)
  case Nil
  then show ?case by simp
next
  case (Cons t ts)
  let ?ret = "extractServiceData_sections p u (b t) 0 (unat (snd (get_Size (snd (GetSectionsByType ad t))))) (snd (GetSectionsByType ad t)) ret"
  from Cons.prems(2) have "ok ((t # ts) ! 0)" by blast
  then have ok: "\<not> FAILED (fst (GetSectionsByType ad t)) \<and> \<not> FAILED (fst (get_Size (snd
          (GetSectionsByType ad t))))"
    by (simp add: ok_def)
  have step: "extractServiceData_types p u b (t # ts) ad ret = extractServiceData_types p u b ts ad ?ret"
    unfolding extractServiceData_types_step using ok by simp
  show ?case
  proof (cases m)
    case 0
    have "K t j ?ret"
      unfolding K_def
      using extractServiceData_sections_keys
              [where i = 0 and j = j and n = "unat (snd (get_Size (snd (GetSectionsByType ad t))))" and S = "snd (GetSectionsByType ad t)" and p = p and u = u
                 and b = "b t" and ret = ret]
        Cons.prems(3,4) 0 by simp
    then have "K t j (extractServiceData_types p u b ts ad ?ret)"
      unfolding K_def
      using extractServiceData_types_keys_mono
              [where ret = ?ret and p = p and u = u and b = b and ts = ts and ad = ad]
      by blast
    then show ?thesis
      unfolding step using 0 by simp
  next
    case (Suc m0)
    have "\<forall>m'\<le>m0. ok (ts ! m')"
    proof (intro allI impI)
      fix m' assume "m' \<le> m0"
      then have "Suc m' \<le> m" using Suc by simp
      with Cons.prems(2) have "ok ((t # ts) ! Suc m')" by blast
      then show "ok (ts ! m')" by simp
    qed
    then have "K (ts ! m0) j (extractServiceData_types p u b ts ad ?ret)"
      using Cons.IH [of m0 ?ret] Cons.prems Suc by simp
    then show ?thesis
      unfolding step using Suc by simp
  qed
qed

lemma Rep_qbswap: "Rep_quint128 (qbswap d x) = rev (Rep_quint128 x)"
proof (rule nth_equalityI)
  show "length (Rep_quint128 (qbswap d x)) = length (rev (Rep_quint128 x))"
    by (simp add: length_Rep_quint128)
next
  fix i assume "i < length (Rep_quint128 (qbswap d x))"
  then have i: "i < 16" by (simp add: length_Rep_quint128)
  then show "Rep_quint128 (qbswap d x) ! i = rev (Rep_quint128 x) ! i"
    using data_qbswap [OF i, of d x]
    by (simp add: data_def rev_nth length_Rep_quint128)
qed

text \<open>
  Claim C2, as amended. Manufacturer data is passed through: the worker reports
  nothing when the list or its size cannot be had; every pair it reports is the
  company id and the bytes of an element of the platform's list that could be read;
  and an element that could be read is reported under its company id, with its own
  bytes unless a later element has the same id. Service data is decoded by the worker
  itself. It asks the platform for the data sections of the types \<open>0x16\<close>, \<open>0x20\<close> and
  \<open>0x21\<close>, in this order, and stops at the first list that cannot be had; the order
  is the increasing one, so the list of a type is reached when the lists of the types
  up to it could be had. Every pair it reports comes from one of these sections: by the
  section's own data type the key is the UUID that the first 2, 4 or 16 bytes of the
  payload spell, and the value is what \<open>bufferData + n\<close> gives. Every section that was
  reached and could be read is reported under that UUID. The readers take the 16-bit
  and the 32-bit value lowest byte first, read the NUL that ends a one-byte payload as
  the high byte, and give the 16 bytes of a 128-bit value in reverse order.
\<close>

theorem advertisement_data_provenance:
  "(FAILED (fst (get_ManufacturerData ad)) \<or> FAILED (fst (get_Size (snd (get_ManufacturerData ad))))
    \<longrightarrow> extractManufacturerData ad = []) \<and>
   (\<forall>(company, bytes)\<in>set (extractManufacturerData ad).
      \<exists>j<unat (snd (get_Size (snd (get_ManufacturerData ad)))).
      \<exists>hrAt element hrId hrData elementBuffer.
        GetAt (snd (get_ManufacturerData ad)) (of_nat j) = (hrAt, element) \<and> \<not> FAILED hrAt \<and>
        get_CompanyId element = (hrId, company) \<and> \<not> FAILED hrId \<and>
        IBluetoothLEManufacturerData.get_Data element = (hrData, elementBuffer) \<and> \<not> FAILED hrData \<and>
        bytes = byteArrayFromBuffer elementBuffer) \<and>
   (get_ManufacturerData ad = (hr, elements) \<and> \<not> FAILED hr \<and>
    get_Size elements = (hrSize, count) \<and> \<not> FAILED hrSize \<and> j < unat count \<and>
    GetAt elements (of_nat j) = (hrAt, element) \<and> \<not> FAILED hrAt \<and>
    get_CompanyId element = (hrId, company) \<and> \<not> FAILED hrId \<and>
    IBluetoothLEManufacturerData.get_Data element = (hrData, elementBuffer) \<and> \<not> FAILED hrData \<and>
    (\<forall>j'. j < j' \<and> j' < unat count \<and>
       \<not> FAILED (fst (GetAt elements (of_nat j'))) \<and> \<not> FAILED (fst (get_CompanyId
         (snd (GetAt elements (of_nat j'))))) \<and> \<not> FAILED (fst
         (IBluetoothLEManufacturerData.get_Data (snd (GetAt elements (of_nat j')))))
       \<longrightarrow> snd (get_CompanyId (snd (GetAt elements (of_nat j')))) \<noteq> company)
    \<longrightarrow> map_of (extractManufacturerData ad) company = Some (byteArrayFromBuffer elementBuffer)) \<and>
   (FAILED (fst (GetSectionsByType ad 0x16)) \<or>
    FAILED (fst (get_Size (snd (GetSectionsByType ad 0x16))))
    \<longrightarrow> extractServiceData byteArrayPlus u beyond ad = []) \<and>
   (\<forall>(uuid, bytes)\<in>set (extractServiceData byteArrayPlus u beyond ad).
      \<exists>t\<in>{0x16, 0x20, 0x21}. \<exists>j<unat (snd (get_Size (snd (GetSectionsByType ad t)))).
      \<exists>hrAt sec hrType sectionType hrData buffer.
        GetAt (snd (GetSectionsByType ad t)) (of_nat j) = (hrAt, sec) \<and> \<not> FAILED hrAt \<and>
        get_DataType sec = (hrType, sectionType) \<and> \<not> FAILED hrType \<and>
        IBluetoothLEAdvertisementDataSection.get_Data sec = (hrData, buffer) \<and> \<not> FAILED hrData \<and>
        (sectionType = 0x16 \<and>
           (uuid, bytes) =
             (QBluetoothUuid_quint16
                (qFromLittleEndian_quint16 (constData (beyond t j) (byteArrayFromBuffer buffer))),
              byteArrayPlus (byteArrayFromBuffer buffer) 2) \<or>
         sectionType = 0x20 \<and>
           (uuid, bytes) =
             (QBluetoothUuid_quint32
                (qFromLittleEndian_quint32 (constData (beyond t j) (byteArrayFromBuffer buffer))),
              byteArrayPlus (byteArrayFromBuffer buffer) 4) \<or>
         sectionType = 0x21 \<and>
           (uuid, bytes) =
             (QBluetoothUuid_quint128
                (qToBigEndian_quint128 u
                   (qFromLittleEndian_quint128 (constData (beyond t j) (byteArrayFromBuffer buffer)))),
              byteArrayPlus (byteArrayFromBuffer buffer) 16))) \<and>
   (t \<in> {0x16, 0x20, 0x21} \<and>
    (\<forall>t'\<in>{0x16, 0x20, 0x21}. t' \<le> t \<longrightarrow>
       \<not> FAILED (fst (GetSectionsByType ad t')) \<and> \<not> FAILED (fst (get_Size (snd
         (GetSectionsByType ad t'))))) \<and>
    j < unat (snd (get_Size (snd (GetSectionsByType ad t)))) \<and>
    GetAt (snd (GetSectionsByType ad t)) (of_nat j) = (hrAt, sec) \<and> \<not> FAILED hrAt \<and>
    get_DataType sec = (hrType, sectionType) \<and> \<not> FAILED hrType \<and>
    IBluetoothLEAdvertisementDataSection.get_Data sec = (hrData, buffer) \<and> \<not> FAILED hrData \<and>
    bufferData = byteArrayFromBuffer buffer
    \<longrightarrow> (sectionType = 0x16 \<longrightarrow>
           QBluetoothUuid_quint16 (qFromLittleEndian_quint16 (constData (beyond t j) bufferData))
             \<in> fst ` set (extractServiceData byteArrayPlus u beyond ad)) \<and>
        (sectionType = 0x20 \<longrightarrow>
           QBluetoothUuid_quint32 (qFromLittleEndian_quint32 (constData (beyond t j) bufferData))
             \<in> fst ` set (extractServiceData byteArrayPlus u beyond ad)) \<and>
        (sectionType = 0x21 \<longrightarrow>
           QBluetoothUuid_quint128
             (qToBigEndian_quint128 u (qFromLittleEndian_quint128 (constData (beyond t j) bufferData)))
             \<in> fst ` set (extractServiceData byteArrayPlus u beyond ad))) \<and>
   qFromLittleEndian_quint16 (constData after (first # second # rest)) =
     ucast first OR push_bit 8 (ucast second) \<and>
   qFromLittleEndian_quint16 (constData after [first]) = ucast first \<and>
   qFromLittleEndian_quint32 (constData after (first # second # third # fourth # rest)) =
     ucast first OR push_bit 8 (ucast second) OR push_bit 16 (ucast third) OR push_bit 24 (ucast fourth) \<and>
   (16 \<le> length payload \<longrightarrow>
      QBluetoothUuid_quint128
        (qToBigEndian_quint128 u (qFromLittleEndian_quint128 (constData after payload))) =
      foldl (\<lambda>acc x. push_bit 8 acc OR ucast x) 0 (rev (take 16 payload)))"
proof (intro conjI)
  show "(FAILED (fst (get_ManufacturerData ad)) \<or> FAILED (fst (get_Size (snd (get_ManufacturerData ad))))
         \<longrightarrow> extractManufacturerData ad = [])"
    by (auto simp: extractManufacturerData_def WARN_AND_RETURN_IF_FAILED_def case_prod_unfold)
next
  define P where "P = (\<lambda>j e.
                 \<not> FAILED (fst (GetAt (snd (get_ManufacturerData ad)) (of_nat j))) \<and>
                   \<not> FAILED (fst (get_CompanyId (snd (GetAt (snd (get_ManufacturerData ad))
                   (of_nat j))))) \<and> \<not> FAILED (fst (IBluetoothLEManufacturerData.get_Data
                   (snd (GetAt (snd (get_ManufacturerData ad)) (of_nat j))))) \<and>
                 e = (snd (get_CompanyId (snd (GetAt (snd (get_ManufacturerData ad)) (of_nat j)))), byteArrayFromBuffer (snd (IBluetoothLEManufacturerData.get_Data (snd
                        (GetAt (snd (get_ManufacturerData ad)) (of_nat j)))))))"
  define Q where "Q = (\<lambda>j e. \<exists>hrAt element hrId hrData elementBuffer.
                 GetAt (snd (get_ManufacturerData ad)) (of_nat j) = (hrAt, element) \<and> \<not> FAILED hrAt \<and>
                 get_CompanyId element = (hrId, fst e) \<and> \<not> FAILED hrId \<and>
                 IBluetoothLEManufacturerData.get_Data element = (hrData, elementBuffer) \<and> \<not> FAILED hrData \<and>
                 snd e = byteArrayFromBuffer elementBuffer)"
  have PQ: "Q j e" if "P j e" for j e
    unfolding Q_def
    by (insert that [unfolded P_def],
        rule exI [of _ "fst (GetAt (snd (get_ManufacturerData ad)) (of_nat j))"],
        rule exI [of _ "snd (GetAt (snd (get_ManufacturerData ad)) (of_nat j))"],
        rule exI [of _ "fst (get_CompanyId (snd (GetAt (snd (get_ManufacturerData ad)) (of_nat j))))"],
        rule exI [of _ "fst (IBluetoothLEManufacturerData.get_Data (snd (GetAt (snd (get_ManufacturerData ad)) (of_nat j))))"],
        rule exI [of _ "snd (IBluetoothLEManufacturerData.get_Data (snd (GetAt (snd (get_ManufacturerData ad)) (of_nat j))))"],
        simp)
  have "set (extractManufacturerData ad) \<subseteq> {e. \<exists>j. 0 \<le> j \<and> j < unat (snd (get_Size (snd (get_ManufacturerData ad)))) \<and> P j e}"
    unfolding P_def
    using extractManufacturerData_loop_entries [of 0 "unat (snd (get_Size (snd (get_ManufacturerData ad))))" "snd (get_ManufacturerData ad)" "[]"]
    by (auto simp: extractManufacturerData_def WARN_AND_RETURN_IF_FAILED_def case_prod_unfold)
  then have "\<forall>(company, bytes)\<in>set (extractManufacturerData ad).
          \<exists>j<unat (snd (get_Size (snd (get_ManufacturerData ad)))). Q j (company, bytes)"
    using PQ by fastforce
  then show "(\<forall>(company, bytes)\<in>set (extractManufacturerData ad).
                \<exists>j<unat (snd (get_Size (snd (get_ManufacturerData ad)))).
                \<exists>hrAt element hrId hrData elementBuffer.
                  GetAt (snd (get_ManufacturerData ad)) (of_nat j) = (hrAt, element) \<and> \<not> FAILED hrAt \<and>
                  get_CompanyId element = (hrId, company) \<and> \<not> FAILED hrId \<and>
                  IBluetoothLEManufacturerData.get_Data element = (hrData, elementBuffer) \<and> \<not> FAILED hrData \<and>
                  bytes = byteArrayFromBuffer elementBuffer)"
    unfolding Q_def fst_conv snd_conv .
next
  show "(get_ManufacturerData ad = (hr, elements) \<and> \<not> FAILED hr \<and>
         get_Size elements = (hrSize, count) \<and> \<not> FAILED hrSize \<and> j < unat count \<and>
         GetAt elements (of_nat j) = (hrAt, element) \<and> \<not> FAILED hrAt \<and>
         get_CompanyId element = (hrId, company) \<and> \<not> FAILED hrId \<and>
         IBluetoothLEManufacturerData.get_Data element = (hrData, elementBuffer) \<and> \<not> FAILED hrData \<and>
         (\<forall>j'. j < j' \<and> j' < unat count \<and>
            \<not> FAILED (fst (GetAt elements (of_nat j'))) \<and> \<not> FAILED (fst (get_CompanyId
              (snd (GetAt elements (of_nat j'))))) \<and> \<not> FAILED (fst
              (IBluetoothLEManufacturerData.get_Data (snd (GetAt elements (of_nat j')))))
            \<longrightarrow> snd (get_CompanyId (snd (GetAt elements (of_nat j')))) \<noteq> company)
         \<longrightarrow> map_of (extractManufacturerData ad) company = Some (byteArrayFromBuffer elementBuffer))"
  proof (intro impI, elim conjE)
    assume a: "get_ManufacturerData ad = (hr, elements)" "\<not> FAILED hr"
      "get_Size elements = (hrSize, count)" "\<not> FAILED hrSize" "j < unat count"
      and e: "GetAt elements (of_nat j) = (hrAt, element)" "\<not> FAILED hrAt"
      "get_CompanyId element = (hrId, company)" "\<not> FAILED hrId"
      "IBluetoothLEManufacturerData.get_Data element = (hrData, elementBuffer)" "\<not> FAILED hrData"
      and l: "\<forall>j'. j < j' \<and> j' < unat count \<and>
          \<not> FAILED (fst (GetAt elements (of_nat j'))) \<and> \<not> FAILED (fst
            (get_CompanyId (snd (GetAt elements (of_nat j'))))) \<and> \<not> FAILED (fst
            (IBluetoothLEManufacturerData.get_Data (snd (GetAt elements (of_nat j')))))
          \<longrightarrow> snd (get_CompanyId (snd (GetAt elements (of_nat j')))) \<noteq> company"
    have "map_of (extractManufacturerData_loop 0 (unat count) elements [])
            (snd (get_CompanyId (snd (GetAt elements (of_nat j))))) =
          Some (byteArrayFromBuffer (snd (IBluetoothLEManufacturerData.get_Data (snd (GetAt
                  elements (of_nat j))))))"
      using a(5) e l
      by (intro extractManufacturerData_loop_last) simp_all
    then show "map_of (extractManufacturerData ad) company = Some (byteArrayFromBuffer elementBuffer)"
      using a e
      by (simp add: extractManufacturerData_def WARN_AND_RETURN_IF_FAILED_def)
  qed
next
  show "(FAILED (fst (GetSectionsByType ad 0x16)) \<or>
         FAILED (fst (get_Size (snd (GetSectionsByType ad 0x16))))
         \<longrightarrow> extractServiceData byteArrayPlus u beyond ad = [])"
    by (auto simp: extractServiceData_def WARN_AND_RETURN_IF_FAILED_def case_prod_unfold)
next
  define P where "P = (\<lambda>t j e.
                 \<not> FAILED (fst (GetAt (snd (GetSectionsByType ad t)) (of_nat j))) \<and>
                   \<not> FAILED (fst (get_DataType (snd (GetAt (snd (GetSectionsByType ad t))
                   (of_nat j))))) \<and> \<not> FAILED (fst
                   (IBluetoothLEAdvertisementDataSection.get_Data (snd (GetAt (snd
                   (GetSectionsByType ad t)) (of_nat j))))) \<and> (snd (get_DataType (snd (GetAt
                   (snd (GetSectionsByType ad t)) (of_nat j)))) = 0x16 \<and> e =
                   (QBluetoothUuid_quint16 (qFromLittleEndian_quint16 (constData (beyond t j)
                   (byteArrayFromBuffer (snd (IBluetoothLEAdvertisementDataSection.get_Data (snd
                   (GetAt (snd (GetSectionsByType ad t)) (of_nat j)))))))), byteArrayPlus
                   (byteArrayFromBuffer (snd (IBluetoothLEAdvertisementDataSection.get_Data (snd
                   (GetAt (snd (GetSectionsByType ad t)) (of_nat j)))))) 2) \<or> snd
                   (get_DataType (snd (GetAt (snd (GetSectionsByType ad t)) (of_nat j)))) = 0x20
                   \<and> e = (QBluetoothUuid_quint32 (qFromLittleEndian_quint32 (constData
                   (beyond t j) (byteArrayFromBuffer (snd
                   (IBluetoothLEAdvertisementDataSection.get_Data (snd (GetAt (snd
                   (GetSectionsByType ad t)) (of_nat j)))))))), byteArrayPlus (byteArrayFromBuffer
                   (snd (IBluetoothLEAdvertisementDataSection.get_Data (snd (GetAt (snd
                   (GetSectionsByType ad t)) (of_nat j)))))) 4) \<or> snd (get_DataType (snd
                   (GetAt (snd (GetSectionsByType ad t)) (of_nat j)))) = 0x21 \<and> e =
                   (QBluetoothUuid_quint128 (qToBigEndian_quint128 u (qFromLittleEndian_quint128
                   (constData (beyond t j) (byteArrayFromBuffer (snd
                   (IBluetoothLEAdvertisementDataSection.get_Data (snd (GetAt (snd
                   (GetSectionsByType ad t)) (of_nat j))))))))), byteArrayPlus
                   (byteArrayFromBuffer (snd (IBluetoothLEAdvertisementDataSection.get_Data (snd
                   (GetAt (snd (GetSectionsByType ad t)) (of_nat j)))))) 16)))"
  define Q where "Q = (\<lambda>t j e. \<exists>hrAt sec hrType sectionType hrData buffer.
                 GetAt (snd (GetSectionsByType ad t)) (of_nat j) = (hrAt, sec) \<and> \<not> FAILED hrAt \<and>
                 get_DataType sec = (hrType, sectionType) \<and> \<not> FAILED hrType \<and>
                 IBluetoothLEAdvertisementDataSection.get_Data sec = (hrData, buffer) \<and> \<not> FAILED hrData \<and>
                 (sectionType = 0x16 \<and>
                    e =
                      (QBluetoothUuid_quint16
                         (qFromLittleEndian_quint16 (constData (beyond t j) (byteArrayFromBuffer buffer))),
                       byteArrayPlus (byteArrayFromBuffer buffer) 2) \<or>
                  sectionType = 0x20 \<and>
                    e =
                      (QBluetoothUuid_quint32
                         (qFromLittleEndian_quint32 (constData (beyond t j) (byteArrayFromBuffer buffer))),
                       byteArrayPlus (byteArrayFromBuffer buffer) 4) \<or>
                  sectionType = 0x21 \<and>
                    e =
                      (QBluetoothUuid_quint128
                         (qToBigEndian_quint128 u
                            (qFromLittleEndian_quint128 (constData (beyond t j) (byteArrayFromBuffer buffer)))),
                       byteArrayPlus (byteArrayFromBuffer buffer) 16)))"
  have PQ: "Q t j e" if "P t j e" for t j e
    unfolding Q_def
    by (insert that [unfolded P_def],
        rule exI [of _ "fst (GetAt (snd (GetSectionsByType ad t)) (of_nat j))"],
        rule exI [of _ "snd (GetAt (snd (GetSectionsByType ad t)) (of_nat j))"],
        rule exI [of _ "fst (get_DataType (snd (GetAt (snd (GetSectionsByType ad t)) (of_nat j))))"],
        rule exI [of _ "snd (get_DataType (snd (GetAt (snd (GetSectionsByType ad t)) (of_nat j))))"],
        rule exI [of _ "fst (IBluetoothLEAdvertisementDataSection.get_Data (snd (GetAt (snd (GetSectionsByType ad t)) (of_nat j))))"],
        rule exI [of _ "snd (IBluetoothLEAdvertisementDataSection.get_Data (snd (GetAt (snd (GetSectionsByType ad t)) (of_nat j))))"],
        simp)
  have "set (extractServiceData byteArrayPlus u beyond ad) \<subseteq>
          set [] \<union> {e. \<exists>t\<in>set [0x16, 0x20, 0x21]. \<exists>j<unat (snd (get_Size (snd (GetSectionsByType ad t)))). P t j e}"
    unfolding extractServiceData_def Let_def P_def
    by (rule extractServiceData_types_entries)
  then have "\<forall>e\<in>set (extractServiceData byteArrayPlus u beyond ad).
          \<exists>t\<in>{0x16, 0x20, 0x21}. \<exists>j<unat (snd (get_Size (snd (GetSectionsByType ad t)))). P t j e"
    by auto
  then have "\<forall>e\<in>set (extractServiceData byteArrayPlus u beyond ad).
          \<exists>t\<in>{0x16, 0x20, 0x21}. \<exists>j<unat (snd (get_Size (snd (GetSectionsByType ad t)))). Q t j e"
    using PQ by blast
  then have "\<forall>(uuid, bytes)\<in>set (extractServiceData byteArrayPlus u beyond ad).
          \<exists>t\<in>{0x16, 0x20, 0x21}. \<exists>j<unat (snd (get_Size (snd (GetSectionsByType ad t)))). Q t j (uuid, bytes)"
    by auto
  then show "(\<forall>(uuid, bytes)\<in>set (extractServiceData byteArrayPlus u beyond ad).
                \<exists>t\<in>{0x16, 0x20, 0x21}. \<exists>j<unat (snd (get_Size (snd (GetSectionsByType ad t)))).
                \<exists>hrAt sec hrType sectionType hrData buffer.
                  GetAt (snd (GetSectionsByType ad t)) (of_nat j) = (hrAt, sec) \<and> \<not> FAILED hrAt \<and>
                  get_DataType sec = (hrType, sectionType) \<and> \<not> FAILED hrType \<and>
                  IBluetoothLEAdvertisementDataSection.get_Data sec = (hrData, buffer) \<and> \<not> FAILED hrData \<and>
                  (sectionType = 0x16 \<and>
                     (uuid, bytes) =
                       (QBluetoothUuid_quint16
                          (qFromLittleEndian_quint16 (constData (beyond t j) (byteArrayFromBuffer buffer))),
                        byteArrayPlus (byteArrayFromBuffer buffer) 2) \<or>
                   sectionType = 0x20 \<and>
                     (uuid, bytes) =
                       (QBluetoothUuid_quint32
                          (qFromLittleEndian_quint32 (constData (beyond t j) (byteArrayFromBuffer buffer))),
                        byteArrayPlus (byteArrayFromBuffer buffer) 4) \<or>
                   sectionType = 0x21 \<and>
                     (uuid, bytes) =
                       (QBluetoothUuid_quint128
                          (qToBigEndian_quint128 u
                             (qFromLittleEndian_quint128 (constData (beyond t j) (byteArrayFromBuffer buffer)))),
                        byteArrayPlus (byteArrayFromBuffer buffer) 16)))"
    unfolding Q_def .
next
  show "(t \<in> {0x16, 0x20, 0x21} \<and>
         (\<forall>t'\<in>{0x16, 0x20, 0x21}. t' \<le> t \<longrightarrow>
            \<not> FAILED (fst (GetSectionsByType ad t')) \<and> \<not> FAILED (fst (get_Size (snd
              (GetSectionsByType ad t'))))) \<and>
         j < unat (snd (get_Size (snd (GetSectionsByType ad t)))) \<and>
         GetAt (snd (GetSectionsByType ad t)) (of_nat j) = (hrAt, sec) \<and> \<not> FAILED hrAt \<and>
         get_DataType sec = (hrType, sectionType) \<and> \<not> FAILED hrType \<and>
         IBluetoothLEAdvertisementDataSection.get_Data sec = (hrData, buffer) \<and> \<not> FAILED hrData \<and>
         bufferData = byteArrayFromBuffer buffer
         \<longrightarrow> (sectionType = 0x16 \<longrightarrow>
                QBluetoothUuid_quint16 (qFromLittleEndian_quint16 (constData (beyond t j) bufferData))
                  \<in> fst ` set (extractServiceData byteArrayPlus u beyond ad)) \<and>
             (sectionType = 0x20 \<longrightarrow>
                QBluetoothUuid_quint32 (qFromLittleEndian_quint32 (constData (beyond t j) bufferData))
                  \<in> fst ` set (extractServiceData byteArrayPlus u beyond ad)) \<and>
             (sectionType = 0x21 \<longrightarrow>
                QBluetoothUuid_quint128
                  (qToBigEndian_quint128 u (qFromLittleEndian_quint128 (constData (beyond t j) bufferData)))
                  \<in> fst ` set (extractServiceData byteArrayPlus u beyond ad)))"
  proof (intro impI, elim conjE)
    assume t: "t \<in> {0x16, 0x20, 0x21}"
      and ok: "\<forall>t'\<in>{0x16, 0x20, 0x21}. t' \<le> t \<longrightarrow>
          \<not> FAILED (fst (GetSectionsByType ad t')) \<and> \<not> FAILED (fst (get_Size (snd
            (GetSectionsByType ad t'))))"
      and j: "j < unat (snd (get_Size (snd (GetSectionsByType ad t))))"
      and s: "GetAt (snd (GetSectionsByType ad t)) (of_nat j) = (hrAt, sec)" "\<not> FAILED hrAt"
        "get_DataType sec = (hrType, sectionType)" "\<not> FAILED hrType"
        "IBluetoothLEAdvertisementDataSection.get_Data sec = (hrData, buffer)" "\<not> FAILED hrData"
        "bufferData = byteArrayFromBuffer buffer"
    from t obtain m where m: "m < length [0x16, 0x20, 0x21 :: quint8]" "t = [0x16, 0x20, 0x21] ! m"
      by (auto simp: nth_Cons' intro: that [of 0] that [of 1] that [of 2])
    have okm: "\<forall>m'\<le>m. \<not> FAILED (fst (GetSectionsByType ad ([0x16, 0x20, 0x21] ! m'))) \<and> \<not>
              FAILED (fst (get_Size (snd (GetSectionsByType ad ([0x16, 0x20, 0x21] ! m')))))"
    proof (intro allI impI)
      fix m' assume "m' \<le> m"
      with m have "[0x16, 0x20, 0x21 :: quint8] ! m' \<in> {0x16, 0x20, 0x21}" "[0x16, 0x20, 0x21 :: quint8] ! m' \<le> t"
        by (auto simp: nth_Cons' less_Suc_eq numeral_3_eq_3 split: if_splits)
      with ok show "\<not> FAILED (fst (GetSectionsByType ad ([0x16, 0x20, 0x21] ! m'))) \<and> \<not>
              FAILED (fst (get_Size (snd (GetSectionsByType ad ([0x16, 0x20, 0x21] ! m')))))"
        by blast
    qed
    have r: "\<not> FAILED (fst (GetAt (snd (GetSectionsByType ad ([0x16, 0x20, 0x21] ! m)))
              (of_nat j))) \<and> \<not> FAILED (fst (get_DataType (snd (GetAt (snd
              (GetSectionsByType ad ([0x16, 0x20, 0x21] ! m))) (of_nat j))))) \<and> \<not> FAILED
              (fst (IBluetoothLEAdvertisementDataSection.get_Data (snd (GetAt (snd
              (GetSectionsByType ad ([0x16, 0x20, 0x21] ! m))) (of_nat j)))))"
      using s by (simp add: m(2))
    have jm: "j < unat (snd (get_Size (snd (GetSectionsByType ad ([0x16, 0x20, 0x21] ! m)))))"
      using j by (simp add: m(2))
    from extractServiceData_types_keys
           [where ts = "[0x16, 0x20, 0x21]" and m = m and ad = ad and j = j and p = byteArrayPlus
              and u = u and b = beyond and ret = "[]", OF m(1) okm jm r]
    show "(sectionType = 0x16 \<longrightarrow>
        QBluetoothUuid_quint16 (qFromLittleEndian_quint16 (constData (beyond t j) bufferData))
          \<in> fst ` set (extractServiceData byteArrayPlus u beyond ad)) \<and>
     (sectionType = 0x20 \<longrightarrow>
        QBluetoothUuid_quint32 (qFromLittleEndian_quint32 (constData (beyond t j) bufferData))
          \<in> fst ` set (extractServiceData byteArrayPlus u beyond ad)) \<and>
     (sectionType = 0x21 \<longrightarrow>
        QBluetoothUuid_quint128
          (qToBigEndian_quint128 u (qFromLittleEndian_quint128 (constData (beyond t j) bufferData)))
          \<in> fst ` set (extractServiceData byteArrayPlus u beyond ad))"
      using s by (simp add: extractServiceData_def m(2) [symmetric])
  qed
next
  show "qFromLittleEndian_quint16 (constData after (first # second # rest)) =
          ucast first OR push_bit 8 (ucast second)"
    by (simp add: qFromLittleEndian_quint16_def constData_def)
next
  show "qFromLittleEndian_quint16 (constData after [first]) = ucast first"
    by (simp add: qFromLittleEndian_quint16_def constData_def)
next
  show "qFromLittleEndian_quint32 (constData after (first # second # third # fourth # rest)) =
          ucast first OR push_bit 8 (ucast second) OR push_bit 16 (ucast third) OR push_bit 24 (ucast fourth)"
    by (simp add: qFromLittleEndian_quint32_def constData_def)
next
  show "(16 \<le> length payload \<longrightarrow>
           QBluetoothUuid_quint128
             (qToBigEndian_quint128 u (qFromLittleEndian_quint128 (constData after payload))) =
           foldl (\<lambda>acc x. push_bit 8 acc OR ucast x) 0 (rev (take 16 payload)))"
  proof
    assume l: "16 \<le> length payload"
    have "map (constData after payload) [0..<16] = take 16 payload"
      using l by (intro nth_equalityI) (simp_all add: constData_def)
    then show "QBluetoothUuid_quint128
        (qToBigEndian_quint128 u (qFromLittleEndian_quint128 (constData after payload))) =
      foldl (\<lambda>acc x. push_bit 8 acc OR ucast x) 0 (rev (take 16 payload))"
      using l
      by (simp add: qFromLittleEndian_quint128_def QBluetoothUuid_quint128_def
            qToBigEndian_quint128_def Rep_qbswap Abs_quint128_inverse)
  qed
qed

text \<open>
  Claim C2 as stated fails. The platform supplies two advertisements that differ in
  nothing but the payload bytes of their one data section, and names no service UUID
  in either; the worker reports the first under the heart-rate UUID and the second
  under the battery UUID, which it can only have read from the payload.
\<close>

theorem service_data_key_decoded_from_payload:
  "map fst (extractServiceData QByteArray_plus_char (quint128_of []) zeros_beyond
              (advertisement [] [(0x16, [0x0D, 0x18, 0x40])])) = [heartRate] \<and>
   map fst (extractServiceData QByteArray_plus_char (quint128_of []) zeros_beyond
              (advertisement [] [(0x16, [0x0F, 0x18, 0x40])])) = [battery] \<and>
   heartRate \<noteq> battery"
  using heartRate_neq_battery
  by (simp add: extractServiceData_def advertisement_def IVector_of_def data_section_def
        WARN_AND_RETURN_IF_FAILED_def WARN_AND_CONTINUE_IF_FAILED_def FAILED_def S_OK_def
        extractServiceData_sections.simps byteArrayFromBuffer_def qFromLittleEndian_quint16_def
        constData_def QHash_insert_def heartRate_def battery_def Let_def)

section \<open>The theorems at concrete inputs\<close>

theorem updateDeviceData_frame_witness:
  "\<not> testFlag Field_RSSI Field_None \<and>
   0x112233445566 \<in> address ` set (discoveredDevices (agent_idle\<lparr>discoveredDevices := [sensor_battery]\<rparr>)) \<and>
   updateDeviceData 0x112233445566 Field_RSSI 0xFFC4 [] []
       (agent_idle\<lparr>discoveredDevices := [sensor_battery]\<rparr>) =
     agent_idle\<lparr>discoveredDevices := [sensor_battery\<lparr>rssi := 0xFFC4\<rparr>],
                emitted := [deviceUpdated (sensor_battery\<lparr>rssi := 0xFFC4\<rparr>) Field_RSSI]\<rparr> \<and>
   testFlag Field_None Field_None \<and>
   updateDeviceData 0x112233445566 Field_None 0xFFC4 [] []
       (agent_idle\<lparr>discoveredDevices := [sensor_battery]\<rparr>) =
     agent_idle\<lparr>discoveredDevices := [sensor_battery]\<rparr>"
proof -
  let ?d = "agent_idle\<lparr>discoveredDevices := [sensor_battery]\<rparr>"
  have f: "\<not> testFlag Field_RSSI Field_None" "testFlag Field_RSSI Field_RSSI"
      "\<not> testFlag Field_RSSI Field_ManufacturerData" "\<not> testFlag Field_RSSI Field_ServiceData"
      "testFlag Field_None Field_None"
    by (simp_all add: testFlag_def Field_RSSI_def Field_None_def Field_ManufacturerData_def
          Field_ServiceData_def)
  have a: "0x112233445566 \<in> address ` set (discoveredDevices ?d)"
    by (simp add: sensor_battery_def setServiceUuids_def QBluetoothDeviceInfo_new_def)
  from updateDeviceData_frame [of Field_RSSI "0x112233445566" ?d "0xFFC4" "[]" "[]"] f a
  obtain i md sd where i: "i < length (discoveredDevices ?d)"
      and md: "md = manufacturerData (discoveredDevices ?d ! i)"
      and sd: "sd = serviceData (discoveredDevices ?d ! i)"
      and u: "updateDeviceData 0x112233445566 Field_RSSI 0xFFC4 [] [] ?d =
           ?d\<lparr>discoveredDevices := (discoveredDevices ?d)
                  [i := (discoveredDevices ?d ! i)
                          \<lparr>rssi := (if testFlag Field_RSSI Field_RSSI then 0xFFC4
                                    else rssi (discoveredDevices ?d ! i)),
                           manufacturerData := md, serviceData := sd\<rparr>],
             emitted := emitted ?d @
                  [deviceUpdated ((discoveredDevices ?d ! i)
                          \<lparr>rssi := (if testFlag Field_RSSI Field_RSSI then 0xFFC4
                                    else rssi (discoveredDevices ?d ! i)),
                           manufacturerData := md, serviceData := sd\<rparr>) Field_RSSI]\<rparr>"
    by auto
  from i have i0: "i = 0" by simp
  have r: "updateDeviceData 0x112233445566 Field_RSSI 0xFFC4 [] [] ?d =
     agent_idle\<lparr>discoveredDevices := [sensor_battery\<lparr>rssi := 0xFFC4\<rparr>],
                emitted := [deviceUpdated (sensor_battery\<lparr>rssi := 0xFFC4\<rparr>) Field_RSSI]\<rparr>"
    using u f(2) unfolding md sd i0 by (simp add: agent_idle_def)
  from updateDeviceData_frame [of Field_None "0x112233445566" ?d "0xFFC4" "[]" "[]"] f(5)
  have n: "updateDeviceData 0x112233445566 Field_None 0xFFC4 [] [] ?d = ?d"
    by blast
  show ?thesis using f(1,5) a r n by simp
qed

theorem start_precondition_failures_witness:
  "\<not> isValid \<lparr>isValid = False, hostMode = HostConnectable\<rparr> \<and>
   start QSet_values_as_inserted \<lparr>isValid = False, hostMode = HostConnectable\<rparr> platform_down 0
         ClassicMethod agent_idle =
     Some (agent_idle\<lparr>lastError := InvalidBluetoothAdapterError,
                      errorString := ''Cannot find valid Bluetooth adapter.'',
                      emitted := [errorOccurred InvalidBluetoothAdapterError]\<rparr>) \<and>
   isValid \<lparr>isValid = True, hostMode = HostPoweredOff\<rparr> \<and>
   hostMode \<lparr>isValid = True, hostMode = HostPoweredOff\<rparr> = HostPoweredOff \<and>
   start QSet_values_as_inserted \<lparr>isValid = True, hostMode = HostPoweredOff\<rparr> platform_down 0
         ClassicMethod agent_idle =
     Some (agent_idle\<lparr>lastError := PoweredOffError,
                      errorString := ''Bluetooth adapter powered off.'',
                      emitted := [errorOccurred PoweredOffError]\<rparr>)"
proof -
  have e: "emitted agent_idle = []" by (simp add: agent_idle_def)
  from start_precondition_failures
         [of "\<lparr>isValid = False, hostMode = HostConnectable\<rparr>" QSet_values_as_inserted
             platform_down 0 ClassicMethod agent_idle]
       start_precondition_failures
         [of "\<lparr>isValid = True, hostMode = HostPoweredOff\<rparr>" QSet_values_as_inserted
             platform_down 0 ClassicMethod agent_idle]
  show ?thesis by (simp add: e)
qed

lemmas platform_objects =
  FAILED_def E_FAIL_def E_BOUNDS_def S_OK_def word_sless_alt platform_down_def operation_def
  IVector_of_def no_device_information_def no_rfcomm_services_def no_gatt_services_def
  event_without_address_def worker_scanning_def worker_idle_def watcher_failing_def no_le_lookup_def
  le_device_unnamed_def gatherMultipleDeviceInformation_def
  gatherMultipleDeviceInformation_loop.simps

theorem failed_HRESULT_emits_UnknownError_and_returns_S_OK_witness:
  "FAILED E_FAIL \<and>
   EMIT_WORKER_ERROR_AND_RETURN_IF_FAILED E_FAIL UnknownError (\<lambda>w. w) worker_idle
     worker_scanning = emit (errorOccured UnknownError) worker_idle \<and>
   \<not> FAILED S_OK \<and>
   EMIT_WORKER_ERROR_AND_RETURN_IF_FAILED S_OK UnknownError (\<lambda>w. w) worker_idle
     worker_scanning = worker_scanning \<and>
   m_leWatcher worker_scanning = Ptr (watcher_failing 3) \<and>
   FAILED (Stop (watcher_failing 3)) \<and>
   stopLEWatcher worker_scanning = emit (errorOccured UnknownError) worker_scanning \<and>
   FAILED (fst (GetActivationFactory_DeviceInformation_le platform_down)) \<and>
   startDeviceDiscovery (GetActivationFactory_DeviceInformation_le platform_down) LowEnergyMethod
     worker_idle = Some (emit (errorOccured UnknownError) worker_idle) \<and>
   m_leDeviceStatics worker_scanning = Ptr no_le_lookup \<and>
   FAILED (fst (FindAllAsyncAqsFilter (snd (S_OK, snd (GetActivationFactory_DeviceInformation_le
     platform_down))) (snd (IBluetoothLEDeviceStatics.GetDeviceSelector no_le_lookup)))) \<and>
   startDeviceDiscovery (S_OK, snd (GetActivationFactory_DeviceInformation_le platform_down))
     LowEnergyMethod worker_scanning = Some (emit (errorOccured UnknownError) worker_scanning) \<and>
   FAILED (fst (GetResults (operation E_FAIL (IVector_of no_device_information [])))) \<and>
   onDeviceDiscoveryFinished (operation E_FAIL (IVector_of no_device_information []))
     LowEnergyMethod worker_idle = Some (emit (errorOccured UnknownError) worker_idle) \<and>
   FAILED (fst (get_Id no_device_information)) \<and>
   gatherDeviceInformation no_device_information LowEnergyMethod worker_idle = Some (emit
     (errorOccured UnknownError) worker_idle) \<and>
   (0::nat) < unat (1::quint32) \<and>
   FAILED (fst (GetAt (IVector_of no_device_information []) (of_nat 0))) \<and>
   gatherMultipleDeviceInformation (of_nat 0) (IVector_of no_device_information [])
     LowEnergyMethod worker_idle = Some worker_idle \<and>
   gatherMultipleDeviceInformation 1 (IVector_of no_device_information []) LowEnergyMethod
     worker_idle = Some (emit (errorOccured UnknownError) worker_idle) \<and>
   FAILED (fst (RoActivateInstance_Watcher platform_down)) \<and>
   setupLEDeviceWatcher (RoActivateInstance_Watcher platform_down) worker_idle = Some (emit
     (errorOccured UnknownError) (worker_idle\<lparr>m_leWatcher := snd (RoActivateInstance_Watcher
     platform_down)\<rparr>)) \<and>
   \<not> FAILED (fst (S_OK, Ptr (watcher_failing 0))) \<and>
   FAILED (put_ScanningMode (watcher_failing 0)) \<and>
   setupLEDeviceWatcher (S_OK, Ptr (watcher_failing 0)) worker_idle = Some (emit (errorOccured
     UnknownError) (worker_idle\<lparr>m_leWatcher := Ptr (watcher_failing 0)\<rparr>)) \<and>
   \<not> FAILED (fst (S_OK, Ptr (watcher_failing 1))) \<and>
   \<not> FAILED (put_ScanningMode (watcher_failing 1)) \<and>
   FAILED (fst (add_Received (watcher_failing 1) (m_leDeviceAddedToken worker_idle))) \<and>
   setupLEDeviceWatcher (S_OK, Ptr (watcher_failing 1)) worker_idle = Some (emit (errorOccured
     UnknownError) (worker_idle\<lparr>m_leWatcher := Ptr (watcher_failing 1), m_leDeviceAddedToken
     := snd (add_Received (watcher_failing 1) (m_leDeviceAddedToken worker_idle))\<rparr>)) \<and>
   \<not> FAILED (fst (S_OK, Ptr (watcher_failing 2))) \<and>
   \<not> FAILED (put_ScanningMode (watcher_failing 2)) \<and>
   \<not> FAILED (fst (add_Received (watcher_failing 2) (m_leDeviceAddedToken worker_idle))) \<and>
   FAILED (Start (watcher_failing 2)) \<and>
   setupLEDeviceWatcher (S_OK, Ptr (watcher_failing 2)) worker_idle = Some (emit (errorOccured
     UnknownError) (registerCallback AdvertisementReceived (worker_idle\<lparr>m_leWatcher := Ptr
     (watcher_failing 2), m_leDeviceAddedToken := snd (add_Received (watcher_failing 2)
     (m_leDeviceAddedToken worker_idle))\<rparr>))) \<and>
   FAILED (fst (IBluetoothLEAdvertisementReceivedEventArgs.get_BluetoothAddress
     event_without_address)) \<and>
   onBluetoothLEAdvertisementReceived QByteArray_plus_char (quint128_of []) zeros_beyond
     event_without_address worker_idle = Some (S_OK, emit (errorOccured UnknownError) worker_idle) \<and>
   FAILED (fst (GetResults (operation E_FAIL (Null :: IBluetoothDevice ComPtr)))) \<and>
   onPairedClassicBluetoothDeviceFoundAsync (operation E_FAIL Null) Completed S_OK worker_idle =
     (S_OK, decrementPairedDevicesAndCheckFinished (emit (errorOccured UnknownError) worker_idle)) \<and>
   FAILED (fst (get_Error (snd (GetResults (operation S_OK no_rfcomm_services))))) \<and>
   onRfcommServicesReceived (operation S_OK no_rfcomm_services) Completed 0x112233445566 0 []
     worker_idle = (S_OK, decrementPairedDevicesAndCheckFinished (emit (errorOccured UnknownError)
     worker_idle)) \<and>
   FAILED (fst (IBluetoothLEDevice.get_Name le_device_unnamed)) \<and>
   onBluetoothLEDeviceFound (Ptr le_device_unnamed) worker_idle = (S_OK, emit (errorOccured
     UnknownError) worker_idle) \<and>
   FAILED (fst (get_Status (snd (GetResults (operation S_OK no_gatt_services))))) \<and>
   onLeServicesReceived (operation S_OK no_gatt_services) Completed sensor_battery worker_idle =
     (S_OK, emit (errorOccured UnknownError) worker_idle) \<and>
   m_leDeviceStatics worker_scanning \<noteq> Null \<and>
   (\<exists>w'. onBluetoothLEAdvertisementReceived QByteArray_plus_char (quint128_of [])
     zeros_beyond event_heartRate worker_scanning = Some (S_OK, w') \<and>
     AdvertisementReceived_lambda (Some worker_scanning) QByteArray_plus_char (quint128_of [])
     zeros_beyond event_heartRate = Some (S_OK, Some w')) \<and>
   (if LowEnergyMethod = LowEnergyMethod then m_leDeviceStatics worker_scanning \<noteq> Null else
     m_deviceStatics worker_scanning \<noteq> Null) \<and>
   (\<exists>w'. onDeviceDiscoveryFinished (operation S_OK (IVector_of no_device_information
     [no_device_information])) LowEnergyMethod worker_scanning = Some w' \<and>
     DeviceDiscoveryCompleted_lambda (Some worker_scanning) LowEnergyMethod (operation S_OK
     (IVector_of no_device_information [no_device_information])) Completed = Some (S_OK, Some w'))"
proof -
  have h0: "FAILED E_FAIL"
    by (simp_all add: platform_objects)
  from failed_HRESULT_emits_UnknownError_and_returns_S_OK
         [where hr = E_FAIL and error = UnknownError and ret = "\<lambda>w. w" and w = worker_idle
                 and rest = worker_scanning,
          THEN conjunct1] h0
  have c0: "EMIT_WORKER_ERROR_AND_RETURN_IF_FAILED E_FAIL UnknownError (\<lambda>w. w)
                worker_idle worker_scanning = emit (errorOccured UnknownError) worker_idle"
    by simp
  have h1: "\<not> FAILED S_OK"
    by (simp_all add: platform_objects)
  from failed_HRESULT_emits_UnknownError_and_returns_S_OK
         [where hr = S_OK and error = UnknownError and ret = "\<lambda>w. w" and w = worker_idle
                 and rest = worker_scanning,
          THEN conjunct2, THEN conjunct1] h1
  have c1: "EMIT_WORKER_ERROR_AND_RETURN_IF_FAILED S_OK UnknownError (\<lambda>w. w) worker_idle
                worker_scanning = worker_scanning"
    by simp
  have h2: "m_leWatcher worker_scanning = Ptr (watcher_failing 3)"
      "FAILED (Stop (watcher_failing 3))"
    by (simp_all add: platform_objects)
  from failed_HRESULT_emits_UnknownError_and_returns_S_OK
         [where w = worker_scanning and watcher = "watcher_failing 3",
          THEN conjunct2, THEN conjunct2, THEN conjunct2, THEN conjunct1] h2
  have c2: "stopLEWatcher worker_scanning = emit (errorOccured UnknownError) worker_scanning"
    by simp
  have h3: "FAILED (fst (GetActivationFactory_DeviceInformation_le platform_down))"
    by (simp_all add: platform_objects)
  from failed_HRESULT_emits_UnknownError_and_returns_S_OK
         [where factory = "GetActivationFactory_DeviceInformation_le platform_down" and mode =
                 LowEnergyMethod and w = worker_idle,
          THEN conjunct2, THEN conjunct2, THEN conjunct2, THEN conjunct2, THEN conjunct1] h3
  have c3: "startDeviceDiscovery (GetActivationFactory_DeviceInformation_le platform_down)
                LowEnergyMethod worker_idle = Some (emit (errorOccured UnknownError) worker_idle)"
    by simp
  have h4: "m_leDeviceStatics worker_scanning = Ptr no_le_lookup"
      "FAILED (fst (FindAllAsyncAqsFilter (snd (S_OK, snd
          (GetActivationFactory_DeviceInformation_le platform_down))) (snd
          (IBluetoothLEDeviceStatics.GetDeviceSelector no_le_lookup))))"
    by (simp_all add: platform_objects)
  from failed_HRESULT_emits_UnknownError_and_returns_S_OK
         [where factory = "(S_OK, snd (GetActivationFactory_DeviceInformation_le platform_down))"
                 and mode = LowEnergyMethod and w = worker_scanning and leStatics = no_le_lookup and
                 selector = "snd (IBluetoothLEDeviceStatics.GetDeviceSelector no_le_lookup)",
          THEN conjunct2, THEN conjunct2, THEN conjunct2, THEN conjunct2, THEN conjunct2,
          THEN conjunct1] h4
  have c4: "startDeviceDiscovery (S_OK, snd (GetActivationFactory_DeviceInformation_le
                platform_down)) LowEnergyMethod worker_scanning = Some (emit (errorOccured
                UnknownError) worker_scanning)"
    by simp
  have h5: "FAILED (fst (GetResults (operation E_FAIL (IVector_of no_device_information []))))"
    by (simp_all add: platform_objects)
  from failed_HRESULT_emits_UnknownError_and_returns_S_OK
         [where discoveryOp = "operation E_FAIL (IVector_of no_device_information [])" and mode =
                 LowEnergyMethod and w = worker_idle,
          THEN conjunct2, THEN conjunct2, THEN conjunct2, THEN conjunct2, THEN conjunct2,
          THEN conjunct2, THEN conjunct1] h5
  have c5: "onDeviceDiscoveryFinished (operation E_FAIL (IVector_of no_device_information []))
                LowEnergyMethod worker_idle = Some (emit (errorOccured UnknownError) worker_idle)"
    by simp
  have h6: "FAILED (fst (get_Id no_device_information))"
    by (simp_all add: platform_objects)
  from failed_HRESULT_emits_UnknownError_and_returns_S_OK
         [where deviceInfo = no_device_information and mode = LowEnergyMethod and w = worker_idle,
          THEN conjunct2, THEN conjunct2, THEN conjunct2, THEN conjunct2, THEN conjunct2,
          THEN conjunct2, THEN conjunct2, THEN conjunct1] h6
  have c6: "gatherDeviceInformation no_device_information LowEnergyMethod worker_idle = Some
                (emit (errorOccured UnknownError) worker_idle)"
    by simp
  have h7: "(0::nat) < unat (1::quint32)"
      "FAILED (fst (GetAt (IVector_of no_device_information []) (of_nat 0)))"
      "gatherMultipleDeviceInformation (of_nat 0) (IVector_of no_device_information [])
          LowEnergyMethod worker_idle = Some worker_idle"
    by (simp_all add: platform_objects)
  from failed_HRESULT_emits_UnknownError_and_returns_S_OK
         [where j = 0 and deviceCount = 1 and devices = "IVector_of no_device_information []" and
                 mode = LowEnergyMethod and w = worker_idle and wj = worker_idle,
          THEN conjunct2, THEN conjunct2, THEN conjunct2, THEN conjunct2, THEN conjunct2,
          THEN conjunct2, THEN conjunct2, THEN conjunct2, THEN conjunct1] h7
  have c7: "gatherMultipleDeviceInformation 1 (IVector_of no_device_information [])
                LowEnergyMethod worker_idle = Some (emit (errorOccured UnknownError) worker_idle)"
    by simp
  have h8: "FAILED (fst (RoActivateInstance_Watcher platform_down))"
    by (simp_all add: platform_objects)
  from failed_HRESULT_emits_UnknownError_and_returns_S_OK
         [where activation = "RoActivateInstance_Watcher platform_down" and w = worker_idle,
          THEN conjunct2, THEN conjunct2, THEN conjunct2, THEN conjunct2, THEN conjunct2,
          THEN conjunct2, THEN conjunct2, THEN conjunct2, THEN conjunct2, THEN conjunct1] h8
  have c8: "setupLEDeviceWatcher (RoActivateInstance_Watcher platform_down) worker_idle = Some
                (emit (errorOccured UnknownError) (worker_idle\<lparr>m_leWatcher := snd
                (RoActivateInstance_Watcher platform_down)\<rparr>))"
    by simp
  have h9: "\<not> FAILED (fst (S_OK, Ptr (watcher_failing 0)))"
      "FAILED (put_ScanningMode (watcher_failing 0))"
    by (simp_all add: platform_objects)
  from failed_HRESULT_emits_UnknownError_and_returns_S_OK
         [where activation = "(S_OK, Ptr (watcher_failing 0))" and watcher = "watcher_failing 0"
                 and w = worker_idle,
          THEN conjunct2, THEN conjunct2, THEN conjunct2, THEN conjunct2, THEN conjunct2,
          THEN conjunct2, THEN conjunct2, THEN conjunct2, THEN conjunct2, THEN conjunct2,
          THEN conjunct1] h9
  have c9: "setupLEDeviceWatcher (S_OK, Ptr (watcher_failing 0)) worker_idle = Some (emit
                (errorOccured UnknownError) (worker_idle\<lparr>m_leWatcher := Ptr (watcher_failing
                0)\<rparr>))"
    by simp
  have h10: "\<not> FAILED (fst (S_OK, Ptr (watcher_failing 1)))"
      "\<not> FAILED (put_ScanningMode (watcher_failing 1))"
      "FAILED (fst (add_Received (watcher_failing 1) (m_leDeviceAddedToken worker_idle)))"
    by (simp_all add: platform_objects)
  from failed_HRESULT_emits_UnknownError_and_returns_S_OK
         [where activation = "(S_OK, Ptr (watcher_failing 1))" and watcher = "watcher_failing 1"
                 and w = worker_idle,
          THEN conjunct2, THEN conjunct2, THEN conjunct2, THEN conjunct2, THEN conjunct2,
          THEN conjunct2, THEN conjunct2, THEN conjunct2, THEN conjunct2, THEN conjunct2,
          THEN conjunct2, THEN conjunct1] h10
  have c10: "setupLEDeviceWatcher (S_OK, Ptr (watcher_failing 1)) worker_idle = Some (emit
                (errorOccured UnknownError) (worker_idle\<lparr>m_leWatcher := Ptr (watcher_failing
                1), m_leDeviceAddedToken := snd (add_Received (watcher_failing 1)
                (m_leDeviceAddedToken worker_idle))\<rparr>))"
    by simp
  have h11: "\<not> FAILED (fst (S_OK, Ptr (watcher_failing 2)))"
      "\<not> FAILED (put_ScanningMode (watcher_failing 2))"
      "\<not> FAILED (fst (add_Received (watcher_failing 2) (m_leDeviceAddedToken worker_idle)))"
      "FAILED (Start (watcher_failing 2))"
    by (simp_all add: platform_objects)
  from failed_HRESULT_emits_UnknownError_and_returns_S_OK
         [where activation = "(S_OK, Ptr (watcher_failing 2))" and watcher = "watcher_failing 2"
                 and w = worker_idle,
          THEN conjunct2, THEN conjunct2, THEN conjunct2, THEN conjunct2, THEN conjunct2,
          THEN conjunct2, THEN conjunct2, THEN conjunct2, THEN conjunct2, THEN conjunct2,
          THEN conjunct2, THEN conjunct2, THEN conjunct1] h11
  have c11: "setupLEDeviceWatcher (S_OK, Ptr (watcher_failing 2)) worker_idle = Some (emit
                (errorOccured UnknownError) (registerCallback AdvertisementReceived
                (worker_idle\<lparr>m_leWatcher := Ptr (watcher_failing 2), m_leDeviceAddedToken :=
                snd (add_Received (watcher_failing 2) (m_leDeviceAddedToken worker_idle))\<rparr>)))"
    by simp
  have h12: "FAILED (fst (IBluetoothLEAdvertisementReceivedEventArgs.get_BluetoothAddress
          event_without_address))"
    by (simp_all add: platform_objects)
  from failed_HRESULT_emits_UnknownError_and_returns_S_OK
         [where args = event_without_address and byteArrayPlus = QByteArray_plus_char and u =
                 "quint128_of []" and beyond = zeros_beyond and w = worker_idle,
          THEN conjunct2, THEN conjunct2, THEN conjunct2, THEN conjunct2, THEN conjunct2,
          THEN conjunct2, THEN conjunct2, THEN conjunct2, THEN conjunct2, THEN conjunct2,
          THEN conjunct2, THEN conjunct2, THEN conjunct2, THEN conjunct1] h12
  have c12: "onBluetoothLEAdvertisementReceived QByteArray_plus_char (quint128_of [])
                zeros_beyond event_without_address worker_idle = Some (S_OK, emit (errorOccured
                UnknownError) worker_idle)"
    by simp
  have h13: "FAILED (fst (GetResults (operation E_FAIL (Null :: IBluetoothDevice ComPtr))))"
    by (simp_all add: platform_objects)
  from failed_HRESULT_emits_UnknownError_and_returns_S_OK
         [where classicOp = "operation E_FAIL Null" and uninitialised = S_OK and w = worker_idle,
          THEN conjunct2, THEN conjunct2, THEN conjunct2, THEN conjunct2, THEN conjunct2,
          THEN conjunct2, THEN conjunct2, THEN conjunct2, THEN conjunct2, THEN conjunct2,
          THEN conjunct2, THEN conjunct2, THEN conjunct2, THEN conjunct2, THEN conjunct1] h13
  have c13: "onPairedClassicBluetoothDeviceFoundAsync (operation E_FAIL Null) Completed S_OK
                worker_idle = (S_OK, decrementPairedDevicesAndCheckFinished (emit (errorOccured
                UnknownError) worker_idle))"
    by simp
  have h14: "FAILED (fst (get_Error (snd (GetResults (operation S_OK no_rfcomm_services)))))"
    by (simp_all add: platform_objects)
  from failed_HRESULT_emits_UnknownError_and_returns_S_OK
         [where rfcommOp = "operation S_OK no_rfcomm_services" and bluetoothAddress =
                 "0x112233445566" and classOfDeviceInt = 0 and btName = "[]" and w = worker_idle,
          THEN conjunct2, THEN conjunct2, THEN conjunct2, THEN conjunct2, THEN conjunct2,
          THEN conjunct2, THEN conjunct2, THEN conjunct2, THEN conjunct2, THEN conjunct2,
          THEN conjunct2, THEN conjunct2, THEN conjunct2, THEN conjunct2, THEN conjunct2,
          THEN conjunct1] h14
  have c14: "onRfcommServicesReceived (operation S_OK no_rfcomm_services) Completed
                0x112233445566 0 [] worker_idle = (S_OK, decrementPairedDevicesAndCheckFinished
                (emit (errorOccured UnknownError) worker_idle))"
    by simp
  have h15: "FAILED (fst (IBluetoothLEDevice.get_Name le_device_unnamed))"
    by (simp_all add: platform_objects)
  from failed_HRESULT_emits_UnknownError_and_returns_S_OK
         [where dev = le_device_unnamed and w = worker_idle,
          THEN conjunct2, THEN conjunct2, THEN conjunct2, THEN conjunct2, THEN conjunct2,
          THEN conjunct2, THEN conjunct2, THEN conjunct2, THEN conjunct2, THEN conjunct2,
          THEN conjunct2, THEN conjunct2, THEN conjunct2, THEN conjunct2, THEN conjunct2,
          THEN conjunct2, THEN conjunct2, THEN conjunct2, THEN conjunct1] h15
  have c15: "onBluetoothLEDeviceFound (Ptr le_device_unnamed) worker_idle = (S_OK, emit
                (errorOccured UnknownError) worker_idle)"
    by simp
  have h16: "FAILED (fst (get_Status (snd (GetResults (operation S_OK no_gatt_services)))))"
    by (simp_all add: platform_objects)
  from failed_HRESULT_emits_UnknownError_and_returns_S_OK
         [where gattOp = "operation S_OK no_gatt_services" and info = sensor_battery and w =
                 worker_idle,
          THEN conjunct2, THEN conjunct2, THEN conjunct2, THEN conjunct2, THEN conjunct2,
          THEN conjunct2, THEN conjunct2, THEN conjunct2, THEN conjunct2, THEN conjunct2,
          THEN conjunct2, THEN conjunct2, THEN conjunct2, THEN conjunct2, THEN conjunct2,
          THEN conjunct2, THEN conjunct2, THEN conjunct2, THEN conjunct2, THEN conjunct1] h16
  have c16: "onLeServicesReceived (operation S_OK no_gatt_services) Completed sensor_battery
                worker_idle = (S_OK, emit (errorOccured UnknownError) worker_idle)"
    by simp
  have h17: "m_leDeviceStatics worker_scanning \<noteq> Null"
    by (simp_all add: platform_objects)
  from failed_HRESULT_emits_UnknownError_and_returns_S_OK
         [where args = event_heartRate and byteArrayPlus = QByteArray_plus_char and u =
                 "quint128_of []" and beyond = zeros_beyond and w = worker_scanning,
          THEN conjunct2, THEN conjunct2, THEN conjunct2, THEN conjunct2, THEN conjunct2,
          THEN conjunct2, THEN conjunct2, THEN conjunct2, THEN conjunct2, THEN conjunct2,
          THEN conjunct2, THEN conjunct2, THEN conjunct2, THEN conjunct2, THEN conjunct2,
          THEN conjunct2, THEN conjunct2, THEN conjunct2, THEN conjunct2, THEN conjunct2,
          THEN conjunct1] h17
  have c17: "\<exists>w'. onBluetoothLEAdvertisementReceived QByteArray_plus_char (quint128_of
                []) zeros_beyond event_heartRate worker_scanning = Some (S_OK, w') \<and>
                AdvertisementReceived_lambda (Some worker_scanning) QByteArray_plus_char
                (quint128_of []) zeros_beyond event_heartRate = Some (S_OK, Some w')"
    by simp
  have h18: "(if LowEnergyMethod = LowEnergyMethod then m_leDeviceStatics worker_scanning \<noteq> Null
          else m_deviceStatics worker_scanning \<noteq> Null)"
    by (simp_all add: platform_objects)
  from failed_HRESULT_emits_UnknownError_and_returns_S_OK
         [where mode = LowEnergyMethod and w = worker_scanning and discoveryOp = "operation S_OK
                 (IVector_of no_device_information [no_device_information])",
          THEN conjunct2, THEN conjunct2, THEN conjunct2, THEN conjunct2, THEN conjunct2,
          THEN conjunct2, THEN conjunct2, THEN conjunct2, THEN conjunct2, THEN conjunct2,
          THEN conjunct2, THEN conjunct2, THEN conjunct2, THEN conjunct2, THEN conjunct2,
          THEN conjunct2, THEN conjunct2, THEN conjunct2, THEN conjunct2, THEN conjunct2,
          THEN conjunct2, THEN conjunct1] h18
  have c18: "\<exists>w'. onDeviceDiscoveryFinished (operation S_OK (IVector_of
                no_device_information [no_device_information])) LowEnergyMethod worker_scanning =
                Some w' \<and> DeviceDiscoveryCompleted_lambda (Some worker_scanning)
                LowEnergyMethod (operation S_OK (IVector_of no_device_information
                [no_device_information])) Completed = Some (S_OK, Some w')"
    by simp
  show ?thesis
    using h0 c0 h1 c1 h2 c2 h3 c3 h4 c4 h5 c5 h6 c6 h7 c7 h8 c8 h9 c9 h10 c10 h11 c11 h12 c12 h13
            c13 h14 c14 h15 c15 h16 c16 h17 c17 h18 c18
    by (intro conjI)
qed

theorem destroyed_worker_callbacks_do_nothing_witness:
  "DeviceDiscoveryCompleted_lambda None ClassicMethod
     (operation S_OK (IVector_of no_device_information [])) Completed = Some (S_OK, None) \<and>
   AdvertisementReceived_lambda None QByteArray_plus_char (quint128_of []) zeros_beyond
       event_without_address =
     Some (S_OK, None) \<and>
   ClassicDeviceFromIdCompleted_lambda None S_OK (operation S_OK Null) Completed = (S_OK, None) \<and>
   LEDeviceFromIdCompleted_lambda None (operation S_OK Null) Completed = (S_OK, None) \<and>
   LEDeviceFromAddressCompleted_lambda None (operation S_OK Null) Completed = (S_OK, None) \<and>
   RfcommServicesCompleted_lambda None 0x112233445566 ''sensor'' 0
     (operation S_OK no_rfcomm_services) Completed = (S_OK, None) \<and>
   LeServicesCompleted_lambda None sensor_battery (operation S_OK no_gatt_services) Completed =
     (S_OK, None)"
  by (rule destroyed_worker_callbacks_do_nothing)

lemmas beacon_objects =
  beacon_def advertisement_def IVector_of_def data_section_def FAILED_def S_OK_def
  byteArrayFromBuffer_def

theorem advertisement_data_provenance_witness:
  "\<not> FAILED (fst (get_ManufacturerData beacon)) \<and>
   (1::nat) < unat (snd (get_Size (snd (get_ManufacturerData beacon)))) \<and>
   map_of (extractManufacturerData beacon) 0x0006 = Some [0x01] \<and>
   (\<exists>j<unat (snd (get_Size (snd (get_ManufacturerData beacon)))). \<exists>hrAt element hrId.
      GetAt (snd (get_ManufacturerData beacon)) (of_nat j) = (hrAt, element) \<and> \<not> FAILED hrAt \<and>
      get_CompanyId element = (hrId, 0x0006) \<and> \<not> FAILED hrId) \<and>
   (0x20::quint8) \<in> {0x16, 0x20, 0x21} \<and>
   (0::nat) < unat (snd (get_Size (snd (GetSectionsByType beacon 0x20)))) \<and>
   QBluetoothUuid_quint32 0x0000180F \<in> fst ` set (extractServiceData QByteArray_plus_char (quint128_of []) zeros_beyond beacon) \<and>
   (\<exists>bytes. \<exists>t\<in>{0x16, 0x20, 0x21 :: quint8}. \<exists>j<unat (snd (get_Size (snd (GetSectionsByType beacon t)))).
      (QBluetoothUuid_quint32 0x0000180F, bytes) \<in> set (extractServiceData QByteArray_plus_char (quint128_of []) zeros_beyond beacon) \<and>
      (\<exists>hrAt sec. GetAt (snd (GetSectionsByType beacon t)) (of_nat j) = (hrAt, sec) \<and>
         \<not> FAILED hrAt)) \<and>
   (16::nat) \<le> length ([1, 2, 3, 4, 5, 6, 7, 8, 9, 10, 11, 12, 13, 14, 15, 16] :: quint8 list) \<and>
   QBluetoothUuid_quint128
     (qToBigEndian_quint128 (quint128_of [])
        (qFromLittleEndian_quint128 (constData (zeros_beyond 0x21 0) [1, 2, 3, 4, 5, 6, 7, 8, 9, 10, 11, 12, 13, 14, 15, 16]))) =
     0x100F0E0D0C0B0A090807060504030201"
proof -
  note t = advertisement_data_provenance
             [where ad = beacon and byteArrayPlus = QByteArray_plus_char and u = "quint128_of []"
                and beyond = zeros_beyond]
  have m: "\<not> FAILED (fst (get_ManufacturerData beacon))"
      "(1::nat) < unat (snd (get_Size (snd (get_ManufacturerData beacon))))"
    by (simp_all add: beacon_objects)
  have mh: "get_ManufacturerData beacon = (S_OK, snd (get_ManufacturerData beacon))" "\<not> FAILED S_OK"
      "get_Size (snd (get_ManufacturerData beacon)) = (S_OK, 2)" "(1::nat) < unat (2::quint32)"
      "GetAt (snd (get_ManufacturerData beacon)) (of_nat 1) =
         (S_OK, \<lparr>get_CompanyId = (S_OK, 0x0006),
                 IBluetoothLEManufacturerData.get_Data = (S_OK, [0x01])\<rparr>)"
      "get_CompanyId \<lparr>get_CompanyId = (S_OK, 0x0006),
                      IBluetoothLEManufacturerData.get_Data = (S_OK, [0x01])\<rparr> = (S_OK, 0x0006)"
      "IBluetoothLEManufacturerData.get_Data
         \<lparr>get_CompanyId = (S_OK, 0x0006),
          IBluetoothLEManufacturerData.get_Data = (S_OK, [0x01])\<rparr> = (S_OK, [0x01])"
    by (simp_all add: beacon_objects)
  have ml: "\<forall>j'. 1 < j' \<and> j' < unat (2::quint32) \<and>
      \<not> FAILED (fst (GetAt (snd (get_ManufacturerData beacon)) (of_nat j'))) \<and> \<not>
        FAILED (fst (get_CompanyId (snd (GetAt (snd (get_ManufacturerData beacon)) (of_nat j')))))
        \<and> \<not> FAILED (fst (IBluetoothLEManufacturerData.get_Data (snd (GetAt (snd
        (get_ManufacturerData beacon)) (of_nat j')))))
      \<longrightarrow> snd (get_CompanyId (snd (GetAt (snd (get_ManufacturerData beacon)) (of_nat j')))) \<noteq> 0x0006"
    by auto
  from t [where hr = S_OK and elements = "snd (get_ManufacturerData beacon)" and hrSize = S_OK and count = 2 and j = 1
            and hrAt = S_OK and hrId = S_OK and hrData = S_OK and company = "0x0006"
            and elementBuffer = "[0x01]"
            and element = "\<lparr>get_CompanyId = (S_OK, 0x0006),
                              IBluetoothLEManufacturerData.get_Data = (S_OK, [0x01])\<rparr>",
          THEN conjunct2, THEN conjunct2, THEN conjunct1] mh ml
  have c1: "map_of (extractManufacturerData beacon) 0x0006 = Some [0x01]"
    by (simp add: byteArrayFromBuffer_def)
  then have mem: "(0x0006, [0x01]) \<in> set (extractManufacturerData beacon)"
    by (rule map_of_SomeD)
  from t [THEN conjunct2, THEN conjunct1] mem
  have c2: "\<exists>j<unat (snd (get_Size (snd (get_ManufacturerData beacon)))). \<exists>hrAt element hrId.
      GetAt (snd (get_ManufacturerData beacon)) (of_nat j) = (hrAt, element) \<and> \<not> FAILED hrAt \<and>
      get_CompanyId element = (hrId, 0x0006) \<and> \<not> FAILED hrId"
    by fast
  have s: "(0x20::quint8) \<in> {0x16, 0x20, 0x21}"
      "(0::nat) < unat (snd (get_Size (snd (GetSectionsByType beacon 0x20))))"
    by (simp_all add: beacon_objects)
  have sh: "\<forall>t'\<in>{0x16, 0x20, 0x21 :: quint8}. t' \<le> 0x20 \<longrightarrow>
        \<not> FAILED (fst (GetSectionsByType beacon t')) \<and>
        \<not> FAILED (fst (get_Size (snd (GetSectionsByType beacon t'))))"
      "GetAt (snd (GetSectionsByType beacon 0x20)) (of_nat 0) = (S_OK, data_section 0x20 [0x0F, 0x18, 0x00, 0x00, 0x64])"
      "get_DataType (data_section 0x20 [0x0F, 0x18, 0x00, 0x00, 0x64]) = (S_OK, 0x20)"
      "IBluetoothLEAdvertisementDataSection.get_Data
         (data_section 0x20 [0x0F, 0x18, 0x00, 0x00, 0x64]) = (S_OK, [0x0F, 0x18, 0x00, 0x00, 0x64])"
      "[0x0F, 0x18, 0x00, 0x00, 0x64] = byteArrayFromBuffer [0x0F, 0x18, 0x00, 0x00, 0x64]"
    by (simp_all add: beacon_objects)
  from t [where t = "0x20" and j = 0 and hrAt = S_OK and hrType = S_OK and hrData = S_OK
            and sectionType = "0x20" and buffer = "[0x0F, 0x18, 0x00, 0x00, 0x64]"
            and bufferData = "[0x0F, 0x18, 0x00, 0x00, 0x64]"
            and sec = "data_section 0x20 [0x0F, 0x18, 0x00, 0x00, 0x64]",
          THEN conjunct2, THEN conjunct2, THEN conjunct2, THEN conjunct2, THEN conjunct2,
          THEN conjunct1] s sh mh(2)
  have "QBluetoothUuid_quint32
          (qFromLittleEndian_quint32 (constData (zeros_beyond 0x20 0) [0x0F, 0x18, 0x00, 0x00, 0x64]))
        \<in> fst ` set (extractServiceData QByteArray_plus_char (quint128_of []) zeros_beyond beacon)"
    by simp
  then have c3: "QBluetoothUuid_quint32 0x0000180F \<in> fst ` set (extractServiceData QByteArray_plus_char (quint128_of []) zeros_beyond beacon)"
    by (simp add: qFromLittleEndian_quint32_def constData_def)
  then obtain bytes where b: "(QBluetoothUuid_quint32 0x0000180F, bytes) \<in> set (extractServiceData QByteArray_plus_char (quint128_of []) zeros_beyond beacon)"
    by auto
  from t [THEN conjunct2, THEN conjunct2, THEN conjunct2, THEN conjunct2, THEN conjunct1] b
  have c4: "\<exists>t\<in>{0x16, 0x20, 0x21 :: quint8}. \<exists>j<unat (snd (get_Size (snd (GetSectionsByType beacon t)))).
      \<exists>hrAt sec. GetAt (snd (GetSectionsByType beacon t)) (of_nat j) = (hrAt, sec) \<and> \<not> FAILED hrAt"
    by fast
  have l: "(16::nat) \<le> length ([1, 2, 3, 4, 5, 6, 7, 8, 9, 10, 11, 12, 13, 14, 15, 16] :: quint8 list)"
    by simp
  from t [where payload = "[1, 2, 3, 4, 5, 6, 7, 8, 9, 10, 11, 12, 13, 14, 15, 16]" and after = "zeros_beyond 0x21 0",
          THEN conjunct2, THEN conjunct2, THEN conjunct2, THEN conjunct2, THEN conjunct2,
          THEN conjunct2, THEN conjunct2, THEN conjunct2, THEN conjunct2] l
  have c5: "QBluetoothUuid_quint128
     (qToBigEndian_quint128 (quint128_of [])
        (qFromLittleEndian_quint128 (constData (zeros_beyond 0x21 0) [1, 2, 3, 4, 5, 6, 7, 8, 9, 10, 11, 12, 13, 14, 15, 16]))) =
     0x100F0E0D0C0B0A090807060504030201"
    by simp
  from c4 b have c4': "\<exists>bytes. \<exists>t\<in>{0x16, 0x20, 0x21 :: quint8}. \<exists>j<unat (snd (get_Size (snd (GetSectionsByType beacon t)))).
      (QBluetoothUuid_quint32 0x0000180F, bytes) \<in> set (extractServiceData QByteArray_plus_char (quint128_of []) zeros_beyond beacon) \<and>
      (\<exists>hrAt sec. GetAt (snd (GetSectionsByType beacon t)) (of_nat j) = (hrAt, sec) \<and>
         \<not> FAILED hrAt)"
    by blast
  show ?thesis
    using m c1 c2 s c3 c4' l c5 by (intro conjI)
qed

end
